theory Spec2Isabelle
  imports Complex_Main "HOL-Library.Sublist"
begin

section \<open>Types shared by the services (types/index.ts)\<close>

text \<open>
  JavaScript numbers are modelled as mathematical integers: every number the rate limiter
  handles is a millisecond timestamp, a window length or a request count, all far below
  \<open>2^53\<close>, where double arithmetic on integers is exact. The one non-integer value that
  can arise is \<open>Infinity\<close>, the value of \<open>Math.min()\<close> on no arguments, so a reset time
  or a retry-after is a \<open>number\<close>: finite or \<open>Infinity\<close>.
\<close>

datatype number = Fin int | Infinity

record RateLimit =
  requests :: int
  window :: int

text \<open>
  \<open>ServiceConfig\<close>: the fields \<open>apiKey\<close> and \<open>baseUrl\<close> are only read by the provider
  adapters, which are outside the model, and are left out.
\<close>

record ServiceConfig =
  rateLimit :: RateLimit
  retryAttempts :: int
  timeout :: int

record RateLimitInfo =
  remaining :: int
  resetTime :: number
  lastRequest :: int

record ServiceError =
  service :: string
  error :: string
  retryAfter :: "number option"

section \<open>The rate limiter (services/rateLimiter.ts)\<close>

text \<open>
  The two private maps of the class. \<open>Date.now()\<close> is an explicit argument \<open>now\<close> of
  every method that reads the clock.
\<close>

record RateLimiter =
  limits :: "string \<rightharpoonup> RateLimitInfo"
  requestCounts :: "string \<rightharpoonup> int list"

definition newRateLimiter :: RateLimiter where
  "newRateLimiter = \<lparr>limits = Map.empty, requestCounts = Map.empty\<rparr>"

text \<open>\<open>Math.min(...xs)\<close>: \<open>Infinity\<close> on the empty list.\<close>

fun Math_min :: "int list \<Rightarrow> number" where
  "Math_min [] = Infinity"
| "Math_min (x # xs) = Fin (fold min xs x)"

fun plus_number :: "number \<Rightarrow> int \<Rightarrow> number" where
  "plus_number (Fin a) b = Fin (a + b)"
| "plus_number Infinity b = Infinity"

fun minus_number :: "number \<Rightarrow> int \<Rightarrow> number" where
  "minus_number (Fin a) b = Fin (a - b)"
| "minus_number Infinity b = Infinity"

text \<open>\<open>Math.max(0, x)\<close>.\<close>

fun Math_max0 :: "number \<Rightarrow> number" where
  "Math_max0 (Fin a) = Fin (max 0 a)"
| "Math_max0 Infinity = Infinity"

text \<open>\<open>this.requestCounts.get(key) || []\<close>.\<close>

definition requestsOf :: "RateLimiter \<Rightarrow> string \<Rightarrow> int list" where
  "requestsOf rl key = (case requestCounts rl key of None \<Rightarrow> [] | Some ts \<Rightarrow> ts)"

text \<open>
  \<open>isAllowed\<close>. The \<open>limitInfo\<close> object is shared with the map, so each assignment to one
  of its fields is a write to the map entry. The result is the returned boolean and the
  limiter afterwards.
\<close>

definition isAllowed :: "int \<Rightarrow> string \<Rightarrow> ServiceConfig \<Rightarrow> RateLimiter \<Rightarrow> bool \<times> RateLimiter" where
  "isAllowed now key config rl =
    (let (limitInfo, rl1) =
           (case limits rl key of
              None \<Rightarrow>
                (let fresh = \<lparr>remaining = requests (rateLimit config),
                              resetTime = Fin (now + window (rateLimit config)),
                              lastRequest = 0\<rparr>
                 in (fresh, \<lparr>limits = (limits rl)(key \<mapsto> fresh),
                             requestCounts = (requestCounts rl)(key \<mapsto> [])\<rparr>))
            | Some li \<Rightarrow> (li, rl));
         validRequests =
           filter (\<lambda>timestamp. now - timestamp < window (rateLimit config)) (requestsOf rl1 key)
     in if int (length validRequests) \<ge> requests (rateLimit config)
        then (False,
              \<lparr>limits = (limits rl1)(key \<mapsto>
                  limitInfo\<lparr>resetTime := plus_number (Math_min validRequests) (window (rateLimit config)),
                            remaining := 0\<rparr>),
               requestCounts = (requestCounts rl1)(key \<mapsto> validRequests)\<rparr>)
        else (True,
              \<lparr>limits = (limits rl1)(key \<mapsto>
                  limitInfo\<lparr>remaining := requests (rateLimit config) - int (length validRequests) - 1,
                            lastRequest := now\<rparr>),
               requestCounts = (requestCounts rl1)(key \<mapsto> validRequests @ [now])\<rparr>))"

definition recordRequest :: "int \<Rightarrow> string \<Rightarrow> RateLimiter \<Rightarrow> RateLimiter" where
  "recordRequest now key rl =
    (case limits rl key of
       None \<Rightarrow> rl
     | Some limitInfo \<Rightarrow>
         if remaining limitInfo > 0
         then rl\<lparr>limits := (limits rl)(key \<mapsto>
                limitInfo\<lparr>remaining := remaining limitInfo - 1, lastRequest := now\<rparr>)\<rparr>
         else rl)"

definition getRemainingRequests :: "string \<Rightarrow> RateLimiter \<Rightarrow> int" where
  "getRemainingRequests key rl =
    (case limits rl key of None \<Rightarrow> 0 | Some limitInfo \<Rightarrow> remaining limitInfo)"

definition getResetTime :: "int \<Rightarrow> string \<Rightarrow> RateLimiter \<Rightarrow> number" where
  "getResetTime now key rl =
    (case limits rl key of None \<Rightarrow> Fin now | Some limitInfo \<Rightarrow> resetTime limitInfo)"

definition reset :: "string \<Rightarrow> RateLimiter \<Rightarrow> RateLimiter" where
  "reset key rl = \<lparr>limits = (limits rl)(key := None), requestCounts = (requestCounts rl)(key := None)\<rparr>"

definition getRetryAfter :: "int \<Rightarrow> string \<Rightarrow> ServiceConfig \<Rightarrow> RateLimiter \<Rightarrow> number" where
  "getRetryAfter now key config rl =
    (if int (length (requestsOf rl key)) < requests (rateLimit config) then Fin 0
     else Math_max0 (minus_number
            (plus_number (Math_min (requestsOf rl key)) (window (rateLimit config))) now))"

text \<open>
  A sequence of \<open>isAllowed\<close> calls for one provider key with its configuration, at the
  given clock readings; the answers, in order, and the limiter afterwards.
\<close>

fun isAllowed_calls :: "string \<Rightarrow> ServiceConfig \<Rightarrow> int list \<Rightarrow> RateLimiter \<Rightarrow> bool list \<times> RateLimiter" where
  "isAllowed_calls key config [] rl = ([], rl)"
| "isAllowed_calls key config (t # ts) rl =
    (let (ok, rl1) = isAllowed t key config rl;
         (oks, rl2) = isAllowed_calls key config ts rl1
     in (ok # oks, rl2))"

text \<open>The clock readings of the calls that were admitted.\<close>

definition admitted :: "int list \<Rightarrow> bool list \<Rightarrow> int list" where
  "admitted ts oks = map fst (filter snd (zip ts oks))"

text \<open>
  The timestamps an \<open>isAllowed\<close> call looks at: for a key with no \<open>limits\<close> entry the
  lazy initialisation first replaces the list by the empty one.
\<close>

definition recorded :: "RateLimiter \<Rightarrow> string \<Rightarrow> int list" where
  "recorded rl key = (if limits rl key = None then [] else requestsOf rl key)"

section \<open>Strings\<close>

text \<open>
  A string is a list of 8-bit characters, each standing for one code unit below 256;
  \<open>length\<close> is JavaScript's \<open>.length\<close> on such strings. \<open>trim\<close> removes the white space
  and line terminators that exist among these code units from both ends.
\<close>

definition isWhiteSpace :: "char \<Rightarrow> bool" where
  "isWhiteSpace c = (c = CHR 0x09 \<or> c = CHR 0x0A \<or> c = CHR 0x0B \<or> c = CHR 0x0C
                     \<or> c = CHR 0x0D \<or> c = CHR 0x20 \<or> c = CHR 0xA0)"

definition trim :: "string \<Rightarrow> string" where
  "trim s = rev (dropWhile isWhiteSpace (rev (dropWhile isWhiteSpace s)))"

text \<open>\<open>xs.join(sep)\<close>.\<close>

fun join :: "string \<Rightarrow> string list \<Rightarrow> string" where
  "join sep [] = []"
| "join sep [x] = x"
| "join sep (x # y # ys) = x @ sep @ join sep (y # ys)"

section \<open>Results, thrown values and the world around the services\<close>

record AudioRecognitionResult =
  title :: "string option"
  artist :: "string option"
  album :: "string option"
  duration :: "rat option"
  confidence :: "rat option"
  source :: string

record LyricsResult =
  lyrics :: string
  title :: string
  artist :: string
  source :: string

record TranslationResult =
  translatedText :: string
  sourceLanguage :: string
  targetLanguage :: string
  source :: string

text \<open>
  A thrown value: an \<open>Error\<close> with its message, or anything else. \<open>messageOr\<close> is the
  expression \<open>error instanceof Error ? error.message : fallback\<close>.
\<close>

datatype thrown = Error string | NonError

fun messageOr :: "thrown \<Rightarrow> string \<Rightarrow> string" where
  "messageOr (Error m) fallback = m"
| "messageOr NonError fallback = fallback"

text \<open>
  What one call of a provider adapter does: it throws, or it returns a result or
  \<open>null\<close>. The adapters talk to the network; the model takes the answer of each call as
  given by the environment.
\<close>

datatype 'a outcome = Throws thrown | Returns "'a option"

text \<open>The provider names of each service class (\<open>services = [...] as const\<close>).\<close>

datatype audioService = acrCloud | auddIo
datatype lyricsService = lyricsOvh | musixmatch | lyricsApi
datatype translationService = myMemory | libreTranslate | googleTranslateFree

fun audioName :: "audioService \<Rightarrow> string" where
  "audioName acrCloud = ''acrCloud''"
| "audioName auddIo = ''auddIo''"

fun lyricsName :: "lyricsService \<Rightarrow> string" where
  "lyricsName lyricsOvh = ''lyricsOvh''"
| "lyricsName musixmatch = ''musixmatch''"
| "lyricsName lyricsApi = ''lyricsApi''"

fun translationName :: "translationService \<Rightarrow> string" where
  "translationName myMemory = ''myMemory''"
| "translationName libreTranslate = ''libreTranslate''"
| "translationName googleTranslateFree = ''googleTranslateFree''"

text \<open>The rate limiter keys: \<open>`audioRecognition_${serviceName}`\<close> and so on.\<close>

definition audioKey :: "audioService \<Rightarrow> string" where
  "audioKey serviceName = ''audioRecognition_'' @ audioName serviceName"

definition lyricsKey :: "lyricsService \<Rightarrow> string" where
  "lyricsKey serviceName = ''lyrics_'' @ lyricsName serviceName"

definition translationKey :: "translationService \<Rightarrow> string" where
  "translationKey serviceName = ''translation_'' @ translationName serviceName"

text \<open>
  The environment of a run, fixed from outside: the successive readings of \<open>Date.now()\<close>
  and the answer of the \<open>n\<close>-th provider call made since the process started.
\<close>

record env =
  clock :: "nat \<Rightarrow> int"
  recognitionAdapter :: "nat \<Rightarrow> audioService \<Rightarrow> AudioRecognitionResult outcome"
  lyricsAdapter :: "nat \<Rightarrow> lyricsService \<Rightarrow> LyricsResult outcome"
  translationAdapter :: "nat \<Rightarrow> translationService \<Rightarrow> TranslationResult outcome"

text \<open>
  A log of what a run did, kept beside the state for the statements only (no decision
  of the program reads it): each answer of \<open>isAllowed\<close>, each \<open>recordRequest\<close>, each
  provider call and each \<open>setTimeout\<close> delay.
\<close>

datatype event = Admission string bool | Recorded string | Invoked string | Delay int

text \<open>
  The process-wide state: the \<open>rateLimiter\<close> singleton, the \<open>errors\<close> field of each of the
  three service singletons, how many clock readings and provider calls have happened,
  and the log.
\<close>

record world =
  rateLimiter :: RateLimiter
  audioErrors :: "ServiceError list"
  lyricsErrors :: "ServiceError list"
  translationErrors :: "ServiceError list"
  reads :: nat
  calls :: nat
  trace :: "event list"

definition newWorld :: world where
  "newWorld = \<lparr>rateLimiter = newRateLimiter, audioErrors = [], lyricsErrors = [],
               translationErrors = [], reads = 0, calls = 0, trace = []\<rparr>"

definition Date_now :: "env \<Rightarrow> world \<Rightarrow> int \<times> world" where
  "Date_now e w = (clock e (reads w), w\<lparr>reads := Suc (reads w)\<rparr>)"

text \<open>\<open>await new Promise(resolve => setTimeout(resolve, ms))\<close>.\<close>

definition delay :: "int \<Rightarrow> world \<Rightarrow> world" where
  "delay ms w = w\<lparr>trace := trace w @ [Delay ms]\<rparr>"

text \<open>
  The rate limiter methods as the services call them on the singleton. Each reads the
  clock where the method does.
\<close>

definition rateLimiter_isAllowed :: "env \<Rightarrow> string \<Rightarrow> ServiceConfig \<Rightarrow> world \<Rightarrow> bool \<times> world" where
  "rateLimiter_isAllowed e key config w =
    (let (now, w1) = Date_now e w;
         (ok, rl) = isAllowed now key config (rateLimiter w1)
     in (ok, w1\<lparr>rateLimiter := rl, trace := trace w1 @ [Admission key ok]\<rparr>))"

definition rateLimiter_recordRequest :: "env \<Rightarrow> string \<Rightarrow> world \<Rightarrow> world" where
  "rateLimiter_recordRequest e key w =
    (let w1 = w\<lparr>trace := trace w @ [Recorded key]\<rparr>
     in if (case limits (rateLimiter w1) key of
              None \<Rightarrow> False | Some limitInfo \<Rightarrow> remaining limitInfo > 0)
        then (let (now, w2) = Date_now e w1
              in w2\<lparr>rateLimiter := recordRequest now key (rateLimiter w2)\<rparr>)
        else w1)"

definition rateLimiter_getRetryAfter :: "env \<Rightarrow> string \<Rightarrow> ServiceConfig \<Rightarrow> world \<Rightarrow> number \<times> world" where
  "rateLimiter_getRetryAfter e key config w =
    (if int (length (requestsOf (rateLimiter w) key)) < requests (rateLimit config)
     then (Fin 0, w)
     else (let (now, w1) = Date_now e w
           in (getRetryAfter now key config (rateLimiter w1), w1)))"

section \<open>Configuration (config/freeApiConfig.ts)\<close>

fun FREE_API_CONFIGS_audioRecognition :: "audioService \<Rightarrow> ServiceConfig" where
  "FREE_API_CONFIGS_audioRecognition acrCloud =
     \<lparr>rateLimit = \<lparr>requests = 500, window = 30 * 24 * 60 * 60 * 1000\<rparr>,
      retryAttempts = 2, timeout = 10000\<rparr>"
| "FREE_API_CONFIGS_audioRecognition auddIo =
     \<lparr>rateLimit = \<lparr>requests = 1000, window = 30 * 24 * 60 * 60 * 1000\<rparr>,
      retryAttempts = 2, timeout = 10000\<rparr>"

fun FREE_API_CONFIGS_lyrics :: "lyricsService \<Rightarrow> ServiceConfig" where
  "FREE_API_CONFIGS_lyrics lyricsOvh =
     \<lparr>rateLimit = \<lparr>requests = 1000, window = 24 * 60 * 60 * 1000\<rparr>,
      retryAttempts = 3, timeout = 8000\<rparr>"
| "FREE_API_CONFIGS_lyrics musixmatch =
     \<lparr>rateLimit = \<lparr>requests = 2000, window = 24 * 60 * 60 * 1000\<rparr>,
      retryAttempts = 3, timeout = 8000\<rparr>"
| "FREE_API_CONFIGS_lyrics lyricsApi =
     \<lparr>rateLimit = \<lparr>requests = 500, window = 24 * 60 * 60 * 1000\<rparr>,
      retryAttempts = 2, timeout = 8000\<rparr>"

fun FREE_API_CONFIGS_translation :: "translationService \<Rightarrow> ServiceConfig" where
  "FREE_API_CONFIGS_translation libreTranslate =
     \<lparr>rateLimit = \<lparr>requests = 20, window = 24 * 60 * 60 * 1000\<rparr>,
      retryAttempts = 2, timeout = 15000\<rparr>"
| "FREE_API_CONFIGS_translation myMemory =
     \<lparr>rateLimit = \<lparr>requests = 1000, window = 24 * 60 * 60 * 1000\<rparr>,
      retryAttempts = 2, timeout = 10000\<rparr>"
| "FREE_API_CONFIGS_translation googleTranslateFree =
     \<lparr>rateLimit = \<lparr>requests = 100, window = 60 * 60 * 1000\<rparr>,
      retryAttempts = 1, timeout = 8000\<rparr>"

definition SUPPORTED_LANGUAGES_translation :: "(string \<times> string) list" where
  "SUPPORTED_LANGUAGES_translation =
    [(''en'', ''English''), (''es'', ''Spanish''), (''fr'', ''French''), (''de'', ''German''),
     (''it'', ''Italian''), (''pt'', ''Portuguese''), (''ru'', ''Russian''),
     (''ja'', ''Japanese''), (''ko'', ''Korean''), (''zh'', ''Chinese''), (''ar'', ''Arabic''),
     (''hi'', ''Hindi''), (''nl'', ''Dutch''), (''pl'', ''Polish''), (''sv'', ''Swedish'')]"

section \<open>Audio recognition with fallback (services/freeAudioRecognition.ts)\<close>

text \<open>One provider call: the environment's answer to call number \<open>calls w\<close>.\<close>

definition callRecognitionProvider ::
    "env \<Rightarrow> audioService \<Rightarrow> world \<Rightarrow> AudioRecognitionResult outcome \<times> world" where
  "callRecognitionProvider e serviceName w =
    (recognitionAdapter e (calls w) serviceName,
     w\<lparr>calls := Suc (calls w), trace := trace w @ [Invoked (audioName serviceName)]\<rparr>)"

text \<open>
  The \<open>for (const serviceName of this.services)\<close> loop of \<open>recognizeAudio\<close>, on the
  providers still to try. The \<open>try\<close> block covers the whole body, so a throwing adapter
  lands in the \<open>catch\<close>, which records the error and goes on.
\<close>

fun recognizeAudio_loop ::
    "env \<Rightarrow> audioService list \<Rightarrow> world \<Rightarrow> AudioRecognitionResult option \<times> world" where
  "recognizeAudio_loop e [] w = (None, w)"
| "recognizeAudio_loop e (serviceName # rest) w =
    (let config = FREE_API_CONFIGS_audioRecognition serviceName;
         (ok, w1) = rateLimiter_isAllowed e (audioKey serviceName) config w
     in if \<not> ok
        then (let (retryAfter, w2) = rateLimiter_getRetryAfter e (audioKey serviceName) config w1
              in recognizeAudio_loop e rest
                   (w2\<lparr>audioErrors := audioErrors w2 @
                      [\<lparr>service = audioName serviceName, error = ''Rate limit exceeded'',
                        retryAfter = Some retryAfter\<rparr>]\<rparr>))
        else (let (out, w2) = callRecognitionProvider e serviceName w1
              in case out of
                   Throws err \<Rightarrow>
                     recognizeAudio_loop e rest
                       (w2\<lparr>audioErrors := audioErrors w2 @
                          [\<lparr>service = audioName serviceName, error = messageOr err ''Unknown error'',
                            retryAfter = None\<rparr>]\<rparr>)
                 | Returns None \<Rightarrow> recognizeAudio_loop e rest w2
                 | Returns (Some result) \<Rightarrow>
                     (Some result, rateLimiter_recordRequest e (audioKey serviceName) w2)))"

text \<open>
  \<open>recognizeAudio\<close>: an \<open>async\<close> function, so its result is a thrown value (\<open>Inl\<close>) or
  the returned value (\<open>Inr\<close>). The audio bytes only go into the adapters' requests.
\<close>

type_synonym ArrayBuffer = "nat list"

definition recognizeAudio ::
    "env \<Rightarrow> ArrayBuffer \<Rightarrow> world \<Rightarrow> (thrown + AudioRecognitionResult option) \<times> world" where
  "recognizeAudio e audioBuffer w =
    (let (result, w1) = recognizeAudio_loop e [acrCloud, auddIo] (w\<lparr>audioErrors := []\<rparr>)
     in (Inr result, w1))"

fun audio_some :: "env \<Rightarrow> audioService list \<Rightarrow> world \<Rightarrow> bool \<times> world" where
  "audio_some e [] w = (False, w)"
| "audio_some e (serviceName # rest) w =
    (let (ok, w1) = rateLimiter_isAllowed e (audioKey serviceName)
                      (FREE_API_CONFIGS_audioRecognition serviceName) w
     in if ok then (True, w1) else audio_some e rest w1)"

text \<open>\<open>hasAvailableService\<close>: \<open>this.services.some(...)\<close> stops at the first \<open>true\<close>.\<close>

definition audio_hasAvailableService :: "env \<Rightarrow> world \<Rightarrow> bool \<times> world" where
  "audio_hasAvailableService e w = audio_some e [acrCloud, auddIo] w"

section \<open>Lyrics with fallback (services/freeLyricsService.ts)\<close>

definition callLyricsProvider ::
    "env \<Rightarrow> lyricsService \<Rightarrow> world \<Rightarrow> LyricsResult outcome \<times> world" where
  "callLyricsProvider e serviceName w =
    (lyricsAdapter e (calls w) serviceName,
     w\<lparr>calls := Suc (calls w), trace := trace w @ [Invoked (lyricsName serviceName)]\<rparr>)"

text \<open>\<open>result && result.lyrics.trim().length > 0\<close>.\<close>

fun populatedLyrics :: "LyricsResult option \<Rightarrow> bool" where
  "populatedLyrics None = False"
| "populatedLyrics (Some result) = (length (trim (lyrics result)) > 0)"

fun getLyrics_loop ::
    "env \<Rightarrow> lyricsService list \<Rightarrow> world \<Rightarrow> LyricsResult option \<times> world" where
  "getLyrics_loop e [] w = (None, w)"
| "getLyrics_loop e (serviceName # rest) w =
    (let config = FREE_API_CONFIGS_lyrics serviceName;
         (ok, w1) = rateLimiter_isAllowed e (lyricsKey serviceName) config w
     in if \<not> ok
        then (let (retryAfter, w2) = rateLimiter_getRetryAfter e (lyricsKey serviceName) config w1
              in getLyrics_loop e rest
                   (w2\<lparr>lyricsErrors := lyricsErrors w2 @
                      [\<lparr>service = lyricsName serviceName, error = ''Rate limit exceeded'',
                        retryAfter = Some retryAfter\<rparr>]\<rparr>))
        else (let (out, w2) = callLyricsProvider e serviceName w1
              in case out of
                   Throws err \<Rightarrow>
                     getLyrics_loop e rest
                       (w2\<lparr>lyricsErrors := lyricsErrors w2 @
                          [\<lparr>service = lyricsName serviceName, error = messageOr err ''Unknown error'',
                            retryAfter = None\<rparr>]\<rparr>)
                 | Returns result \<Rightarrow>
                     if populatedLyrics result
                     then (result, rateLimiter_recordRequest e (lyricsKey serviceName) w2)
                     else getLyrics_loop e rest w2))"

text \<open>
  \<open>getLyrics\<close>. The artist and the title are cleaned by \<open>cleanSearchTerm\<close> and only go
  into the adapters' requests. (A parameter whose name is also the name of a record field
  carries a prime, here and below.)
\<close>

definition getLyrics ::
    "env \<Rightarrow> string \<Rightarrow> string \<Rightarrow> world \<Rightarrow> (thrown + LyricsResult option) \<times> world" where
  "getLyrics e artist' title' w =
    (let (result, w1) = getLyrics_loop e [lyricsOvh, musixmatch, lyricsApi] (w\<lparr>lyricsErrors := []\<rparr>)
     in (Inr result, w1))"

fun lyrics_some :: "env \<Rightarrow> lyricsService list \<Rightarrow> world \<Rightarrow> bool \<times> world" where
  "lyrics_some e [] w = (False, w)"
| "lyrics_some e (serviceName # rest) w =
    (let (ok, w1) = rateLimiter_isAllowed e (lyricsKey serviceName)
                      (FREE_API_CONFIGS_lyrics serviceName) w
     in if ok then (True, w1) else lyrics_some e rest w1)"

definition lyrics_hasAvailableService :: "env \<Rightarrow> world \<Rightarrow> bool \<times> world" where
  "lyrics_hasAvailableService e w = lyrics_some e [lyricsOvh, musixmatch, lyricsApi] w"

section \<open>Translation with fallback (services/freeTranslationService.ts)\<close>

definition isSupportedLanguage :: "string \<Rightarrow> bool" where
  "isSupportedLanguage languageCode =
     list_ex (\<lambda>lang. fst lang = languageCode) SUPPORTED_LANGUAGES_translation"

text \<open>
  \<open>splitTextIntoChunks\<close>. \<open>splitSentences [] text\<close> is \<open>text.split(/[.!?]+/)\<close>: the
  pieces between maximal runs of sentence-ending characters, \<open>cur\<close> holding the piece
  being read, reversed. \<open>chunkSentences\<close> is the loop over the sentences with its two
  variables \<open>chunks\<close> and \<open>currentChunk\<close>, and the final push.
\<close>

definition isSentenceEnd :: "char \<Rightarrow> bool" where
  "isSentenceEnd c = (c = CHR ''.'' \<or> c = CHR ''!'' \<or> c = CHR ''?'')"

function splitSentences :: "string \<Rightarrow> string \<Rightarrow> string list" where
  "splitSentences cur [] = [rev cur]"
| "splitSentences cur (c # cs) =
    (if isSentenceEnd c then rev cur # splitSentences [] (dropWhile isSentenceEnd cs)
     else splitSentences (c # cur) cs)"
  by pat_completeness auto
termination
  by (relation "measure (\<lambda>(cur, s). length s)") (auto simp: le_imp_less_Suc length_dropWhile_le)

fun chunkSentences :: "nat \<Rightarrow> string list \<Rightarrow> string list \<Rightarrow> string \<Rightarrow> string list" where
  "chunkSentences maxChunkSize [] chunks currentChunk =
    (if currentChunk \<noteq> [] then chunks @ [currentChunk @ ''.''] else chunks)"
| "chunkSentences maxChunkSize (sentence # rest) chunks currentChunk =
    (let trimmedSentence = trim sentence
     in if trimmedSentence = [] then chunkSentences maxChunkSize rest chunks currentChunk
        else if length currentChunk + length trimmedSentence + 1 \<le> maxChunkSize
        then chunkSentences maxChunkSize rest chunks
               (currentChunk @ (if currentChunk \<noteq> [] then ''. '' else []) @ trimmedSentence)
        else chunkSentences maxChunkSize rest
               (if currentChunk \<noteq> [] then chunks @ [currentChunk @ ''.''] else chunks)
               trimmedSentence)"

definition splitTextIntoChunks :: "string \<Rightarrow> nat \<Rightarrow> string list" where
  "splitTextIntoChunks text maxChunkSize =
    (if length text \<le> maxChunkSize then [text]
     else chunkSentences maxChunkSize (splitSentences [] text) [] [])"

definition callTranslationProvider ::
    "env \<Rightarrow> translationService \<Rightarrow> world \<Rightarrow> TranslationResult outcome \<times> world" where
  "callTranslationProvider e serviceName w =
    (translationAdapter e (calls w) serviceName,
     w\<lparr>calls := Suc (calls w), trace := trace w @ [Invoked (translationName serviceName)]\<rparr>)"

text \<open>
  The inner loop of \<open>translateText\<close>, over the providers, for one chunk. It yields the
  value of \<open>chunkResult\<close> when the loop is left: \<open>null\<close> unless a provider returned a
  result (and the loop did \<open>break\<close>).
\<close>

fun translateChunk_loop ::
    "env \<Rightarrow> translationService list \<Rightarrow> world \<Rightarrow> TranslationResult option \<times> world" where
  "translateChunk_loop e [] w = (None, w)"
| "translateChunk_loop e (serviceName # rest) w =
    (let config = FREE_API_CONFIGS_translation serviceName;
         (ok, w1) = rateLimiter_isAllowed e (translationKey serviceName) config w
     in if \<not> ok
        then (let (retryAfter, w2) = rateLimiter_getRetryAfter e (translationKey serviceName) config w1
              in translateChunk_loop e rest
                   (w2\<lparr>translationErrors := translationErrors w2 @
                      [\<lparr>service = translationName serviceName, error = ''Rate limit exceeded'',
                        retryAfter = Some retryAfter\<rparr>]\<rparr>))
        else (let (out, w2) = callTranslationProvider e serviceName w1
              in case out of
                   Throws err \<Rightarrow>
                     translateChunk_loop e rest
                       (w2\<lparr>translationErrors := translationErrors w2 @
                          [\<lparr>service = translationName serviceName,
                            error = messageOr err ''Unknown error'', retryAfter = None\<rparr>]\<rparr>)
                 | Returns None \<Rightarrow> translateChunk_loop e rest w2
                 | Returns (Some chunkResult) \<Rightarrow>
                     (Some chunkResult,
                      rateLimiter_recordRequest e (translationKey serviceName) w2)))"

text \<open>
  The outer loop of \<open>translateText\<close>, over the chunks still to translate. \<open>many\<close> is
  \<open>chunks.length > 1\<close>. It yields \<open>None\<close> when a chunk failed (the function returns
  \<open>null\<close>), else the translated chunks and the last detected source language.
\<close>

fun translateChunks ::
    "env \<Rightarrow> string list \<Rightarrow> bool \<Rightarrow> string list \<Rightarrow> string \<Rightarrow> world
       \<Rightarrow> (string list \<times> string) option \<times> world" where
  "translateChunks e [] many translatedChunks sourceLanguage' w =
     (Some (translatedChunks, sourceLanguage'), w)"
| "translateChunks e (chunk # rest) many translatedChunks sourceLanguage' w =
    (let (chunkResult, w1) =
           translateChunk_loop e [myMemory, libreTranslate, googleTranslateFree] w
     in case chunkResult of
          None \<Rightarrow> (None, w1)
        | Some r \<Rightarrow>
            translateChunks e rest many (translatedChunks @ [translatedText r])
              (TranslationResult.sourceLanguage r)
              (if many then delay 1000 w1 else w1))"

definition translateText ::
    "env \<Rightarrow> string \<Rightarrow> string \<Rightarrow> string option \<Rightarrow> world
       \<Rightarrow> (thrown + TranslationResult option) \<times> world" where
  "translateText e text targetLanguage' sourceLanguage' w =
    (let w0 = w\<lparr>translationErrors := []\<rparr>
     in if \<not> isSupportedLanguage targetLanguage'
        then (Inl (Error (''Unsupported target language: '' @ targetLanguage')), w0)
        else (let chunks = splitTextIntoChunks text 1000;
                  (r, w1) = translateChunks e chunks (length chunks > 1) []
                              (case sourceLanguage' of None \<Rightarrow> ''auto'' | Some l \<Rightarrow> l) w0
              in case r of
                   None \<Rightarrow> (Inr None, w1)
                 | Some (translatedChunks, detected) \<Rightarrow>
                     if length translatedChunks = 0 then (Inr None, w1)
                     else (Inr (Some \<lparr>translatedText = join [CHR 0x0A] translatedChunks,
                                      sourceLanguage = detected,
                                      targetLanguage = targetLanguage',
                                      source = (if length translatedChunks > 0 then ''Combined''
                                                else ''Unknown'')\<rparr>), w1)))"

fun translation_some :: "env \<Rightarrow> translationService list \<Rightarrow> world \<Rightarrow> bool \<times> world" where
  "translation_some e [] w = (False, w)"
| "translation_some e (serviceName # rest) w =
    (let (ok, w1) = rateLimiter_isAllowed e (translationKey serviceName)
                      (FREE_API_CONFIGS_translation serviceName) w
     in if ok then (True, w1) else translation_some e rest w1)"

definition translation_hasAvailableService :: "env \<Rightarrow> world \<Rightarrow> bool \<times> world" where
  "translation_hasAvailableService e w =
     translation_some e [myMemory, libreTranslate, googleTranslateFree] w"

section \<open>The orchestrator (services/lyricsTranslatorService.ts)\<close>

text \<open>
  The records of the orchestrator. Several share field names with the result records; a
  field is written with its record's name wherever the plain name would mean another.
\<close>

datatype healthStatus = healthy | degraded | unhealthy

record HealthServices =
  audioRecognition :: bool
  lyrics :: bool
  translation :: bool

record HealthReport =
  status :: healthStatus
  services :: HealthServices
  details :: "string list"

record BatchRequest =
  artist :: string
  title :: string
  targetLanguage :: string
  sourceLanguage :: "string option"

record SongInfo =
  artist :: string
  title :: string

record TranslationOptions =
  targetLanguage :: string
  sourceLanguage :: "string option"
  skipAudioRecognition :: "bool option"
  manualSongInfo :: "SongInfo option"
  qualityThreshold :: "rat option"

record LyricsTranslationPipeline =
  audioRecognition :: "AudioRecognitionResult option"
  lyrics :: "LyricsResult option"
  translation :: "TranslationResult option"
  errors :: "ServiceError list"
  processingTime :: int
  confidence :: rat

definition maxRetries :: nat where
  "maxRetries = 2"

definition retryDelay :: int where
  "retryDelay = 1000"

text \<open>
  The three retry wrappers. Each is the \<open>for (attempt = 0; attempt < maxRetries;
  attempt++)\<close> loop from the given \<open>attempt\<close> on: the \<open>try\<close> holds the service call and
  the \<open>return\<close> of a result that passes the test; the \<open>catch\<close> waits \<open>retryDelay\<close> unless
  this was the last attempt; \<open>return null\<close> follows the loop.
\<close>

function recognizeAudioWithRetry_loop ::
    "env \<Rightarrow> ArrayBuffer \<Rightarrow> nat \<Rightarrow> world \<Rightarrow> (thrown + AudioRecognitionResult option) \<times> world" where
  "recognizeAudioWithRetry_loop e audioBuffer attempt w =
    (if attempt < maxRetries
     then (case recognizeAudio e audioBuffer w of
             (Inr result, w1) \<Rightarrow>
               if result \<noteq> None then (Inr result, w1)
               else recognizeAudioWithRetry_loop e audioBuffer (attempt + 1) w1
           | (Inl err, w1) \<Rightarrow>
               recognizeAudioWithRetry_loop e audioBuffer (attempt + 1)
                 (if attempt = maxRetries - 1 then w1 else delay retryDelay w1))
     else (Inr None, w))"
  by pat_completeness auto
termination
  by (relation "measure (\<lambda>(e, audioBuffer, attempt, w). maxRetries - attempt)") auto

definition recognizeAudioWithRetry ::
    "env \<Rightarrow> ArrayBuffer \<Rightarrow> world \<Rightarrow> (thrown + AudioRecognitionResult option) \<times> world" where
  "recognizeAudioWithRetry e audioBuffer w = recognizeAudioWithRetry_loop e audioBuffer 0 w"

function getLyricsWithRetry_loop ::
    "env \<Rightarrow> string \<Rightarrow> string \<Rightarrow> nat \<Rightarrow> world \<Rightarrow> (thrown + LyricsResult option) \<times> world" where
  "getLyricsWithRetry_loop e artist' title' attempt w =
    (if attempt < maxRetries
     then (case getLyrics e artist' title' w of
             (Inr result, w1) \<Rightarrow>
               if populatedLyrics result then (Inr result, w1)
               else getLyricsWithRetry_loop e artist' title' (attempt + 1) w1
           | (Inl err, w1) \<Rightarrow>
               getLyricsWithRetry_loop e artist' title' (attempt + 1)
                 (if attempt = maxRetries - 1 then w1 else delay retryDelay w1))
     else (Inr None, w))"
  by pat_completeness auto
termination
  by (relation "measure (\<lambda>(e, artist', title', attempt, w). maxRetries - attempt)") auto

definition getLyricsWithRetry ::
    "env \<Rightarrow> string \<Rightarrow> string \<Rightarrow> world \<Rightarrow> (thrown + LyricsResult option) \<times> world" where
  "getLyricsWithRetry e artist' title' w = getLyricsWithRetry_loop e artist' title' 0 w"

text \<open>\<open>result && result.translatedText.trim().length > 0\<close>.\<close>

fun populatedTranslation :: "TranslationResult option \<Rightarrow> bool" where
  "populatedTranslation None = False"
| "populatedTranslation (Some result) = (length (trim (translatedText result)) > 0)"

function translateWithRetry_loop ::
    "env \<Rightarrow> string \<Rightarrow> string \<Rightarrow> string option \<Rightarrow> nat \<Rightarrow> world
       \<Rightarrow> (thrown + TranslationResult option) \<times> world" where
  "translateWithRetry_loop e text targetLanguage' sourceLanguage' attempt w =
    (if attempt < maxRetries
     then (case translateText e text targetLanguage' sourceLanguage' w of
             (Inr result, w1) \<Rightarrow>
               if populatedTranslation result then (Inr result, w1)
               else translateWithRetry_loop e text targetLanguage' sourceLanguage' (attempt + 1) w1
           | (Inl err, w1) \<Rightarrow>
               translateWithRetry_loop e text targetLanguage' sourceLanguage' (attempt + 1)
                 (if attempt = maxRetries - 1 then w1 else delay retryDelay w1))
     else (Inr None, w))"
  by pat_completeness auto
termination
  by (relation "measure (\<lambda>(e, text, targetLanguage', sourceLanguage', attempt, w).
                          maxRetries - attempt)") auto

definition translateWithRetry ::
    "env \<Rightarrow> string \<Rightarrow> string \<Rightarrow> string option \<Rightarrow> world
       \<Rightarrow> (thrown + TranslationResult option) \<times> world" where
  "translateWithRetry e text targetLanguage' sourceLanguage' w =
     translateWithRetry_loop e text targetLanguage' sourceLanguage' 0 w"

text \<open>
  \<open>calculateOverallConfidence\<close>, in exact rational arithmetic (the source computes in
  doubles; no statement below depends on the value).
\<close>

definition calculateOverallConfidence :: "LyricsTranslationPipeline \<Rightarrow> rat" where
  "calculateOverallConfidence result =
    (let c0 = (1 / 2 :: rat);
         c1 = (case audioRecognition result of
                 None \<Rightarrow> c0
               | Some ar \<Rightarrow>
                   (case AudioRecognitionResult.confidence ar of
                      None \<Rightarrow> c0
                    | Some c \<Rightarrow> if c \<noteq> 0 then max c0 (c * (3 / 10)) else c0));
         c2 = (case lyrics result of
                 None \<Rightarrow> c1
               | Some l \<Rightarrow>
                   c1 + (if length (LyricsResult.lyrics l) > 100 then 1 / 10 else 0)
                      + (if length (LyricsResult.lyrics l) > 500 then 1 / 10 else 0)
                      + (if LyricsResult.source l = ''Musixmatch'' then 1 / 20 else 0));
         c3 = (case translation result of
                 None \<Rightarrow> c2
               | Some t \<Rightarrow>
                   (let lengthRatio =
                          (of_nat (length (translatedText t)) :: rat) /
                          of_nat (case lyrics result of
                                    None \<Rightarrow> 1
                                  | Some l \<Rightarrow> if length (LyricsResult.lyrics l) = 0 then 1
                                              else length (LyricsResult.lyrics l))
                    in c2 + (if 3 / 10 < lengthRatio \<and> lengthRatio < 3 then 1 / 10 else 0)
                          + (if TranslationResult.source t = ''MyMemory'' then 1 / 20 else 0)));
         c4 = c3 - of_nat (length (errors result)) * (1 / 10)
     in min 1 (max 0 c4))"

text \<open>
  \<open>result.processingTime = Date.now() - startTime; return result;\<close> the way every path
  through \<open>translateFromAudio\<close> and \<open>translateLyricsOnly\<close> ends.
\<close>

definition finish ::
    "env \<Rightarrow> int \<Rightarrow> LyricsTranslationPipeline \<Rightarrow> world
       \<Rightarrow> (thrown + LyricsTranslationPipeline) \<times> world" where
  "finish e startTime result w =
    (let (now, w1) = Date_now e w
     in (Inr (result\<lparr>processingTime := now - startTime\<rparr>), w1))"

definition pushError ::
    "string \<Rightarrow> string \<Rightarrow> LyricsTranslationPipeline \<Rightarrow> LyricsTranslationPipeline" where
  "pushError service' message result =
     result\<lparr>errors := errors result @ [\<lparr>service = service', error = message, retryAfter = None\<rparr>]\<rparr>"

text \<open>
  \<open>translateFromAudio\<close>, in its three steps. A call that throws inside the \<open>try\<close> block
  goes to the \<open>catch\<close>, which pushes the \<open>pipeline\<close> error onto the result built so far.
\<close>

definition translateFromAudio_catch ::
    "env \<Rightarrow> int \<Rightarrow> LyricsTranslationPipeline \<Rightarrow> thrown \<Rightarrow> world
       \<Rightarrow> (thrown + LyricsTranslationPipeline) \<times> world" where
  "translateFromAudio_catch e startTime result err w =
     finish e startTime (pushError ''pipeline'' (messageOr err ''Unknown pipeline error'') result) w"

definition translateFromAudio_step3 ::
    "env \<Rightarrow> TranslationOptions \<Rightarrow> int \<Rightarrow> LyricsTranslationPipeline \<Rightarrow> LyricsResult \<Rightarrow> world
       \<Rightarrow> (thrown + LyricsTranslationPipeline) \<times> world" where
  "translateFromAudio_step3 e options startTime result lyricsResult w =
    (case translateWithRetry e (LyricsResult.lyrics lyricsResult)
            (TranslationOptions.targetLanguage options)
            (TranslationOptions.sourceLanguage options) w of
       (Inl err, w1) \<Rightarrow> translateFromAudio_catch e startTime result err w1
     | (Inr tr, w1) \<Rightarrow>
         (let result1 = result\<lparr>translation := tr\<rparr>
          in if tr = None
             then finish e startTime
                    (pushError ''translation''
                       ''Failed to translate lyrics from all available services'' result1) w1
             else finish e startTime
                    (result1\<lparr>confidence := calculateOverallConfidence result1\<rparr>) w1))"

definition translateFromAudio_step2 ::
    "env \<Rightarrow> TranslationOptions \<Rightarrow> int \<Rightarrow> LyricsTranslationPipeline \<Rightarrow> world
       \<Rightarrow> (thrown + LyricsTranslationPipeline) \<times> world" where
  "translateFromAudio_step2 e options startTime result w =
    (let songInfo =
           (case manualSongInfo options of
              Some info \<Rightarrow> info
            | None \<Rightarrow>
                \<lparr>SongInfo.artist = (case audioRecognition result of
                              None \<Rightarrow> []
                            | Some ar \<Rightarrow> (case AudioRecognitionResult.artist ar of
                                            None \<Rightarrow> [] | Some a \<Rightarrow> a)),
                 SongInfo.title = (case audioRecognition result of
                             None \<Rightarrow> []
                           | Some ar \<Rightarrow> (case AudioRecognitionResult.title ar of
                                           None \<Rightarrow> [] | Some t \<Rightarrow> t))\<rparr>)
     in if SongInfo.artist songInfo = [] \<or> SongInfo.title songInfo = []
        then finish e startTime
               (pushError ''lyrics'' ''Missing artist or title information'' result) w
        else (case getLyricsWithRetry e (SongInfo.artist songInfo) (SongInfo.title songInfo) w of
                (Inl err, w1) \<Rightarrow> translateFromAudio_catch e startTime result err w1
              | (Inr lr, w1) \<Rightarrow>
                  (let result1 = result\<lparr>lyrics := lr\<rparr>
                   in case lr of
                        None \<Rightarrow>
                          finish e startTime
                            (pushError ''lyrics''
                               ''Failed to fetch lyrics from all available services'' result1) w1
                      | Some lyricsResult \<Rightarrow>
                          translateFromAudio_step3 e options startTime result1 lyricsResult w1)))"

definition translateFromAudio ::
    "env \<Rightarrow> ArrayBuffer \<Rightarrow> TranslationOptions \<Rightarrow> world
       \<Rightarrow> (thrown + LyricsTranslationPipeline) \<times> world" where
  "translateFromAudio e audioBuffer options w =
    (let (startTime, w0) = Date_now e w;
         result = \<lparr>audioRecognition = None, lyrics = None, translation = None, errors = [],
                   processingTime = 0, confidence = 0\<rparr>
     in if skipAudioRecognition options \<noteq> Some True \<and> manualSongInfo options = None
        then (case recognizeAudioWithRetry e audioBuffer w0 of
                (Inl err, w1) \<Rightarrow> translateFromAudio_catch e startTime result err w1
              | (Inr ar, w1) \<Rightarrow>
                  (let result1 = result\<lparr>audioRecognition := ar\<rparr>
                   in if ar = None
                      then finish e startTime
                             (pushError ''audioRecognition''
                                ''Failed to recognize audio from all available services'' result1) w1
                      else translateFromAudio_step2 e options startTime result1 w1))
        else translateFromAudio_step2 e options startTime result w0)"

definition translateFromSongInfo ::
    "env \<Rightarrow> string \<Rightarrow> string \<Rightarrow> string \<Rightarrow> string option \<Rightarrow> world
       \<Rightarrow> (thrown + LyricsTranslationPipeline) \<times> world" where
  "translateFromSongInfo e artist' title' targetLanguage' sourceLanguage' w =
     translateFromAudio e []
       \<lparr>TranslationOptions.targetLanguage = targetLanguage',
        TranslationOptions.sourceLanguage = sourceLanguage',
        skipAudioRecognition = Some True,
        manualSongInfo = Some \<lparr>SongInfo.artist = artist', SongInfo.title = title'\<rparr>,
        qualityThreshold = None\<rparr> w"

text \<open>\<open>songInfo?.artist || 'Unknown Artist'\<close> and the same for the title.\<close>

definition manualLyrics :: "string \<Rightarrow> SongInfo option \<Rightarrow> LyricsResult" where
  "manualLyrics lyrics' songInfo =
    \<lparr>LyricsResult.lyrics = lyrics',
     LyricsResult.title = (case songInfo of
                None \<Rightarrow> ''Unknown Title''
              | Some info \<Rightarrow> if SongInfo.title info = [] then ''Unknown Title''
                             else SongInfo.title info),
     LyricsResult.artist = (case songInfo of
                 None \<Rightarrow> ''Unknown Artist''
               | Some info \<Rightarrow> if SongInfo.artist info = [] then ''Unknown Artist''
                              else SongInfo.artist info),
     LyricsResult.source = ''Manual''\<rparr>"

definition translateLyricsOnly ::
    "env \<Rightarrow> string \<Rightarrow> string \<Rightarrow> string option \<Rightarrow> SongInfo option \<Rightarrow> world
       \<Rightarrow> (thrown + LyricsTranslationPipeline) \<times> world" where
  "translateLyricsOnly e lyrics' targetLanguage' sourceLanguage' songInfo w =
    (let (startTime, w0) = Date_now e w;
         result = \<lparr>LyricsTranslationPipeline.audioRecognition = None,
                   LyricsTranslationPipeline.lyrics = Some (manualLyrics lyrics' songInfo),
                   LyricsTranslationPipeline.translation = None, errors = [],
                   processingTime = 0, LyricsTranslationPipeline.confidence = 0\<rparr>
     in case translateWithRetry e lyrics' targetLanguage' sourceLanguage' w0 of
          (Inl err, w1) \<Rightarrow>
            finish e startTime
              (pushError ''translation'' (messageOr err ''Translation failed'') result) w1
        | (Inr tr, w1) \<Rightarrow>
            (let result1 = result\<lparr>translation := tr\<rparr>;
                 result2 = (if tr = None
                            then pushError ''translation''
                                   ''Failed to translate lyrics from all available services'' result1
                            else result1)
             in finish e startTime
                  (result2\<lparr>confidence := calculateOverallConfidence result2\<rparr>) w1))"

text \<open>
  The loop of \<open>batchTranslate\<close> on the requests still to process; \<open>rest \<noteq> []\<close> is
  \<open>i < requests.length - 1\<close>.
\<close>

fun batchTranslate_loop ::
    "env \<Rightarrow> BatchRequest list \<Rightarrow> LyricsTranslationPipeline list \<Rightarrow> world
       \<Rightarrow> LyricsTranslationPipeline list \<times> world" where
  "batchTranslate_loop e [] results w = (results, w)"
| "batchTranslate_loop e (request # rest) results w =
    (let (r, w1) = translateFromSongInfo e (BatchRequest.artist request) (BatchRequest.title request)
                     (BatchRequest.targetLanguage request) (BatchRequest.sourceLanguage request) w;
         results1 = results @
           [case r of
              Inr result \<Rightarrow> result
            | Inl err \<Rightarrow>
                \<lparr>LyricsTranslationPipeline.audioRecognition = None,
                 LyricsTranslationPipeline.lyrics = None,
                 LyricsTranslationPipeline.translation = None,
                 errors = [\<lparr>service = ''pipeline'',
                            error = messageOr err ''Batch processing failed'',
                            retryAfter = None\<rparr>],
                 processingTime = 0, LyricsTranslationPipeline.confidence = 0\<rparr>];
         w2 = (if rest \<noteq> [] then delay 2000 w1 else w1)
     in batchTranslate_loop e rest results1 w2)"

definition batchTranslate ::
    "env \<Rightarrow> BatchRequest list \<Rightarrow> world \<Rightarrow> (thrown + LyricsTranslationPipeline list) \<times> world" where
  "batchTranslate e requests' w =
    (let (results, w1) = batchTranslate_loop e requests' [] w in (Inr results, w1))"

definition getAllErrors :: "world \<Rightarrow> ServiceError list" where
  "getAllErrors w = audioErrors w @ lyricsErrors w @ translationErrors w"

definition healthCheck :: "env \<Rightarrow> world \<Rightarrow> HealthReport \<times> world" where
  "healthCheck e w =
    (let (a, w1) = audio_hasAvailableService e w;
         (l, w2) = lyrics_hasAvailableService e w1;
         (t, w3) = translation_hasAvailableService e w2;
         availableServices = length (filter (\<lambda>b. b) [a, l, t]);
         details' = (if \<not> a then [''Audio recognition services unavailable''] else [])
                  @ (if \<not> l then [''Lyrics services unavailable''] else [])
                  @ (if \<not> t then [''Translation services unavailable''] else [])
     in (\<lparr>status = (if availableServices = 3 then healthy
                     else if availableServices \<ge> 1 then degraded
                     else unhealthy),
          services = \<lparr>HealthServices.audioRecognition = a, HealthServices.lyrics = l,
                      HealthServices.translation = t\<rparr>,
          details = details'\<rparr>, w3))"

section \<open>Reading the log\<close>

text \<open>
  The keys \<open>isAllowed\<close> was asked about, the names of the providers called and the keys
  given to \<open>recordRequest\<close>, each in the order of the log; and the number of delays.
\<close>

fun consulted :: "event list \<Rightarrow> string list" where
  "consulted [] = []"
| "consulted (Admission key ok # evs) = key # consulted evs"
| "consulted (ev # evs) = consulted evs"

fun invoked :: "event list \<Rightarrow> string list" where
  "invoked [] = []"
| "invoked (Invoked name # evs) = name # invoked evs"
| "invoked (ev # evs) = invoked evs"

fun recordedKeys :: "event list \<Rightarrow> string list" where
  "recordedKeys [] = []"
| "recordedKeys (Recorded key # evs) = key # recordedKeys evs"
| "recordedKeys (ev # evs) = recordedKeys evs"

fun delays :: "event list \<Rightarrow> int list" where
  "delays [] = []"
| "delays (Delay ms # evs) = ms # delays evs"
| "delays (ev # evs) = delays evs"

section \<open>Notions used in the statements\<close>

subsection \<open>Worlds that differ only in the errors lists\<close>

text \<open>Two worlds that differ only in what the errors lists hold.\<close>

definition sameButErrors :: "world \<Rightarrow> world \<Rightarrow> bool" where
  "sameButErrors w w' \<longleftrightarrow>
     rateLimiter w = rateLimiter w' \<and> reads w = reads w' \<and> calls w = calls w' \<and> trace w = trace w'"

text \<open>
  A computation is blind to the errors lists when, started in two worlds that differ only
  in them, it returns the same value and leaves worlds that again differ only in them;
  likewise for a step that only changes the world.
\<close>

definition errorsBlind :: "(world \<Rightarrow> 'a \<times> world) \<Rightarrow> bool" where
  "errorsBlind f \<longleftrightarrow>
     (\<forall>w w'. sameButErrors w w' \<longrightarrow>
        fst (f w) = fst (f w') \<and> sameButErrors (snd (f w)) (snd (f w')))"

definition errorsBlindStep :: "(world \<Rightarrow> world) \<Rightarrow> bool" where
  "errorsBlindStep h \<longleftrightarrow> (\<forall>w w'. sameButErrors w w' \<longrightarrow> sameButErrors (h w) (h w'))"

text \<open>A computation, or a step, that leaves a field of the world as it found it.\<close>

definition keeps :: "(world \<Rightarrow> 'b) \<Rightarrow> (world \<Rightarrow> 'a \<times> world) \<Rightarrow> bool" where
  "keeps field f \<longleftrightarrow> (\<forall>w. field (snd (f w)) = field w)"

definition keepsStep :: "(world \<Rightarrow> 'b) \<Rightarrow> (world \<Rightarrow> world) \<Rightarrow> bool" where
  "keepsStep field h \<longleftrightarrow> (\<forall>w. field (h w) = field w)"

subsection \<open>Pipelines that report how they ended\<close>

text \<open>
  The errors that end a pipeline run, and what a returned pipeline looks like: it holds
  a translation and no error, or no translation and exactly one of these errors.
  \<open>missingSongInfo\<close> is the second of them.
\<close>

definition fatalErrors :: "ServiceError list" where
  "fatalErrors =
    [\<lparr>service = ''audioRecognition'',
      error = ''Failed to recognize audio from all available services'', retryAfter = None\<rparr>,
     \<lparr>service = ''lyrics'', error = ''Missing artist or title information'', retryAfter = None\<rparr>,
     \<lparr>service = ''lyrics'',
      error = ''Failed to fetch lyrics from all available services'', retryAfter = None\<rparr>,
     \<lparr>service = ''translation'',
      error = ''Failed to translate lyrics from all available services'', retryAfter = None\<rparr>]"

definition reported :: "LyricsTranslationPipeline \<Rightarrow> bool" where
  "reported p \<longleftrightarrow>
     (LyricsTranslationPipeline.translation p \<noteq> None \<and> errors p = [])
   \<or> (LyricsTranslationPipeline.translation p = None \<and> (\<exists>e\<in>set fatalErrors. errors p = [e]))"

definition missingSongInfo :: ServiceError where
  "missingSongInfo =
     \<lparr>service = ''lyrics'', error = ''Missing artist or title information'', retryAfter = None\<rparr>"

text \<open>The three errors with which a stage that came back empty ends a run.\<close>

definition recognitionFailed :: ServiceError where
  "recognitionFailed =
     \<lparr>service = ''audioRecognition'',
      error = ''Failed to recognize audio from all available services'', retryAfter = None\<rparr>"

definition lyricsFailed :: ServiceError where
  "lyricsFailed =
     \<lparr>service = ''lyrics'',
      error = ''Failed to fetch lyrics from all available services'', retryAfter = None\<rparr>"

definition translationFailed :: ServiceError where
  "translationFailed =
     \<lparr>service = ''translation'',
      error = ''Failed to translate lyrics from all available services'', retryAfter = None\<rparr>"

text \<open>
  The recognition stage runs unless the options skip it or bring the song info; the song
  info is the one of the options, or else the artist and the title recognised (each
  empty when missing); the options \<open>translateFromSongInfo\<close> passes on.
\<close>

definition wantsRecognition :: "TranslationOptions \<Rightarrow> bool" where
  "wantsRecognition options \<longleftrightarrow>
     skipAudioRecognition options \<noteq> Some True \<and> manualSongInfo options = None"

definition songInfoOf :: "TranslationOptions \<Rightarrow> AudioRecognitionResult option \<Rightarrow> SongInfo" where
  "songInfoOf options ar =
     (case manualSongInfo options of
        Some info \<Rightarrow> info
      | None \<Rightarrow>
          \<lparr>SongInfo.artist = (case ar of
                        None \<Rightarrow> []
                      | Some r \<Rightarrow> (case AudioRecognitionResult.artist r of
                                     None \<Rightarrow> [] | Some a \<Rightarrow> a)),
           SongInfo.title = (case ar of
                       None \<Rightarrow> []
                     | Some r \<Rightarrow> (case AudioRecognitionResult.title r of
                                    None \<Rightarrow> [] | Some t \<Rightarrow> t))\<rparr>)"

definition songInfoOptions :: "string \<Rightarrow> string \<Rightarrow> string \<Rightarrow> string option \<Rightarrow> TranslationOptions" where
  "songInfoOptions artist' title' targetLanguage' sourceLanguage' =
     \<lparr>TranslationOptions.targetLanguage = targetLanguage',
      TranslationOptions.sourceLanguage = sourceLanguage',
      skipAudioRecognition = Some True,
      manualSongInfo = Some \<lparr>SongInfo.artist = artist', SongInfo.title = title'\<rparr>,
      qualityThreshold = None\<rparr>"

text \<open>What a stage wrapper hands back when it returns: its result, \<open>null\<close> included.\<close>

definition valueOf :: "thrown + 'a option \<Rightarrow> 'a option" where
  "valueOf r = (case r of Inr v \<Rightarrow> v | Inl err \<Rightarrow> None)"

text \<open>
  The pipeline \<open>p\<close> and the world \<open>w1\<close> describe a run of \<open>translateFromAudio\<close> started in
  \<open>w\<close>: the stages run one after the other, each in the world the one before left, and
  the run ends at the first stage that comes back empty.
  \<^item> Recognition wanted and nothing recognised: the one error is \<open>recognitionFailed\<close>.
  \<^item> Else, the artist or the title is empty: the one error is \<open>missingSongInfo\<close>.
  \<^item> Else, the lyrics stage returned no lyrics: the one error is \<open>lyricsFailed\<close>.
  \<^item> Else the pipeline holds the lyrics and what the translation stage returned, and
    the error \<open>translationFailed\<close> exactly when that is nothing.
  In each case the stages after the one that ended the run were not run: the world
  returned is the one that stage left, after the final clock reading.
\<close>

definition described ::
    "env \<Rightarrow> ArrayBuffer \<Rightarrow> TranslationOptions \<Rightarrow> world \<Rightarrow> LyricsTranslationPipeline \<Rightarrow> world
       \<Rightarrow> bool" where
  "described e audioBuffer options w p w1 \<longleftrightarrow>
    (let w0 = snd (Date_now e w);
         recognition = (if wantsRecognition options
                        then recognizeAudioWithRetry e audioBuffer w0 else (Inr None, w0));
         ar = valueOf (fst recognition);
         songInfo = songInfoOf options ar;
         fetch = getLyricsWithRetry e (SongInfo.artist songInfo) (SongInfo.title songInfo)
                   (snd recognition);
         lr = valueOf (fst fetch);
         translating = translateWithRetry e
                         (case lr of None \<Rightarrow> [] | Some l \<Rightarrow> LyricsResult.lyrics l)
                         (TranslationOptions.targetLanguage options)
                         (TranslationOptions.sourceLanguage options) (snd fetch);
         tr = valueOf (fst translating)
     in LyricsTranslationPipeline.audioRecognition p = ar
      \<and> (if wantsRecognition options \<and> ar = None
         then LyricsTranslationPipeline.lyrics p = None
            \<and> LyricsTranslationPipeline.translation p = None
            \<and> errors p = [recognitionFailed]
            \<and> w1 = snd (Date_now e (snd recognition))
         else if SongInfo.artist songInfo = [] \<or> SongInfo.title songInfo = []
         then LyricsTranslationPipeline.lyrics p = None
            \<and> LyricsTranslationPipeline.translation p = None
            \<and> errors p = [missingSongInfo]
            \<and> w1 = snd (Date_now e (snd recognition))
         else if lr = None
         then LyricsTranslationPipeline.lyrics p = None
            \<and> LyricsTranslationPipeline.translation p = None
            \<and> errors p = [lyricsFailed]
            \<and> w1 = snd (Date_now e (snd fetch))
         else LyricsTranslationPipeline.lyrics p = lr
            \<and> LyricsTranslationPipeline.translation p = tr
            \<and> errors p = (if tr = None then [translationFailed] else [])
            \<and> w1 = snd (Date_now e (snd translating))))"

text \<open>
  The same for \<open>translateLyricsOnly\<close>, which has the translation stage only: the pipeline
  holds the caller's lyrics and what the translation stage returned, and the one error
  \<open>translationFailed\<close> exactly when that is nothing.
\<close>

definition describedLyricsOnly ::
    "env \<Rightarrow> string \<Rightarrow> string \<Rightarrow> string option \<Rightarrow> SongInfo option \<Rightarrow> world
       \<Rightarrow> LyricsTranslationPipeline \<Rightarrow> world \<Rightarrow> bool" where
  "describedLyricsOnly e lyrics' targetLanguage' sourceLanguage' songInfo w p w1 \<longleftrightarrow>
    (let translating = translateWithRetry e lyrics' targetLanguage' sourceLanguage'
                         (snd (Date_now e w));
         tr = valueOf (fst translating)
     in LyricsTranslationPipeline.audioRecognition p = None
      \<and> LyricsTranslationPipeline.lyrics p = Some (manualLyrics lyrics' songInfo)
      \<and> LyricsTranslationPipeline.translation p = tr
      \<and> errors p = (if tr = None then [translationFailed] else [])
      \<and> w1 = snd (Date_now e (snd translating)))"

subsection \<open>The items of a batch\<close>

text \<open>
  One item of a batch, and the world in which item \<open>i\<close> of a batch starts: the world left
  by the items before it and the delays after them.
\<close>

definition translateRequest ::
    "env \<Rightarrow> BatchRequest \<Rightarrow> world \<Rightarrow> (thrown + LyricsTranslationPipeline) \<times> world" where
  "translateRequest e request w =
     translateFromSongInfo e (BatchRequest.artist request) (BatchRequest.title request)
       (BatchRequest.targetLanguage request) (BatchRequest.sourceLanguage request) w"

fun worldBefore :: "env \<Rightarrow> BatchRequest list \<Rightarrow> nat \<Rightarrow> world \<Rightarrow> world" where
  "worldBefore e [] i w = w"
| "worldBefore e (request # rest) 0 w = w"
| "worldBefore e (request # rest) (Suc i) w =
     worldBefore e rest i
       (if rest \<noteq> [] then delay 2000 (snd (translateRequest e request w))
        else snd (translateRequest e request w))"

subsection \<open>A run of a fallback loop\<close>

text \<open>The rate limiter holds the same for \<open>key\<close> in \<open>w'\<close> as in \<open>w\<close>.\<close>

definition unchangedAt :: "string \<Rightarrow> world \<Rightarrow> world \<Rightarrow> bool" where
  "unchangedAt key w w' \<longleftrightarrow>
     limits (rateLimiter w') key = limits (rateLimiter w) key \<and>
     requestCounts (rateLimiter w') key = requestCounts (rateLimiter w) key"

text \<open>
  How a provider fails in a fallback loop: \<open>isAllowed\<close> answers \<open>false\<close> for it (and
  \<open>getRetryAfter\<close> answers \<open>ra\<close>), or its adapter throws, or its adapter returns a result
  that does not pass the loop's test (\<open>null\<close>, or blank lyrics).
\<close>

datatype 'r failure = RateLimited number | Threw thrown | Unpopulated "'r option"

text \<open>
  What a failed provider adds to the log: a denied provider is asked about and not
  called; the others are admitted and called; for none of them \<open>recordRequest\<close> is called.
\<close>

fun failureLog :: "('s \<Rightarrow> string) \<Rightarrow> ('s \<Rightarrow> string) \<Rightarrow> 's \<times> 'r failure \<Rightarrow> event list" where
  "failureLog keyOf nameOf (s, RateLimited ra) = [Admission (keyOf s) False]"
| "failureLog keyOf nameOf (s, Threw err) = [Admission (keyOf s) True, Invoked (nameOf s)]"
| "failureLog keyOf nameOf (s, Unpopulated result) = [Admission (keyOf s) True, Invoked (nameOf s)]"

text \<open>
  What a failed provider adds to the service's errors list: a denied provider the error
  \<open>Rate limit exceeded\<close> with the \<open>retryAfter\<close>, a provider that threw the message of what
  it threw, a provider that returned nothing usable no error at all.
\<close>

fun failureErrors :: "('s \<Rightarrow> string) \<Rightarrow> 's \<times> 'r failure \<Rightarrow> ServiceError list" where
  "failureErrors nameOf (s, RateLimited ra) =
     [\<lparr>service = nameOf s, error = ''Rate limit exceeded'', retryAfter = Some ra\<rparr>]"
| "failureErrors nameOf (s, Threw err) =
     [\<lparr>service = nameOf s, error = messageOr err ''Unknown error'', retryAfter = None\<rparr>]"
| "failureErrors nameOf (s, Unpopulated result) = []"

text \<open>The number of provider calls among the failures.\<close>

fun called :: "('s \<times> 'r failure) list \<Rightarrow> nat" where
  "called [] = 0"
| "called ((s, RateLimited ra) # rest) = called rest"
| "called ((s, Threw err) # rest) = Suc (called rest)"
| "called ((s, Unpopulated result) # rest) = Suc (called rest)"

text \<open>
  The failures are what the adapters really answered, the provider calls being numbered
  from \<open>n\<close>: a provider listed as having thrown \<open>err\<close> was called and threw \<open>err\<close>; a provider
  listed as having returned \<open>result\<close> was called, returned \<open>result\<close>, and \<open>result\<close> does not
  pass the test \<open>populated\<close>. A denied provider uses up no call.
\<close>

fun answered ::
    "(nat \<Rightarrow> 's \<Rightarrow> 'r outcome) \<Rightarrow> ('r option \<Rightarrow> bool) \<Rightarrow> nat \<Rightarrow> ('s \<times> 'r failure) list \<Rightarrow> bool" where
  "answered adapter populated n [] = True"
| "answered adapter populated n ((s, RateLimited ra) # rest) = answered adapter populated n rest"
| "answered adapter populated n ((s, Threw err) # rest) =
     (adapter n s = Throws err \<and> answered adapter populated (Suc n) rest)"
| "answered adapter populated n ((s, Unpopulated result) # rest) =
     (adapter n s = Returns result \<and> \<not> populated result \<and> answered adapter populated (Suc n) rest)"

text \<open>
  A run of a fallback loop over \<open>providers\<close>, started when \<open>n\<close> provider calls had been
  made. It returned \<open>result\<close>, added \<open>new\<close> to the log and left \<open>errs\<close> in the service's
  errors list. The providers \<open>pre\<close> failed, each in the way listed with it, and \<open>post\<close>
  are the providers the loop never reached.
  \<^item> The failures of \<open>pre\<close> are what the rate limiter and the adapters answered, and
    \<open>errs\<close> holds their errors, in order.
  \<^item> Either the provider \<open>s\<close> that follows \<open>pre\<close> in the priority order was admitted and
    called, its adapter returned \<open>r\<close>, which passes the test, \<open>recordRequest\<close> was called
    for \<open>s\<close> and the run returned \<open>r\<close> at once (the log ends there);
  \<^item> or every provider failed (\<open>pre\<close> is the whole priority list) and the run returned
    \<open>null\<close>.
\<close>

definition fallbackRun ::
    "('s \<Rightarrow> string) \<Rightarrow> ('s \<Rightarrow> string) \<Rightarrow> (nat \<Rightarrow> 's \<Rightarrow> 'r outcome) \<Rightarrow> ('r option \<Rightarrow> bool)
       \<Rightarrow> 's list \<Rightarrow> nat \<Rightarrow> ('s \<times> 'r failure) list \<Rightarrow> 's list \<Rightarrow> 'r option
       \<Rightarrow> event list \<Rightarrow> ServiceError list \<Rightarrow> bool" where
  "fallbackRun keyOf nameOf adapter populated providers n pre post result new errs \<longleftrightarrow>
     answered adapter populated n pre
   \<and> errs = concat (map (failureErrors nameOf) pre)
   \<and> ((\<exists>s r. providers = map fst pre @ s # post
            \<and> adapter (n + called pre) s = Returns (Some r) \<and> populated (Some r)
            \<and> result = Some r
            \<and> new = concat (map (failureLog keyOf nameOf) pre)
                    @ [Admission (keyOf s) True, Invoked (nameOf s), Recorded (keyOf s)])
      \<or> (providers = map fst pre \<and> post = [] \<and> result = None
            \<and> new = concat (map (failureLog keyOf nameOf) pre)))"

text \<open>\<open>if (result)\<close>, the test of the recognition loop.\<close>

definition present :: "'a option \<Rightarrow> bool" where
  "present result \<longleftrightarrow> result \<noteq> None"

section \<open>Data for the worked examples\<close>

text \<open>A small configuration for worked examples: two requests per ten milliseconds.\<close>

definition demoConfig :: ServiceConfig where
  "demoConfig = \<lparr>rateLimit = \<lparr>requests = 2, window = 10\<rparr>, retryAttempts = 2, timeout = 8000\<rparr>"

text \<open>
  An environment whose clock reads \<open>0, 1, 2, ...\<close> and whose providers answer the same
  way at every call.
\<close>

definition steadyEnv ::
    "(audioService \<Rightarrow> AudioRecognitionResult outcome) \<Rightarrow> (lyricsService \<Rightarrow> LyricsResult outcome)
       \<Rightarrow> (translationService \<Rightarrow> TranslationResult outcome) \<Rightarrow> env" where
  "steadyEnv audio lyr tr =
     \<lparr>clock = (\<lambda>n. int n), recognitionAdapter = (\<lambda>n. audio), lyricsAdapter = (\<lambda>n. lyr),
      translationAdapter = (\<lambda>n. tr)\<rparr>"

definition yesterdayLyrics :: LyricsResult where
  "yesterdayLyrics =
     \<lparr>LyricsResult.lyrics = ''Yesterday all my troubles seemed so far away'',
      LyricsResult.title = ''Yesterday'', LyricsResult.artist = ''Beatles'',
      LyricsResult.source = ''Musixmatch''\<rparr>"

definition ayerTranslation :: TranslationResult where
  "ayerTranslation =
     \<lparr>translatedText = ''Ayer todos mis problemas parecian tan lejanos'',
      TranslationResult.sourceLanguage = ''en'', TranslationResult.targetLanguage = ''es'',
      TranslationResult.source = ''MyMemory''\<rparr>"

text \<open>Only Musixmatch knows the song; MyMemory translates; no recogniser is configured.\<close>

definition demoEnv :: env where
  "demoEnv = steadyEnv
     (\<lambda>s. Throws (Error ''API credentials not configured''))
     (\<lambda>s. if s = musixmatch then Returns (Some yesterdayLyrics) else Returns None)
     (\<lambda>s. if s = myMemory then Returns (Some ayerTranslation)
          else Throws (Error ''translation failed''))"

text \<open>No lyrics provider knows the song: each answers \<open>null\<close>.\<close>

definition unknownSongEnv :: env where
  "unknownSongEnv = steadyEnv
     (\<lambda>s. Throws (Error ''API credentials not configured''))
     (\<lambda>s. Returns None)
     (\<lambda>s. Returns (Some ayerTranslation))"

text \<open>
  Every first choice is down: ACRCloud, Lyrics.ovh and MyMemory throw. AudD.io recognises
  the song, Musixmatch answers with blank lyrics, LyricsAPI has the lyrics and
  LibreTranslate translates.
\<close>

definition yesterdayRecognised :: AudioRecognitionResult where
  "yesterdayRecognised =
     \<lparr>AudioRecognitionResult.title = Some ''Yesterday'',
      AudioRecognitionResult.artist = Some ''Beatles'', album = None, duration = None,
      AudioRecognitionResult.confidence = Some (4 / 5),
      AudioRecognitionResult.source = ''AudD.io''\<rparr>"

definition blankLyrics :: LyricsResult where
  "blankLyrics =
     \<lparr>LyricsResult.lyrics = ''  '', LyricsResult.title = ''Yesterday'',
      LyricsResult.artist = ''Beatles'', LyricsResult.source = ''Musixmatch''\<rparr>"

definition yesterdayFromLyricsApi :: LyricsResult where
  "yesterdayFromLyricsApi =
     \<lparr>LyricsResult.lyrics = ''Yesterday all my troubles seemed so far away'',
      LyricsResult.title = ''Yesterday'', LyricsResult.artist = ''Beatles'',
      LyricsResult.source = ''LyricsAPI''\<rparr>"

definition ayerFromLibre :: TranslationResult where
  "ayerFromLibre =
     \<lparr>translatedText = ''Ayer todos mis problemas parecian tan lejanos'',
      TranslationResult.sourceLanguage = ''en'', TranslationResult.targetLanguage = ''es'',
      TranslationResult.source = ''LibreTranslate''\<rparr>"

definition flakyEnv :: env where
  "flakyEnv = steadyEnv
     (\<lambda>s. if s = auddIo then Returns (Some yesterdayRecognised) else Throws (Error ''HTTP 503''))
     (\<lambda>s. if s = lyricsOvh then Throws (Error ''HTTP 503'')
          else if s = musixmatch then Returns (Some blankLyrics)
          else Returns (Some yesterdayFromLyricsApi))
     (\<lambda>s. if s = libreTranslate then Returns (Some ayerFromLibre)
          else Throws (Error ''HTTP 503''))"

text \<open>Options that ask for the whole pipeline, recognition included, into Spanish.\<close>

definition demoOptions :: TranslationOptions where
  "demoOptions = \<lparr>TranslationOptions.targetLanguage = ''es'', TranslationOptions.sourceLanguage = None,
                   skipAudioRecognition = None, manualSongInfo = None, qualityThreshold = None\<rparr>"

definition demoBatch :: "BatchRequest list" where
  "demoBatch =
    [\<lparr>BatchRequest.artist = ''Beatles'', BatchRequest.title = ''Yesterday'',
      BatchRequest.targetLanguage = ''es'', BatchRequest.sourceLanguage = None\<rparr>,
     \<lparr>BatchRequest.artist = [], BatchRequest.title = [],
      BatchRequest.targetLanguage = ''es'', BatchRequest.sourceLanguage = None\<rparr>,
     \<lparr>BatchRequest.artist = ''Beatles'', BatchRequest.title = ''Help'',
      BatchRequest.targetLanguage = ''es'', BatchRequest.sourceLanguage = None\<rparr>]"

text \<open>
  A world in which Lyrics.ovh has used up its quota: 1000 requests booked at time 0, the
  clock now at 1000 ms.
\<close>

definition ovhExhaustedWorld :: world where
  "ovhExhaustedWorld =
     newWorld\<lparr>rateLimiter :=
                \<lparr>limits = [''lyrics_lyricsOvh'' \<mapsto>
                            \<lparr>remaining = 0, resetTime = Fin 86400000, lastRequest = 0\<rparr>],
                 requestCounts = [''lyrics_lyricsOvh'' \<mapsto> replicate 1000 0]\<rparr>,
              reads := 1000\<rparr>"

text \<open>The errors both recognisers leave when no credentials are configured.\<close>

definition noCredentialsErrors :: "ServiceError list" where
  "noCredentialsErrors =
     [\<lparr>service = ''acrCloud'', error = ''API credentials not configured'', retryAfter = None\<rparr>,
      \<lparr>service = ''auddIo'', error = ''API credentials not configured'', retryAfter = None\<rparr>]"

section \<open>Shared facts\<close>

subsection \<open>The retry loops, unrolled\<close>

lemma recognizeAudioWithRetry_loop_2:
  "recognizeAudioWithRetry_loop e audioBuffer (Suc (Suc 0)) w = (Inr None, w)"
  by (subst recognizeAudioWithRetry_loop.simps) (simp add: maxRetries_def)

lemma recognizeAudioWithRetry_loop_1:
  "recognizeAudioWithRetry_loop e audioBuffer (Suc 0) w =
    (case recognizeAudio e audioBuffer w of
       (Inr result, w1) \<Rightarrow> (Inr result, w1)
     | (Inl err, w1) \<Rightarrow> (Inr None, w1))"
  by (subst recognizeAudioWithRetry_loop.simps)
     (simp add: maxRetries_def recognizeAudioWithRetry_loop_2 split: prod.splits sum.splits)

lemma recognizeAudioWithRetry_unrolled:
  "recognizeAudioWithRetry e audioBuffer w =
    (case recognizeAudio e audioBuffer w of
       (Inr result, w1) \<Rightarrow>
         if result \<noteq> None then (Inr result, w1)
         else (case recognizeAudio e audioBuffer w1 of
                 (Inr result2, w2) \<Rightarrow> (Inr result2, w2)
               | (Inl err2, w2) \<Rightarrow> (Inr None, w2))
     | (Inl err, w1) \<Rightarrow>
         (case recognizeAudio e audioBuffer (delay retryDelay w1) of
            (Inr result2, w2) \<Rightarrow> (Inr result2, w2)
          | (Inl err2, w2) \<Rightarrow> (Inr None, w2)))"
  unfolding recognizeAudioWithRetry_def
  by (subst recognizeAudioWithRetry_loop.simps)
     (simp add: maxRetries_def recognizeAudioWithRetry_loop_1 split: prod.splits sum.splits)

lemma getLyricsWithRetry_loop_2:
  "getLyricsWithRetry_loop e a t (Suc (Suc 0)) w = (Inr None, w)"
  by (subst getLyricsWithRetry_loop.simps) (simp add: maxRetries_def)

lemma getLyricsWithRetry_loop_1:
  "getLyricsWithRetry_loop e a t (Suc 0) w =
    (case getLyrics e a t w of
       (Inr result, w1) \<Rightarrow> (Inr (if populatedLyrics result then result else None), w1)
     | (Inl err, w1) \<Rightarrow> (Inr None, w1))"
  by (subst getLyricsWithRetry_loop.simps)
     (simp add: maxRetries_def getLyricsWithRetry_loop_2 split: prod.splits sum.splits)

lemma getLyricsWithRetry_unrolled:
  "getLyricsWithRetry e a t w =
    (case getLyrics e a t w of
       (Inr result, w1) \<Rightarrow>
         if populatedLyrics result then (Inr result, w1)
         else (case getLyrics e a t w1 of
                 (Inr result2, w2) \<Rightarrow> (Inr (if populatedLyrics result2 then result2 else None), w2)
               | (Inl err2, w2) \<Rightarrow> (Inr None, w2))
     | (Inl err, w1) \<Rightarrow>
         (case getLyrics e a t (delay retryDelay w1) of
            (Inr result2, w2) \<Rightarrow> (Inr (if populatedLyrics result2 then result2 else None), w2)
          | (Inl err2, w2) \<Rightarrow> (Inr None, w2)))"
  unfolding getLyricsWithRetry_def
  by (subst getLyricsWithRetry_loop.simps)
     (simp add: maxRetries_def getLyricsWithRetry_loop_1 split: prod.splits sum.splits)

lemma translateWithRetry_loop_2:
  "translateWithRetry_loop e text tgt src (Suc (Suc 0)) w = (Inr None, w)"
  by (subst translateWithRetry_loop.simps) (simp add: maxRetries_def)

lemma translateWithRetry_loop_1:
  "translateWithRetry_loop e text tgt src (Suc 0) w =
    (case translateText e text tgt src w of
       (Inr result, w1) \<Rightarrow> (Inr (if populatedTranslation result then result else None), w1)
     | (Inl err, w1) \<Rightarrow> (Inr None, w1))"
  by (subst translateWithRetry_loop.simps)
     (simp add: maxRetries_def translateWithRetry_loop_2 split: prod.splits sum.splits)

lemma translateWithRetry_unrolled:
  "translateWithRetry e text tgt src w =
    (case translateText e text tgt src w of
       (Inr result, w1) \<Rightarrow>
         if populatedTranslation result then (Inr result, w1)
         else (case translateText e text tgt src w1 of
                 (Inr result2, w2) \<Rightarrow>
                   (Inr (if populatedTranslation result2 then result2 else None), w2)
               | (Inl err2, w2) \<Rightarrow> (Inr None, w2))
     | (Inl err, w1) \<Rightarrow>
         (case translateText e text tgt src (delay retryDelay w1) of
            (Inr result2, w2) \<Rightarrow>
              (Inr (if populatedTranslation result2 then result2 else None), w2)
          | (Inl err2, w2) \<Rightarrow> (Inr None, w2)))"
  unfolding translateWithRetry_def
  by (subst translateWithRetry_loop.simps)
     (simp add: maxRetries_def translateWithRetry_loop_1 split: prod.splits sum.splits)

subsection \<open>The retry wrappers never throw\<close>

lemma recognizeAudioWithRetry_returns:
  "\<exists>r w1. recognizeAudioWithRetry e audioBuffer w = (Inr r, w1)"
  by (simp add: recognizeAudioWithRetry_unrolled split: prod.splits sum.splits)

lemma getLyricsWithRetry_returns:
  "\<exists>r w1. getLyricsWithRetry e a t w = (Inr r, w1) \<and> (r \<noteq> None \<longrightarrow> populatedLyrics r)"
  by (auto simp add: getLyricsWithRetry_unrolled split: prod.splits sum.splits)

lemma translateWithRetry_returns:
  "\<exists>r w1. translateWithRetry e text tgt src w = (Inr r, w1) \<and> (r \<noteq> None \<longrightarrow> populatedTranslation r)"
  by (auto simp add: translateWithRetry_unrolled split: prod.splits sum.splits)

subsection \<open>Finishing a pipeline; unfolding the primitives on concrete worlds\<close>

lemma isSupported_es: "isSupportedLanguage ''es''"
  by (simp add: isSupportedLanguage_def SUPPORTED_LANGUAGES_translation_def)

lemma finish_eq:
  "finish e startTime result w =
     (Inr (result\<lparr>processingTime := clock e (reads w) - startTime\<rparr>), w\<lparr>reads := Suc (reads w)\<rparr>)"
  by (simp add: finish_def Date_now_def)

lemmas limiter_eval =
  rateLimiter_isAllowed_def rateLimiter_getRetryAfter_def rateLimiter_recordRequest_def
  Date_now_def isAllowed_def recordRequest_def getRetryAfter_def requestsOf_def delay_def
  callRecognitionProvider_def callLyricsProvider_def callTranslationProvider_def
  audioKey_def lyricsKey_def translationKey_def newWorld_def newRateLimiter_def
  steadyEnv_def Let_def


subsection \<open>Reading a log piece by piece\<close>

lemma consulted_append [simp]: "consulted (xs @ ys) = consulted xs @ consulted ys"
  by (induction xs rule: consulted.induct) simp_all

lemma invoked_append [simp]: "invoked (xs @ ys) = invoked xs @ invoked ys"
  by (induction xs rule: invoked.induct) simp_all

lemma recordedKeys_append [simp]: "recordedKeys (xs @ ys) = recordedKeys xs @ recordedKeys ys"
  by (induction xs rule: recordedKeys.induct) simp_all

lemma delays_append [simp]: "delays (xs @ ys) = delays xs @ delays ys"
  by (induction xs rule: delays.induct) simp_all

subsection \<open>Every entry point returns, and reports\<close>

lemma pushError_reported:
  assumes "errors result = []" and "LyricsTranslationPipeline.translation result = None"
      and "\<lparr>service = s, error = m, retryAfter = None\<rparr> \<in> set fatalErrors"
  shows "reported (pushError s m result\<lparr>processingTime := t\<rparr>)"
  using assms by (simp add: reported_def pushError_def)

lemma fatalErrors_mem:
  "\<lparr>service = ''audioRecognition'',
    error = ''Failed to recognize audio from all available services'', retryAfter = None\<rparr>
     \<in> set fatalErrors"
  "\<lparr>service = ''lyrics'', error = ''Missing artist or title information'', retryAfter = None\<rparr>
     \<in> set fatalErrors"
  "\<lparr>service = ''lyrics'',
    error = ''Failed to fetch lyrics from all available services'', retryAfter = None\<rparr>
     \<in> set fatalErrors"
  "\<lparr>service = ''translation'',
    error = ''Failed to translate lyrics from all available services'', retryAfter = None\<rparr>
     \<in> set fatalErrors"
  by (simp_all add: fatalErrors_def)

lemma step3_reported:
  assumes "errors result = []" and "LyricsTranslationPipeline.translation result = None"
  shows "\<exists>p w1. translateFromAudio_step3 e options startTime result lyricsResult w = (Inr p, w1)
           \<and> reported p"
proof -
  obtain r w1 where tr: "translateWithRetry e (LyricsResult.lyrics lyricsResult)
            (TranslationOptions.targetLanguage options)
            (TranslationOptions.sourceLanguage options) w = (Inr r, w1)"
    using translateWithRetry_returns by blast
  show ?thesis
  proof (cases r)
    case None
    have "reported (pushError ''translation''
              ''Failed to translate lyrics from all available services''
              (result\<lparr>LyricsTranslationPipeline.translation := None\<rparr>)
            \<lparr>processingTime := clock e (reads w1) - startTime\<rparr>)"
      using assms by (intro pushError_reported fatalErrors_mem) simp_all
    then show ?thesis
      unfolding translateFromAudio_step3_def tr using None by (simp add: finish_eq)
  next
    case (Some t)
    then show ?thesis
      unfolding translateFromAudio_step3_def tr using assms
      by (simp add: finish_eq reported_def Let_def)
  qed
qed

lemma step2_reported:
  assumes "errors result = []" and "LyricsTranslationPipeline.translation result = None"
  shows "\<exists>p w1. translateFromAudio_step2 e options startTime result w = (Inr p, w1) \<and> reported p"
proof -
  define songInfo where "songInfo =
           (case manualSongInfo options of
              Some info \<Rightarrow> info
            | None \<Rightarrow>
                \<lparr>SongInfo.artist = (case LyricsTranslationPipeline.audioRecognition result of
                              None \<Rightarrow> []
                            | Some ar \<Rightarrow> (case AudioRecognitionResult.artist ar of
                                            None \<Rightarrow> [] | Some a \<Rightarrow> a)),
                 SongInfo.title = (case LyricsTranslationPipeline.audioRecognition result of
                             None \<Rightarrow> []
                           | Some ar \<Rightarrow> (case AudioRecognitionResult.title ar of
                                           None \<Rightarrow> [] | Some t \<Rightarrow> t))\<rparr>)"
  obtain r w1 where lr:
    "getLyricsWithRetry e (SongInfo.artist songInfo) (SongInfo.title songInfo) w = (Inr r, w1)"
    using getLyricsWithRetry_returns by blast
  have missing: "reported (pushError ''lyrics'' ''Missing artist or title information'' result
            \<lparr>processingTime := clock e (reads w) - startTime\<rparr>)"
    using assms by (intro pushError_reported fatalErrors_mem)
  have failed: "reported (pushError ''lyrics'' ''Failed to fetch lyrics from all available services''
              (result\<lparr>LyricsTranslationPipeline.lyrics := None\<rparr>)
            \<lparr>processingTime := clock e (reads w1) - startTime\<rparr>)"
    using assms by (intro pushError_reported fatalErrors_mem) simp_all
  have next3: "\<And>l. \<exists>p w2. translateFromAudio_step3 e options startTime
                  (result\<lparr>LyricsTranslationPipeline.lyrics := Some l\<rparr>) l w1 = (Inr p, w2) \<and> reported p"
    using assms by (intro step3_reported) simp_all
  show ?thesis
    unfolding translateFromAudio_step2_def songInfo_def[symmetric] Let_def
    using lr missing failed next3
    by (cases r) (auto simp: finish_eq)
qed

lemma translateFromAudio_reported:
  "\<exists>p w1. translateFromAudio e audioBuffer options w = (Inr p, w1) \<and> reported p"
proof -
  let ?fresh = "\<lparr>LyricsTranslationPipeline.audioRecognition = None,
                 LyricsTranslationPipeline.lyrics = None,
                 LyricsTranslationPipeline.translation = None, errors = [],
                 processingTime = 0, LyricsTranslationPipeline.confidence = 0\<rparr>"
  let ?w0 = "w\<lparr>reads := Suc (reads w)\<rparr>"
  obtain r w1 where ar: "recognizeAudioWithRetry e audioBuffer ?w0 = (Inr r, w1)"
    using recognizeAudioWithRetry_returns by blast
  have failed: "reported (pushError ''audioRecognition''
              ''Failed to recognize audio from all available services''
              (?fresh\<lparr>LyricsTranslationPipeline.audioRecognition := None\<rparr>)
            \<lparr>processingTime := clock e (reads w1) - clock e (reads w)\<rparr>)"
    by (intro pushError_reported fatalErrors_mem) simp_all
  have next2: "\<And>res w2. errors res = [] \<Longrightarrow> LyricsTranslationPipeline.translation res = None \<Longrightarrow>
      \<exists>p w3. translateFromAudio_step2 e options (clock e (reads w)) res w2 = (Inr p, w3) \<and> reported p"
    by (rule step2_reported)
  show ?thesis
    unfolding translateFromAudio_def Let_def
    using ar failed next2
    by (cases r) (auto simp: finish_eq Date_now_def)
qed

lemma translateLyricsOnly_reported:
  "\<exists>p w1. translateLyricsOnly e lyr tgt src info w = (Inr p, w1) \<and> reported p"
proof -
  obtain r w1 where tr: "translateWithRetry e lyr tgt src (w\<lparr>reads := Suc (reads w)\<rparr>) = (Inr r, w1)"
    using translateWithRetry_returns by blast
  show ?thesis
    unfolding translateLyricsOnly_def Let_def
    using tr
    by (cases r) (auto simp: finish_eq Date_now_def reported_def pushError_def fatalErrors_def)
qed

lemma batchTranslate_loop_reported:
  "list_all reported results \<Longrightarrow>
   \<exists>ps w1. batchTranslate_loop e reqs results w = (ps, w1)
      \<and> length ps = length results + length reqs \<and> list_all reported ps"
proof (induction reqs arbitrary: results w)
  case Nil
  then show ?case by simp
next
  case (Cons request rest)
  obtain p w1 where r: "translateFromSongInfo e (BatchRequest.artist request) (BatchRequest.title request)
                     (BatchRequest.targetLanguage request) (BatchRequest.sourceLanguage request) w = (Inr p, w1)"
     and rep: "reported p"
    unfolding translateFromSongInfo_def using translateFromAudio_reported by blast
  have "list_all reported (results @ [p])" using Cons.prems rep by simp
  from Cons.IH[OF this, of "if rest \<noteq> [] then delay 2000 w1 else w1"]
  show ?case using r by (simp add: Let_def)
qed

subsection \<open>A batch, item by item\<close>

lemma translateRequest_returns: "\<exists>p w1. translateRequest e request w = (Inr p, w1)"
  unfolding translateRequest_def translateFromSongInfo_def
  using translateFromAudio_reported by blast

lemma batchTranslate_loop_items:
  "\<exists>ps w1. batchTranslate_loop e reqs results w = (results @ ps, w1)
      \<and> length ps = length reqs
      \<and> w1 = worldBefore e reqs (length reqs) w
      \<and> (\<forall>i<length reqs. fst (translateRequest e (reqs ! i) (worldBefore e reqs i w)) = Inr (ps ! i))"
proof (induction reqs arbitrary: results w)
  case Nil
  then show ?case by simp
next
  case (Cons request rest)
  obtain p w1 where r: "translateRequest e request w = (Inr p, w1)"
    using translateRequest_returns by blast
  let ?w2 = "if rest \<noteq> [] then delay 2000 w1 else w1"
  from Cons.IH[of "results @ [p]" ?w2]
  obtain ps w3 where ih: "batchTranslate_loop e rest (results @ [p]) ?w2 = ((results @ [p]) @ ps, w3)"
    "length ps = length rest" "w3 = worldBefore e rest (length rest) ?w2"
    "\<forall>i<length rest. fst (translateRequest e (rest ! i) (worldBefore e rest i ?w2)) = Inr (ps ! i)"
    by blast
  have step: "batchTranslate_loop e (request # rest) results w = (results @ (p # ps), w3)"
    using r ih(1) by (simp add: translateRequest_def Let_def)
  have items: "\<forall>i<length (request # rest).
      fst (translateRequest e ((request # rest) ! i) (worldBefore e (request # rest) i w))
        = Inr ((p # ps) ! i)"
  proof (intro allI impI)
    fix i assume "i < length (request # rest)"
    then show "fst (translateRequest e ((request # rest) ! i) (worldBefore e (request # rest) i w))
        = Inr ((p # ps) ! i)"
      using r ih(4) by (cases i) auto
  qed
  have "w3 = worldBefore e (request # rest) (length (request # rest)) w"
    using ih(3) r by simp
  with step items ih(2) show ?case by auto
qed

section \<open>C1: sliding-window admission\<close>

lemma isAllowed_fst:
  "fst (isAllowed now key config rl) =
     (int (length (filter (\<lambda>t. now - t < window (rateLimit config)) (recorded rl key)))
        < requests (rateLimit config))"
  by (auto simp: isAllowed_def requestsOf_def recorded_def Let_def split: option.splits)

lemma isAllowed_recorded:
  "recorded (snd (isAllowed now key config rl)) key =
     filter (\<lambda>t. now - t < window (rateLimit config)) (recorded rl key)
       @ (if fst (isAllowed now key config rl) then [now] else [])"
  by (auto simp: isAllowed_def requestsOf_def recorded_def Let_def split: option.splits)

lemma filter_within_later:
  "t \<le> now \<Longrightarrow>
   filter (\<lambda>x. now - x < (w::int)) (filter (\<lambda>x. t - x < w) xs) = filter (\<lambda>x. now - x < w) xs"
  by (induction xs) auto

lemma admitted_Cons:
  "admitted (t # ts) (ok # oks) = (if ok then [t] else []) @ admitted ts oks"
  by (simp add: admitted_def)

lemma isAllowed_calls_invariant:
  "isAllowed_calls key config ts rl = (oks, rl') \<Longrightarrow> \<forall>t\<in>set ts. t \<le> now \<Longrightarrow>
   filter (\<lambda>x. now - x < window (rateLimit config)) (recorded rl' key) =
   filter (\<lambda>x. now - x < window (rateLimit config)) (recorded rl key @ admitted ts oks)"
proof (induction ts arbitrary: rl oks rl')
  case Nil
  then show ?case by (simp add: admitted_def)
next
  case (Cons t ts)
  obtain ok rl1 where s1: "isAllowed t key config rl = (ok, rl1)" by (cases "isAllowed t key config rl")
  obtain oks1 rl2 where s2: "isAllowed_calls key config ts rl1 = (oks1, rl2)"
    by (cases "isAllowed_calls key config ts rl1")
  from Cons.prems(1) s1 s2 have eqs: "oks = ok # oks1" "rl' = rl2" by auto
  have le: "t \<le> now" using Cons.prems(2) by simp
  have ih: "filter (\<lambda>x. now - x < window (rateLimit config)) (recorded rl2 key) =
   filter (\<lambda>x. now - x < window (rateLimit config)) (recorded rl1 key @ admitted ts oks1)"
    using Cons.IH[OF s2] Cons.prems(2) by simp
  have r1: "recorded rl1 key = filter (\<lambda>x. t - x < window (rateLimit config)) (recorded rl key)
       @ (if ok then [t] else [])"
    using isAllowed_recorded[of t key config rl] s1 by simp
  show ?case
    unfolding eqs ih r1 admitted_Cons
    by (simp del: filter_filter add: filter_within_later[OF le])
qed

lemma isAllowed_calls_length:
  "isAllowed_calls key config ts rl = (oks, rl') \<Longrightarrow> length oks = length ts"
  by (induction ts arbitrary: rl oks) (auto split: prod.splits)


lemma isAllowed_limits_Some: "limits (snd (isAllowed now key config rl)) key \<noteq> None"
  by (auto simp: isAllowed_def Let_def split: option.splits prod.splits)

lemma isAllowed_recorded_requestsOf:
  "recorded (snd (isAllowed now key config rl)) key = requestsOf (snd (isAllowed now key config rl)) key"
  using isAllowed_limits_Some[of now key config rl] by (auto simp: recorded_def)

lemma isAllowed_bounded:
  assumes "recorded rl key = [] \<or> int (length (recorded rl key)) \<le> requests (rateLimit config)"
  shows "recorded (snd (isAllowed now key config rl)) key = []
       \<or> int (length (recorded (snd (isAllowed now key config rl)) key)) \<le> requests (rateLimit config)"
proof -
  let ?v = "filter (\<lambda>t. now - t < window (rateLimit config)) (recorded rl key)"
  have len: "length ?v \<le> length (recorded rl key)" by simp
  show ?thesis
  proof (cases "fst (isAllowed now key config rl)")
    case True
    then have "int (length ?v) < requests (rateLimit config)" by (simp add: isAllowed_fst)
    then show ?thesis using True by (simp add: isAllowed_recorded)
  next
    case False
    have rec: "recorded (snd (isAllowed now key config rl)) key = ?v"
      using False by (simp add: isAllowed_recorded)
    from assms show ?thesis
    proof
      assume "recorded rl key = []"
      then show ?thesis by (simp add: rec)
    next
      assume "int (length (recorded rl key)) \<le> requests (rateLimit config)"
      moreover have "int (length ?v) \<le> int (length (recorded rl key))" using len by linarith
      ultimately have "int (length ?v) \<le> requests (rateLimit config)" by linarith
      then show ?thesis unfolding rec by blast
    qed
  qed
qed

lemma isAllowed_calls_bounded:
  "isAllowed_calls key config ts rl = (oks, rl') \<Longrightarrow>
   recorded rl key = [] \<or> int (length (recorded rl key)) \<le> requests (rateLimit config) \<Longrightarrow>
   recorded rl' key = [] \<or> int (length (recorded rl' key)) \<le> requests (rateLimit config)"
proof (induction ts arbitrary: rl oks rl')
  case Nil
  then show ?case by simp
next
  case (Cons t ts)
  obtain ok rl1 where s1: "isAllowed t key config rl = (ok, rl1)" by (cases "isAllowed t key config rl")
  obtain oks1 rl2 where s2: "isAllowed_calls key config ts rl1 = (oks1, rl2)"
    by (cases "isAllowed_calls key config ts rl1")
  from Cons.prems(1) s1 s2 have eqs: "rl' = rl2" by auto
  have "recorded rl1 key = [] \<or> int (length (recorded rl1 key)) \<le> requests (rateLimit config)"
    using isAllowed_bounded[OF Cons.prems(2), of t] s1 by simp
  from Cons.IH[OF s2 this] show ?case by (simp add: eqs)
qed

lemma set_admitted: "set (admitted ts oks) \<subseteq> set ts"
  by (auto simp: admitted_def dest: set_zip_leftD)

lemma Math_min_Fin:
  "xs \<noteq> [] \<Longrightarrow> \<exists>m. Math_min xs = Fin m \<and> m \<in> set xs \<and> (\<forall>x\<in>set xs. m \<le> x)"
proof (cases xs)
  case Nil
  then show "xs \<noteq> [] \<Longrightarrow> ?thesis" by simp
next
  case (Cons a as)
  have "fold min as a = Min (set (a # as))" by (simp only: Min.set_eq_fold)
  moreover have "Min (set (a # as)) \<in> set (a # as)" by (rule Min_in) simp_all
  moreover have "\<forall>x\<in>set (a # as). Min (set (a # as)) \<le> x" by (simp del: set_simps)
  ultimately show ?thesis using Cons by (simp del: set_simps)
qed

lemma Math_min_Fin_mem: "Math_min xs = Fin m \<Longrightarrow> m \<in> set xs"
  using Math_min_Fin[of xs] by (cases xs) auto

lemma length_filter_excluding:
  "x \<in> set xs \<Longrightarrow> \<not> P x \<Longrightarrow> length (filter P xs) < length xs"
  by (rule length_filter_less)


lemma unseen_calls_recorded:
  assumes "limits rl key = None" "requestCounts rl key = None"
      and "isAllowed_calls key config ts rl = (oks, rl')"
  shows "recorded rl' key = requestsOf rl' key"
proof (cases ts)
  case Nil
  then show ?thesis using assms by (simp add: recorded_def requestsOf_def)
next
  case (Cons t ts')
  have "limits rl' key \<noteq> None"
    using assms(3) unfolding Cons
  proof (induction ts' arbitrary: t rl oks rl')
    case Nil
    then show ?case using isAllowed_limits_Some[of t key config rl]
      by (auto split: prod.splits)
  next
    case (Cons a ts')
    obtain ok rl1 where s1: "isAllowed t key config rl = (ok, rl1)" by (cases "isAllowed t key config rl")
    obtain oks1 rl2 where s2: "isAllowed_calls key config (a # ts') rl1 = (oks1, rl2)"
      by (cases "isAllowed_calls key config (a # ts') rl1")
    from Cons.prems s1 s2 have "rl' = rl2" by (simp del: isAllowed_calls.simps(2) add: isAllowed_calls.simps(2)[of _ _ t])
    with Cons.IH[OF s2] show ?case by simp
  qed
  then show ?thesis by (auto simp: recorded_def)
qed

lemma admission_iff:
  assumes "limits rl key = None"
      and "sorted (ts @ [now])"
      and "isAllowed_calls key config ts rl = (oks, rl')"
  shows "fst (isAllowed now key config rl') =
         (int (length (filter (\<lambda>t. now - t < window (rateLimit config)) (admitted ts oks)))
            < requests (rateLimit config))"
    and "filter (\<lambda>t. now - t < window (rateLimit config)) (recorded rl' key) =
         filter (\<lambda>t. now - t < window (rateLimit config)) (admitted ts oks)"
proof -
  have le: "\<forall>t\<in>set ts. t \<le> now" using assms(2) by (simp add: sorted_append)
  have "recorded rl key = []" using assms(1) by (simp add: recorded_def)
  with isAllowed_calls_invariant[OF assms(3) le]
  show "filter (\<lambda>t. now - t < window (rateLimit config)) (recorded rl' key) =
         filter (\<lambda>t. now - t < window (rateLimit config)) (admitted ts oks)" by simp
  then show "fst (isAllowed now key config rl') =
         (int (length (filter (\<lambda>t. now - t < window (rateLimit config)) (admitted ts oks)))
            < requests (rateLimit config))"
    by (simp add: isAllowed_fst)
qed

lemma denied_retryAfter:
  assumes "limits rl key = None"
      and "sorted (ts @ [now])"
      and "isAllowed_calls key config ts rl = (oks, rl')"
      and R: "0 < requests (rateLimit config)"
      and full: "int (length (filter (\<lambda>t. now - t < window (rateLimit config)) (admitted ts oks)))
                = requests (rateLimit config)"
      and later: "now \<le> now'"
      and within: "\<forall>t\<in>set (filter (\<lambda>t. now - t < window (rateLimit config)) (admitted ts oks)).
                     now' - t < window (rateLimit config)"
  shows "\<not> fst (isAllowed now key config rl') \<and>
         (\<exists>r. getRetryAfter now' key config (snd (isAllowed now key config rl')) = Fin r
              \<and> 0 < r \<and> r \<le> window (rateLimit config))"
proof -
  let ?W = "window (rateLimit config)"
  let ?valid = "filter (\<lambda>t. now - t < ?W) (admitted ts oks)"
  let ?rl2 = "snd (isAllowed now key config rl')"
  have denied: "\<not> fst (isAllowed now key config rl')"
    using admission_iff(1)[OF assms(1-3)] full by simp
  have "recorded ?rl2 key = ?valid"
    using denied admission_iff(2)[OF assms(1-3)] by (simp add: isAllowed_recorded)
  then have req: "requestsOf ?rl2 key = ?valid" by (simp add: isAllowed_recorded_requestsOf)
  have ne: "?valid \<noteq> []" using full R by auto
  from Math_min_Fin[OF ne] obtain m where m: "Math_min ?valid = Fin m" "m \<in> set ?valid" by blast
  have "m \<in> set ts" using m(2) set_admitted[of ts oks] by auto
  then have "m \<le> now" using assms(2) by (simp add: sorted_append)
  then have up: "m + ?W - now' \<le> ?W" using later by linarith
  have "now' - m < ?W" using within m(2) by blast
  then have low: "0 < m + ?W - now'" by linarith
  have "getRetryAfter now' key config ?rl2 = Fin (m + ?W - now')"
    unfolding getRetryAfter_def req using full m(1) low by simp
  with denied low up show ?thesis by blast
qed

lemma window_slides:
  assumes "limits rl key = None"
      and "isAllowed_calls key config ts rl = (oks, rl')"
      and oldest: "Math_min (requestsOf (snd (isAllowed now key config rl')) key) = Fin oldest"
      and elapsed: "window (rateLimit config) \<le> later - oldest"
  shows "fst (isAllowed later key config (snd (isAllowed now key config rl')))"
proof -
  let ?W = "window (rateLimit config)"
  let ?rl2 = "snd (isAllowed now key config rl')"
  have "recorded rl key = []" using assms(1) by (simp add: recorded_def)
  then have "recorded rl' key = [] \<or> int (length (recorded rl' key)) \<le> requests (rateLimit config)"
    using isAllowed_calls_bounded[OF assms(2)] by simp
  from isAllowed_bounded[OF this, of now]
  have b: "recorded ?rl2 key = [] \<or> int (length (recorded ?rl2 key)) \<le> requests (rateLimit config)" .
  have mem: "oldest \<in> set (recorded ?rl2 key)"
    using Math_min_Fin_mem[OF oldest] by (simp add: isAllowed_recorded_requestsOf)
  then have ne: "recorded ?rl2 key \<noteq> []" by auto
  have "\<not> later - oldest < ?W" using elapsed by simp
  from length_filter_excluding[OF mem, of "\<lambda>t. later - t < ?W", OF this]
  have "int (length (filter (\<lambda>t. later - t < ?W) (recorded ?rl2 key))) < requests (rateLimit config)"
    using b ne by linarith
  then show ?thesis by (simp add: isAllowed_fst)
qed


text \<open>
  C1. Sliding-window admission. A provider key that the limiter has not seen (or that was
  reset) receives \<open>isAllowed\<close> calls at the non-decreasing clock readings \<open>ts\<close>, always
  with the same configuration; the next call comes at \<open>now\<close>. Then
  \<^item> the call at \<open>now\<close> is admitted exactly when strictly fewer than \<open>requests\<close> of the
    previously admitted timestamps \<open>t\<close> satisfy \<open>now - t < window\<close>;
  \<^item> the list kept afterwards holds exactly those timestamps (one that is exactly
    \<open>window\<close> old is pruned), followed by \<open>now\<close> if the call was admitted;
  \<^item> when exactly \<open>requests\<close> (at least one) admitted timestamps are within the window,
    the call is denied and \<open>getRetryAfter\<close>, read at any \<open>now'\<close> from \<open>now\<close> on at which
    those timestamps are still within the window, is a finite value \<open>r\<close> with
    \<open>0 < r \<le> window\<close>;
  \<^item> once \<open>window\<close> has elapsed past the oldest recorded timestamp, \<open>isAllowed\<close>
    answers true again.
\<close>

theorem sliding_window_admission:
  assumes "limits rl key = None"
      and "sorted (ts @ [now])"
      and "isAllowed_calls key config ts rl = (oks, rl')"
  shows "(fst (isAllowed now key config rl') \<longleftrightarrow>
            int (length (filter (\<lambda>t. now - t < window (rateLimit config)) (admitted ts oks)))
              < requests (rateLimit config))
       \<and> requestsOf (snd (isAllowed now key config rl')) key =
            filter (\<lambda>t. now - t < window (rateLimit config)) (admitted ts oks)
              @ (if fst (isAllowed now key config rl') then [now] else [])
       \<and> (0 < requests (rateLimit config) \<and>
          int (length (filter (\<lambda>t. now - t < window (rateLimit config)) (admitted ts oks)))
             = requests (rateLimit config) \<longrightarrow>
          \<not> fst (isAllowed now key config rl') \<and>
          (\<forall>now'. now \<le> now' \<and>
             (\<forall>t\<in>set (filter (\<lambda>t. now - t < window (rateLimit config)) (admitted ts oks)).
                 now' - t < window (rateLimit config)) \<longrightarrow>
             (\<exists>r. getRetryAfter now' key config (snd (isAllowed now key config rl')) = Fin r
                  \<and> 0 < r \<and> r \<le> window (rateLimit config))))
       \<and> (\<forall>oldest later.
            Math_min (requestsOf (snd (isAllowed now key config rl')) key) = Fin oldest \<and>
            window (rateLimit config) \<le> later - oldest \<longrightarrow>
            fst (isAllowed later key config (snd (isAllowed now key config rl'))))"
proof (intro conjI)
  show "fst (isAllowed now key config rl') \<longleftrightarrow>
            int (length (filter (\<lambda>t. now - t < window (rateLimit config)) (admitted ts oks)))
              < requests (rateLimit config)"
    using admission_iff(1)[OF assms] by simp
  show "requestsOf (snd (isAllowed now key config rl')) key =
            filter (\<lambda>t. now - t < window (rateLimit config)) (admitted ts oks)
              @ (if fst (isAllowed now key config rl') then [now] else [])"
    using admission_iff(2)[OF assms] isAllowed_recorded[of now key config rl']
    by (simp only: isAllowed_recorded_requestsOf)
  show "0 < requests (rateLimit config) \<and>
          int (length (filter (\<lambda>t. now - t < window (rateLimit config)) (admitted ts oks)))
             = requests (rateLimit config) \<longrightarrow>
          \<not> fst (isAllowed now key config rl') \<and>
          (\<forall>now'. now \<le> now' \<and>
             (\<forall>t\<in>set (filter (\<lambda>t. now - t < window (rateLimit config)) (admitted ts oks)).
                 now' - t < window (rateLimit config)) \<longrightarrow>
             (\<exists>r. getRetryAfter now' key config (snd (isAllowed now key config rl')) = Fin r
                  \<and> 0 < r \<and> r \<le> window (rateLimit config)))"
    using denied_retryAfter[OF assms] admission_iff(1)[OF assms] by (intro impI conjI allI) auto
  show "\<forall>oldest later.
            Math_min (requestsOf (snd (isAllowed now key config rl')) key) = Fin oldest \<and>
            window (rateLimit config) \<le> later - oldest \<longrightarrow>
            fst (isAllowed later key config (snd (isAllowed now key config rl')))"
    using window_slides[OF assms(1,3)] by blast
qed

lemma demo_calls:
  "isAllowed_calls ''k'' demoConfig [0, 5] newRateLimiter =
     ([True, True],
      \<lparr>limits = [''k'' \<mapsto> \<lparr>remaining = 0, resetTime = Fin 10, lastRequest = 5\<rparr>],
       requestCounts = [''k'' \<mapsto> [0, 5]]\<rparr>)"
  by (simp add: isAllowed_def requestsOf_def demoConfig_def newRateLimiter_def Let_def)

theorem sliding_window_admission_witness:
  "limits newRateLimiter ''k'' = None
   \<and> sorted ([0, 5] @ [7 :: int])
   \<and> fst (isAllowed_calls ''k'' demoConfig [0, 5] newRateLimiter) = [True, True]
   \<and> \<not> fst (isAllowed 7 ''k'' demoConfig (snd (isAllowed_calls ''k'' demoConfig [0, 5] newRateLimiter)))
   \<and> getRetryAfter 8 ''k'' demoConfig
        (snd (isAllowed 7 ''k'' demoConfig (snd (isAllowed_calls ''k'' demoConfig [0, 5] newRateLimiter))))
      = Fin 2
   \<and> fst (isAllowed 10 ''k'' demoConfig
        (snd (isAllowed 7 ''k'' demoConfig (snd (isAllowed_calls ''k'' demoConfig [0, 5] newRateLimiter)))))"
proof -
  let ?rl' = "\<lparr>limits = [''k'' \<mapsto> \<lparr>remaining = 0, resetTime = Fin 10, lastRequest = 5\<rparr>],
       requestCounts = [''k'' \<mapsto> [0, 5 :: int]]\<rparr>"
  have h1: "limits newRateLimiter ''k'' = None" by (simp add: newRateLimiter_def)
  have h2: "sorted ([0, 5] @ [7 :: int])" by simp
  note T = sliding_window_admission[OF h1 h2 demo_calls]
  have adm: "admitted [0, 5] [True, True] = [0, 5]" by (simp add: admitted_def)
  have full: "0 < requests (rateLimit demoConfig) \<and>
      int (length (filter (\<lambda>t. 7 - t < window (rateLimit demoConfig)) (admitted [0, 5] [True, True])))
        = requests (rateLimit demoConfig)"
    by (simp add: adm demoConfig_def)
  have denied: "\<not> fst (isAllowed 7 ''k'' demoConfig ?rl')" using T full by blast
  have "\<exists>r. getRetryAfter 8 ''k'' demoConfig (snd (isAllowed 7 ''k'' demoConfig ?rl')) = Fin r
          \<and> 0 < r \<and> r \<le> window (rateLimit demoConfig)"
    using T full by (simp add: adm demoConfig_def)
  moreover have "getRetryAfter 8 ''k'' demoConfig (snd (isAllowed 7 ''k'' demoConfig ?rl')) = Fin 2"
    by (simp add: getRetryAfter_def isAllowed_def requestsOf_def demoConfig_def Let_def)
  moreover have "Math_min (requestsOf (snd (isAllowed 7 ''k'' demoConfig ?rl')) ''k'') = Fin 0
      \<and> window (rateLimit demoConfig) \<le> 10 - 0"
    by (simp add: isAllowed_def requestsOf_def demoConfig_def Let_def)
  then have "fst (isAllowed 10 ''k'' demoConfig (snd (isAllowed 7 ''k'' demoConfig ?rl')))"
    using T by blast
  ultimately show ?thesis unfolding demo_calls fst_conv snd_conv using h1 denied by simp
qed

section \<open>C2: the order of the fallback and the first success\<close>

subsection \<open>What each primitive changes\<close>

lemma rateLimiter_isAllowed_frame:
  assumes "rateLimiter_isAllowed e key config w = (ok, w1)"
  shows "trace w1 = trace w @ [Admission key ok]"
    and "audioErrors w1 = audioErrors w" and "lyricsErrors w1 = lyricsErrors w"
    and "translationErrors w1 = translationErrors w" and "calls w1 = calls w"
    and "k \<noteq> key \<Longrightarrow> unchangedAt k w w1"
  using assms
  by (auto simp: rateLimiter_isAllowed_def Date_now_def isAllowed_def unchangedAt_def Let_def
      split: prod.splits option.splits if_splits)

lemma rateLimiter_getRetryAfter_frame:
  assumes "rateLimiter_getRetryAfter e key config w = (ra, w1)"
  shows "trace w1 = trace w"
    and "audioErrors w1 = audioErrors w" and "lyricsErrors w1 = lyricsErrors w"
    and "translationErrors w1 = translationErrors w" and "calls w1 = calls w"
    and "rateLimiter w1 = rateLimiter w"
  using assms
  by (auto simp: rateLimiter_getRetryAfter_def Date_now_def Let_def split: prod.splits if_splits)

lemma rateLimiter_recordRequest_frame:
  shows "trace (rateLimiter_recordRequest e key w) = trace w @ [Recorded key]"
    and "audioErrors (rateLimiter_recordRequest e key w) = audioErrors w"
    and "lyricsErrors (rateLimiter_recordRequest e key w) = lyricsErrors w"
    and "translationErrors (rateLimiter_recordRequest e key w) = translationErrors w"
    and "calls (rateLimiter_recordRequest e key w) = calls w"
    and "k \<noteq> key \<Longrightarrow> unchangedAt k w (rateLimiter_recordRequest e key w)"
  by (auto simp: rateLimiter_recordRequest_def Date_now_def recordRequest_def unchangedAt_def Let_def
      split: prod.splits option.splits if_splits)

lemma unchangedAt_refl [simp]: "unchangedAt k w w"
  by (simp add: unchangedAt_def)

lemma unchangedAt_trans: "unchangedAt k w w1 \<Longrightarrow> unchangedAt k w1 w2 \<Longrightarrow> unchangedAt k w w2"
  by (simp add: unchangedAt_def)

lemma unchangedAt_same_limiter: "rateLimiter w1 = rateLimiter w \<Longrightarrow> unchangedAt k w w1"
  by (simp add: unchangedAt_def)


subsection \<open>Building the description of a run\<close>

lemma fallbackRun_nil: "fallbackRun keyOf nameOf adapter populated [] n [] [] None [] []"
  by (simp add: fallbackRun_def)

lemma fallbackRun_here:
  assumes "adapter n s = Returns (Some r)" and "populated (Some r)"
  shows "fallbackRun keyOf nameOf adapter populated (s # post) n [] post (Some r)
           [Admission (keyOf s) True, Invoked (nameOf s), Recorded (keyOf s)] []"
  using assms by (simp add: fallbackRun_def)

lemma fallbackRun_after_denied:
  assumes "fallbackRun keyOf nameOf adapter populated rest n pre post result new errs"
  shows "fallbackRun keyOf nameOf adapter populated (p # rest) n ((p, RateLimited ra) # pre) post result
           (Admission (keyOf p) False # new)
           (\<lparr>service = nameOf p, error = ''Rate limit exceeded'', retryAfter = Some ra\<rparr> # errs)"
  using assms unfolding fallbackRun_def by (elim conjE disjE exE) simp_all

lemma fallbackRun_after_threw:
  assumes "adapter n p = Throws err"
      and "fallbackRun keyOf nameOf adapter populated rest (Suc n) pre post result new errs"
  shows "fallbackRun keyOf nameOf adapter populated (p # rest) n ((p, Threw err) # pre) post result
           (Admission (keyOf p) True # Invoked (nameOf p) # new)
           (\<lparr>service = nameOf p, error = messageOr err ''Unknown error'', retryAfter = None\<rparr> # errs)"
  using assms unfolding fallbackRun_def by (elim conjE disjE exE) simp_all

lemma fallbackRun_after_unpopulated:
  assumes "adapter n p = Returns answer" and "\<not> populated answer"
      and "fallbackRun keyOf nameOf adapter populated rest (Suc n) pre post result new errs"
  shows "fallbackRun keyOf nameOf adapter populated (p # rest) n ((p, Unpopulated answer) # pre) post result
           (Admission (keyOf p) True # Invoked (nameOf p) # new) errs"
  using assms unfolding fallbackRun_def by (elim conjE disjE exE) simp_all

subsection \<open>The providers the loop never reached\<close>

lemma consulted_failures:
  "consulted (concat (map (failureLog keyOf nameOf) pre)) = map keyOf (map fst pre)"
proof (induction pre)
  case Nil
  then show ?case by simp
next
  case (Cons sf pre)
  obtain s f where sf: "sf = (s, f)" by (cases sf)
  show ?case using Cons sf by (cases f) simp_all
qed

lemma invoked_failures:
  "set (invoked (concat (map (failureLog keyOf nameOf) pre))) \<subseteq> nameOf ` set (map fst pre)"
proof (induction pre)
  case Nil
  then show ?case by simp
next
  case (Cons sf pre)
  obtain s f where sf: "sf = (s, f)" by (cases sf)
  show ?case using Cons sf by (cases f) auto
qed

lemma service_failures:
  "service ` set (concat (map (failureErrors nameOf) pre)) \<subseteq> nameOf ` set (map fst pre)"
proof (induction pre)
  case Nil
  then show ?case by simp
next
  case (Cons sf pre)
  obtain s f where sf: "sf = (s, f)" by (cases sf)
  show ?case using Cons sf by (cases f) auto
qed

lemma fallbackRun_tried:
  assumes "fallbackRun keyOf nameOf adapter populated providers n pre post result new errs"
  shows "\<exists>tried. providers = tried @ post \<and> consulted new = map keyOf tried
    \<and> set (invoked new) \<subseteq> nameOf ` set tried \<and> service ` set errs \<subseteq> nameOf ` set tried"
proof -
  from assms have errs: "errs = concat (map (failureErrors nameOf) pre)"
    and shape: "(\<exists>s. providers = map fst pre @ s # post
            \<and> new = concat (map (failureLog keyOf nameOf) pre)
                    @ [Admission (keyOf s) True, Invoked (nameOf s), Recorded (keyOf s)])
      \<or> (providers = map fst pre \<and> post = []
            \<and> new = concat (map (failureLog keyOf nameOf) pre))"
    unfolding fallbackRun_def by blast+
  note c = consulted_failures[where nameOf=nameOf and keyOf=keyOf and pre=pre]
  note i = invoked_failures[where nameOf=nameOf and keyOf=keyOf and pre=pre]
  note sv = service_failures[where nameOf=nameOf and pre=pre]
  from shape show ?thesis
  proof (elim disjE exE conjE)
    fix s
    assume p: "providers = map fst pre @ s # post"
      and n: "new = concat (map (failureLog keyOf nameOf) pre)
                    @ [Admission (keyOf s) True, Invoked (nameOf s), Recorded (keyOf s)]"
    have "providers = (map fst pre @ [s]) @ post" using p by simp
    moreover have "consulted new = map keyOf (map fst pre @ [s])" using n c by simp
    moreover have "set (invoked new) \<subseteq> nameOf ` set (map fst pre @ [s])" using n i by auto
    moreover have "service ` set errs \<subseteq> nameOf ` set (map fst pre @ [s])" using errs sv by auto
    ultimately show ?thesis by blast
  next
    assume p: "providers = map fst pre" "post = []"
      and n: "new = concat (map (failureLog keyOf nameOf) pre)"
    have "providers = map fst pre @ post" using p by simp
    moreover have "consulted new = map keyOf (map fst pre)" using n c by simp
    moreover have "set (invoked new) \<subseteq> nameOf ` set (map fst pre)" using n i by simp
    moreover have "service ` set errs \<subseteq> nameOf ` set (map fst pre)" using errs sv by simp
    ultimately show ?thesis by blast
  qed
qed

lemma lyrics_later:
  assumes "[lyricsOvh, musixmatch, lyricsApi] = tried @ post" and "p \<in> set post"
  shows "lyricsKey p \<notin> lyricsKey ` set tried" and "lyricsName p \<notin> lyricsName ` set tried"
proof -
  have d: "distinct (tried @ post)" using assms(1)[symmetric] by simp
  then have np: "p \<notin> set tried" using assms(2) by auto
  have injN: "\<And>x y. lyricsName x = lyricsName y \<Longrightarrow> x = y"
    subgoal for x y by (cases x; cases y) simp_all
    done
  then have injK: "\<And>x y. lyricsKey x = lyricsKey y \<Longrightarrow> x = y"
    by (simp add: lyricsKey_def)
  show "lyricsKey p \<notin> lyricsKey ` set tried" using np injK by auto
  show "lyricsName p \<notin> lyricsName ` set tried" using np injN by auto
qed

lemma audio_later:
  assumes "[acrCloud, auddIo] = tried @ post" and "p \<in> set post"
  shows "audioKey p \<notin> audioKey ` set tried" and "audioName p \<notin> audioName ` set tried"
proof -
  have d: "distinct (tried @ post)" using assms(1)[symmetric] by simp
  then have np: "p \<notin> set tried" using assms(2) by auto
  have injN: "\<And>x y. audioName x = audioName y \<Longrightarrow> x = y"
    subgoal for x y by (cases x; cases y) simp_all
    done
  then have injK: "\<And>x y. audioKey x = audioKey y \<Longrightarrow> x = y"
    by (simp add: audioKey_def)
  show "audioKey p \<notin> audioKey ` set tried" using np injK by auto
  show "audioName p \<notin> audioName ` set tried" using np injN by auto
qed

lemma unchangedAt_step:
  assumes "unchangedAt k w w1" and "rateLimiter w2 = rateLimiter w1" and "unchangedAt k w2 w'"
  shows "unchangedAt k w w'"
  using assms by (simp add: unchangedAt_def)

subsection \<open>The lyrics loop, one provider at a time\<close>

lemma callLyricsProvider_frame:
  assumes "callLyricsProvider e s w = (out, w1)"
  shows "out = lyricsAdapter e (calls w) s" and "calls w1 = Suc (calls w)"
    and "trace w1 = trace w @ [Invoked (lyricsName s)]"
    and "lyricsErrors w1 = lyricsErrors w" and "rateLimiter w1 = rateLimiter w"
  using assms by (auto simp: callLyricsProvider_def)

lemma getLyrics_loop_denied:
  assumes "rateLimiter_isAllowed e (lyricsKey s) (FREE_API_CONFIGS_lyrics s) w = (False, w1)"
      and "rateLimiter_getRetryAfter e (lyricsKey s) (FREE_API_CONFIGS_lyrics s) w1 = (ra, w2)"
  shows "getLyrics_loop e (s # rest) w =
         getLyrics_loop e rest
           (w2\<lparr>lyricsErrors := lyricsErrors w2 @
              [\<lparr>service = lyricsName s, error = ''Rate limit exceeded'', retryAfter = Some ra\<rparr>]\<rparr>)"
  using assms by simp

lemma getLyrics_loop_threw:
  assumes "rateLimiter_isAllowed e (lyricsKey s) (FREE_API_CONFIGS_lyrics s) w = (True, w1)"
      and "callLyricsProvider e s w1 = (Throws err, w2)"
  shows "getLyrics_loop e (s # rest) w =
         getLyrics_loop e rest
           (w2\<lparr>lyricsErrors := lyricsErrors w2 @
              [\<lparr>service = lyricsName s, error = messageOr err ''Unknown error'',
                retryAfter = None\<rparr>]\<rparr>)"
  using assms by simp

lemma getLyrics_loop_miss:
  assumes "rateLimiter_isAllowed e (lyricsKey s) (FREE_API_CONFIGS_lyrics s) w = (True, w1)"
      and "callLyricsProvider e s w1 = (Returns result, w2)"
      and "\<not> populatedLyrics result"
  shows "getLyrics_loop e (s # rest) w = getLyrics_loop e rest w2"
  using assms by simp

lemma getLyrics_loop_hit:
  assumes "rateLimiter_isAllowed e (lyricsKey s) (FREE_API_CONFIGS_lyrics s) w = (True, w1)"
      and "callLyricsProvider e s w1 = (Returns result, w2)"
      and "populatedLyrics result"
  shows "getLyrics_loop e (s # rest) w = (result, rateLimiter_recordRequest e (lyricsKey s) w2)"
  using assms by simp


lemma getLyrics_loop_run:
  "getLyrics_loop e svcs w = (result, w') \<Longrightarrow>
   \<exists>pre post new errs.
      trace w' = trace w @ new \<and> lyricsErrors w' = lyricsErrors w @ errs
    \<and> fallbackRun lyricsKey lyricsName (lyricsAdapter e) populatedLyrics svcs (calls w)
         pre post result new errs
    \<and> (\<forall>k. k \<notin> set (consulted new) \<longrightarrow> unchangedAt k w w')"
proof (induction svcs arbitrary: w)
  case Nil
  then have "result = None" "w' = w" by simp_all
  then show ?case
    using fallbackRun_nil[of lyricsKey lyricsName "lyricsAdapter e" populatedLyrics "calls w"]
    by (intro exI[of _ "[]"]) simp
next
  case (Cons s0 rest)
  let ?k = "lyricsKey s0" and ?c = "FREE_API_CONFIGS_lyrics s0"
  obtain ok w1 where adm: "rateLimiter_isAllowed e ?k ?c w = (ok, w1)"
    by (cases "rateLimiter_isAllowed e ?k ?c w")
  note f1 = rateLimiter_isAllowed_frame[OF adm]
  show ?case
  proof (cases ok)
    case False
    have admF: "rateLimiter_isAllowed e ?k ?c w = (False, w1)" using adm False by simp
    obtain ra w2 where ra: "rateLimiter_getRetryAfter e ?k ?c w1 = (ra, w2)"
      by (cases "rateLimiter_getRetryAfter e ?k ?c w1")
    note f2 = rateLimiter_getRetryAfter_frame[OF ra]
    let ?err = "\<lparr>service = lyricsName s0, error = ''Rate limit exceeded'', retryAfter = Some ra\<rparr>"
    let ?w3 = "w2\<lparr>lyricsErrors := lyricsErrors w2 @ [?err]\<rparr>"
    have "getLyrics_loop e rest ?w3 = (result, w')"
      using Cons.prems getLyrics_loop_denied[OF admF ra] by simp
    from Cons.IH[OF this] obtain pre post new errs where ih:
      "trace w' = trace ?w3 @ new" "lyricsErrors w' = lyricsErrors ?w3 @ errs"
      "fallbackRun lyricsKey lyricsName (lyricsAdapter e) populatedLyrics rest (calls ?w3)
         pre post result new errs"
      "\<forall>k. k \<notin> set (consulted new) \<longrightarrow> unchangedAt k ?w3 w'"
      by blast
    have c3: "calls ?w3 = calls w" using f1(5) f2(5) by simp
    have un: "\<forall>k. k \<notin> set (consulted (Admission ?k False # new)) \<longrightarrow> unchangedAt k w w'"
    proof (intro allI impI)
      fix k assume k: "k \<notin> set (consulted (Admission ?k False # new))"
      then have "unchangedAt k w w1" using f1(6) by auto
      moreover have "rateLimiter ?w3 = rateLimiter w1" using f2(6) by simp
      moreover have "unchangedAt k ?w3 w'" using ih(4) k by auto
      ultimately show "unchangedAt k w w'" by (rule unchangedAt_step)
    qed
    have "trace w' = trace w @ (Admission ?k False # new)"
      using ih(1) f1(1) f2(1) False by simp
    moreover have "lyricsErrors w' = lyricsErrors w @ (?err # errs)"
      using ih(2) f1(3) f2(3) by simp
    moreover note fallbackRun_after_denied[OF ih(3)[unfolded c3], of s0 ra] un
    ultimately show ?thesis by blast
  next
    case True
    have admT: "rateLimiter_isAllowed e ?k ?c w = (True, w1)" using adm True by simp
    obtain out w2 where call: "callLyricsProvider e s0 w1 = (out, w2)"
      by (cases "callLyricsProvider e s0 w1")
    note f2 = callLyricsProvider_frame[OF call]
    have tr2: "trace w2 = trace w @ [Admission ?k True, Invoked (lyricsName s0)]"
      using f1(1) f2(3) True by simp
    have out: "lyricsAdapter e (calls w) s0 = out" using f2(1) f1(5) by simp
    have c2: "calls w2 = Suc (calls w)" using f2(2) f1(5) by simp
    show ?thesis
    proof (cases out)
      case (Throws err)
      let ?err = "\<lparr>service = lyricsName s0, error = messageOr err ''Unknown error'', retryAfter = None\<rparr>"
      let ?w3 = "w2\<lparr>lyricsErrors := lyricsErrors w2 @ [?err]\<rparr>"
      have "getLyrics_loop e rest ?w3 = (result, w')"
        using Cons.prems getLyrics_loop_threw[OF admT call[unfolded Throws]] by simp
      from Cons.IH[OF this] obtain pre post new errs where ih:
        "trace w' = trace ?w3 @ new" "lyricsErrors w' = lyricsErrors ?w3 @ errs"
        "fallbackRun lyricsKey lyricsName (lyricsAdapter e) populatedLyrics rest (calls ?w3)
           pre post result new errs"
        "\<forall>k. k \<notin> set (consulted new) \<longrightarrow> unchangedAt k ?w3 w'"
        by blast
      have c3: "calls ?w3 = Suc (calls w)" using c2 by simp
      have un: "\<forall>k. k \<notin> set (consulted (Admission ?k True # Invoked (lyricsName s0) # new))
                  \<longrightarrow> unchangedAt k w w'"
      proof (intro allI impI)
        fix k assume k: "k \<notin> set (consulted (Admission ?k True # Invoked (lyricsName s0) # new))"
        then have "unchangedAt k w w1" using f1(6) by auto
        moreover have "rateLimiter ?w3 = rateLimiter w1" using f2(5) by simp
        moreover have "unchangedAt k ?w3 w'" using ih(4) k by auto
        ultimately show "unchangedAt k w w'" by (rule unchangedAt_step)
      qed
      have "trace w' = trace w @ (Admission ?k True # Invoked (lyricsName s0) # new)"
        using ih(1) tr2 by simp
      moreover have "lyricsErrors w' = lyricsErrors w @ (?err # errs)"
        using ih(2) f1(3) f2(4) by simp
      moreover note fallbackRun_after_threw[OF out[unfolded Throws] ih(3)[unfolded c3]] un
      ultimately show ?thesis by blast
    next
      case (Returns answer)
      show ?thesis
      proof (cases "populatedLyrics answer")
        case True
        have res: "result = answer" "w' = rateLimiter_recordRequest e ?k w2"
          using Cons.prems getLyrics_loop_hit[OF admT call[unfolded Returns] True]
          by simp_all
        from True obtain r where r: "answer = Some r" by (cases answer) simp_all
        note f3 = rateLimiter_recordRequest_frame[where e=e and key="?k" and w=w2]
        let ?new = "[Admission ?k True, Invoked (lyricsName s0), Recorded ?k]"
        have un: "\<forall>k. k \<notin> set (consulted ?new) \<longrightarrow> unchangedAt k w w'"
        proof (intro allI impI)
          fix k assume k: "k \<notin> set (consulted ?new)"
          then have "unchangedAt k w w1" using f1(6) by auto
          moreover have "rateLimiter w2 = rateLimiter w1" using f2(5) by simp
          moreover have "unchangedAt k w2 w'" using f3(6) k res(2) by auto
          ultimately show "unchangedAt k w w'" by (rule unchangedAt_step)
        qed
        have "trace w' = trace w @ ?new"
          using tr2 f3(1) res(2) by simp
        moreover have "lyricsErrors w' = lyricsErrors w @ []"
          using f1(3) f2(4) f3(3) res(2) by simp
        moreover have "fallbackRun lyricsKey lyricsName (lyricsAdapter e) populatedLyrics (s0 # rest)
                         (calls w) [] rest result ?new []"
          using fallbackRun_here[of "lyricsAdapter e" "calls w" s0 r populatedLyrics lyricsKey lyricsName rest]
            out Returns r True res(1) by simp
        ultimately show ?thesis using un by blast
      next
        case False
        have "getLyrics_loop e rest w2 = (result, w')"
          using Cons.prems getLyrics_loop_miss[OF admT call[unfolded Returns] False]
          by simp
        from Cons.IH[OF this] obtain pre post new errs where ih:
          "trace w' = trace w2 @ new" "lyricsErrors w' = lyricsErrors w2 @ errs"
          "fallbackRun lyricsKey lyricsName (lyricsAdapter e) populatedLyrics rest (calls w2)
             pre post result new errs"
          "\<forall>k. k \<notin> set (consulted new) \<longrightarrow> unchangedAt k w2 w'"
          by blast
        have un: "\<forall>k. k \<notin> set (consulted (Admission ?k True # Invoked (lyricsName s0) # new))
                    \<longrightarrow> unchangedAt k w w'"
        proof (intro allI impI)
          fix k assume k: "k \<notin> set (consulted (Admission ?k True # Invoked (lyricsName s0) # new))"
          then have "unchangedAt k w w1" using f1(6) by auto
          moreover have "rateLimiter w2 = rateLimiter w1" using f2(5) by simp
          moreover have "unchangedAt k w2 w'" using ih(4) k by auto
          ultimately show "unchangedAt k w w'" by (rule unchangedAt_step)
        qed
        have "trace w' = trace w @ (Admission ?k True # Invoked (lyricsName s0) # new)"
          using ih(1) tr2 by simp
        moreover have "lyricsErrors w' = lyricsErrors w @ errs"
          using ih(2) f1(3) f2(4) by simp
        moreover note fallbackRun_after_unpopulated[OF out[unfolded Returns] False ih(3)[unfolded c2]] un
        ultimately show ?thesis by blast
      qed
    qed
  qed
qed


subsection \<open>The recognition loop, one provider at a time\<close>

lemma callRecognitionProvider_frame:
  assumes "callRecognitionProvider e s w = (out, w1)"
  shows "out = recognitionAdapter e (calls w) s" and "calls w1 = Suc (calls w)"
    and "trace w1 = trace w @ [Invoked (audioName s)]"
    and "audioErrors w1 = audioErrors w" and "rateLimiter w1 = rateLimiter w"
  using assms by (auto simp: callRecognitionProvider_def)

lemma recognizeAudio_loop_denied:
  assumes "rateLimiter_isAllowed e (audioKey s) (FREE_API_CONFIGS_audioRecognition s) w = (False, w1)"
      and "rateLimiter_getRetryAfter e (audioKey s) (FREE_API_CONFIGS_audioRecognition s) w1 = (ra, w2)"
  shows "recognizeAudio_loop e (s # rest) w =
         recognizeAudio_loop e rest
           (w2\<lparr>audioErrors := audioErrors w2 @
              [\<lparr>service = audioName s, error = ''Rate limit exceeded'', retryAfter = Some ra\<rparr>]\<rparr>)"
  using assms by simp

lemma recognizeAudio_loop_threw:
  assumes "rateLimiter_isAllowed e (audioKey s) (FREE_API_CONFIGS_audioRecognition s) w = (True, w1)"
      and "callRecognitionProvider e s w1 = (Throws err, w2)"
  shows "recognizeAudio_loop e (s # rest) w =
         recognizeAudio_loop e rest
           (w2\<lparr>audioErrors := audioErrors w2 @
              [\<lparr>service = audioName s, error = messageOr err ''Unknown error'',
                retryAfter = None\<rparr>]\<rparr>)"
  using assms by simp

lemma recognizeAudio_loop_miss:
  assumes "rateLimiter_isAllowed e (audioKey s) (FREE_API_CONFIGS_audioRecognition s) w = (True, w1)"
      and "callRecognitionProvider e s w1 = (Returns None, w2)"
  shows "recognizeAudio_loop e (s # rest) w = recognizeAudio_loop e rest w2"
  using assms by simp

lemma recognizeAudio_loop_hit:
  assumes "rateLimiter_isAllowed e (audioKey s) (FREE_API_CONFIGS_audioRecognition s) w = (True, w1)"
      and "callRecognitionProvider e s w1 = (Returns (Some result), w2)"
  shows "recognizeAudio_loop e (s # rest) w = (Some result, rateLimiter_recordRequest e (audioKey s) w2)"
  using assms by simp


lemma recognizeAudio_loop_run:
  "recognizeAudio_loop e svcs w = (result, w') \<Longrightarrow>
   \<exists>pre post new errs.
      trace w' = trace w @ new \<and> audioErrors w' = audioErrors w @ errs
    \<and> fallbackRun audioKey audioName (recognitionAdapter e) present svcs (calls w)
         pre post result new errs
    \<and> (\<forall>k. k \<notin> set (consulted new) \<longrightarrow> unchangedAt k w w')"
proof (induction svcs arbitrary: w)
  case Nil
  then have "result = None" "w' = w" by simp_all
  then show ?case
    using fallbackRun_nil[of audioKey audioName "recognitionAdapter e" present "calls w"]
    by (intro exI[of _ "[]"]) simp
next
  case (Cons s0 rest)
  let ?k = "audioKey s0" and ?c = "FREE_API_CONFIGS_audioRecognition s0"
  obtain ok w1 where adm: "rateLimiter_isAllowed e ?k ?c w = (ok, w1)"
    by (cases "rateLimiter_isAllowed e ?k ?c w")
  note f1 = rateLimiter_isAllowed_frame[OF adm]
  show ?case
  proof (cases ok)
    case False
    have admF: "rateLimiter_isAllowed e ?k ?c w = (False, w1)" using adm False by simp
    obtain ra w2 where ra: "rateLimiter_getRetryAfter e ?k ?c w1 = (ra, w2)"
      by (cases "rateLimiter_getRetryAfter e ?k ?c w1")
    note f2 = rateLimiter_getRetryAfter_frame[OF ra]
    let ?err = "\<lparr>service = audioName s0, error = ''Rate limit exceeded'', retryAfter = Some ra\<rparr>"
    let ?w3 = "w2\<lparr>audioErrors := audioErrors w2 @ [?err]\<rparr>"
    have "recognizeAudio_loop e rest ?w3 = (result, w')"
      using Cons.prems recognizeAudio_loop_denied[OF admF ra] by simp
    from Cons.IH[OF this] obtain pre post new errs where ih:
      "trace w' = trace ?w3 @ new" "audioErrors w' = audioErrors ?w3 @ errs"
      "fallbackRun audioKey audioName (recognitionAdapter e) present rest (calls ?w3)
         pre post result new errs"
      "\<forall>k. k \<notin> set (consulted new) \<longrightarrow> unchangedAt k ?w3 w'"
      by blast
    have c3: "calls ?w3 = calls w" using f1(5) f2(5) by simp
    have un: "\<forall>k. k \<notin> set (consulted (Admission ?k False # new)) \<longrightarrow> unchangedAt k w w'"
    proof (intro allI impI)
      fix k assume k: "k \<notin> set (consulted (Admission ?k False # new))"
      then have "unchangedAt k w w1" using f1(6) by auto
      moreover have "rateLimiter ?w3 = rateLimiter w1" using f2(6) by simp
      moreover have "unchangedAt k ?w3 w'" using ih(4) k by auto
      ultimately show "unchangedAt k w w'" by (rule unchangedAt_step)
    qed
    have "trace w' = trace w @ (Admission ?k False # new)"
      using ih(1) f1(1) f2(1) False by simp
    moreover have "audioErrors w' = audioErrors w @ (?err # errs)"
      using ih(2) f1(2) f2(2) by simp
    moreover note fallbackRun_after_denied[OF ih(3)[unfolded c3], of s0 ra] un
    ultimately show ?thesis by blast
  next
    case True
    have admT: "rateLimiter_isAllowed e ?k ?c w = (True, w1)" using adm True by simp
    obtain out w2 where call: "callRecognitionProvider e s0 w1 = (out, w2)"
      by (cases "callRecognitionProvider e s0 w1")
    note f2 = callRecognitionProvider_frame[OF call]
    have tr2: "trace w2 = trace w @ [Admission ?k True, Invoked (audioName s0)]"
      using f1(1) f2(3) True by simp
    have out: "recognitionAdapter e (calls w) s0 = out" using f2(1) f1(5) by simp
    have c2: "calls w2 = Suc (calls w)" using f2(2) f1(5) by simp
    show ?thesis
    proof (cases out)
      case (Throws err)
      let ?err = "\<lparr>service = audioName s0, error = messageOr err ''Unknown error'', retryAfter = None\<rparr>"
      let ?w3 = "w2\<lparr>audioErrors := audioErrors w2 @ [?err]\<rparr>"
      have "recognizeAudio_loop e rest ?w3 = (result, w')"
        using Cons.prems recognizeAudio_loop_threw[OF admT call[unfolded Throws]] by simp
      from Cons.IH[OF this] obtain pre post new errs where ih:
        "trace w' = trace ?w3 @ new" "audioErrors w' = audioErrors ?w3 @ errs"
        "fallbackRun audioKey audioName (recognitionAdapter e) present rest (calls ?w3)
           pre post result new errs"
        "\<forall>k. k \<notin> set (consulted new) \<longrightarrow> unchangedAt k ?w3 w'"
        by blast
      have c3: "calls ?w3 = Suc (calls w)" using c2 by simp
      have un: "\<forall>k. k \<notin> set (consulted (Admission ?k True # Invoked (audioName s0) # new))
                  \<longrightarrow> unchangedAt k w w'"
      proof (intro allI impI)
        fix k assume k: "k \<notin> set (consulted (Admission ?k True # Invoked (audioName s0) # new))"
        then have "unchangedAt k w w1" using f1(6) by auto
        moreover have "rateLimiter ?w3 = rateLimiter w1" using f2(5) by simp
        moreover have "unchangedAt k ?w3 w'" using ih(4) k by auto
        ultimately show "unchangedAt k w w'" by (rule unchangedAt_step)
      qed
      have "trace w' = trace w @ (Admission ?k True # Invoked (audioName s0) # new)"
        using ih(1) tr2 by simp
      moreover have "audioErrors w' = audioErrors w @ (?err # errs)"
        using ih(2) f1(2) f2(4) by simp
      moreover note fallbackRun_after_threw[OF out[unfolded Throws] ih(3)[unfolded c3]] un
      ultimately show ?thesis by blast
    next
      case (Returns answer)
      show ?thesis
      proof (cases "present answer")
        case True
        then obtain r where r: "answer = Some r" by (cases answer) (simp_all add: present_def)
        have res: "result = answer" "w' = rateLimiter_recordRequest e ?k w2"
          using Cons.prems recognizeAudio_loop_hit[OF admT call[unfolded Returns r]] r
          by simp_all
        note f3 = rateLimiter_recordRequest_frame[where e=e and key="?k" and w=w2]
        let ?new = "[Admission ?k True, Invoked (audioName s0), Recorded ?k]"
        have un: "\<forall>k. k \<notin> set (consulted ?new) \<longrightarrow> unchangedAt k w w'"
        proof (intro allI impI)
          fix k assume k: "k \<notin> set (consulted ?new)"
          then have "unchangedAt k w w1" using f1(6) by auto
          moreover have "rateLimiter w2 = rateLimiter w1" using f2(5) by simp
          moreover have "unchangedAt k w2 w'" using f3(6) k res(2) by auto
          ultimately show "unchangedAt k w w'" by (rule unchangedAt_step)
        qed
        have "trace w' = trace w @ ?new"
          using tr2 f3(1) res(2) by simp
        moreover have "audioErrors w' = audioErrors w @ []"
          using f1(2) f2(4) f3(2) res(2) by simp
        moreover have "fallbackRun audioKey audioName (recognitionAdapter e) present (s0 # rest)
                         (calls w) [] rest result ?new []"
          using fallbackRun_here[of "recognitionAdapter e" "calls w" s0 r present audioKey audioName rest]
            out Returns r True res(1) by simp
        ultimately show ?thesis using un by blast
      next
        case False
        then have none: "answer = None" by (simp add: present_def)
        have "recognizeAudio_loop e rest w2 = (result, w')"
          using Cons.prems recognizeAudio_loop_miss[OF admT call[unfolded Returns none]]
          by simp
        from Cons.IH[OF this] obtain pre post new errs where ih:
          "trace w' = trace w2 @ new" "audioErrors w' = audioErrors w2 @ errs"
          "fallbackRun audioKey audioName (recognitionAdapter e) present rest (calls w2)
             pre post result new errs"
          "\<forall>k. k \<notin> set (consulted new) \<longrightarrow> unchangedAt k w2 w'"
          by blast
        have un: "\<forall>k. k \<notin> set (consulted (Admission ?k True # Invoked (audioName s0) # new))
                    \<longrightarrow> unchangedAt k w w'"
        proof (intro allI impI)
          fix k assume k: "k \<notin> set (consulted (Admission ?k True # Invoked (audioName s0) # new))"
          then have "unchangedAt k w w1" using f1(6) by auto
          moreover have "rateLimiter w2 = rateLimiter w1" using f2(5) by simp
          moreover have "unchangedAt k w2 w'" using ih(4) k by auto
          ultimately show "unchangedAt k w w'" by (rule unchangedAt_step)
        qed
        have "trace w' = trace w @ (Admission ?k True # Invoked (audioName s0) # new)"
          using ih(1) tr2 by simp
        moreover have "audioErrors w' = audioErrors w @ errs"
          using ih(2) f1(2) f2(4) by simp
        moreover note fallbackRun_after_unpopulated[OF out[unfolded Returns] False ih(3)[unfolded c2]] un
        ultimately show ?thesis by blast
      qed
    qed
  qed
qed


subsection \<open>The dispatchers\<close>

lemma getLyrics_run:
  "\<exists>result w' pre post new.
       getLyrics e a t w = (Inr result, w')
     \<and> trace w' = trace w @ new
     \<and> fallbackRun lyricsKey lyricsName (lyricsAdapter e) populatedLyrics
          [lyricsOvh, musixmatch, lyricsApi] (calls w) pre post result new (lyricsErrors w')
     \<and> (\<forall>p\<in>set post. lyricsKey p \<notin> set (consulted new)
                       \<and> lyricsName p \<notin> set (invoked new)
                       \<and> lyricsName p \<notin> service ` set (lyricsErrors w')
                       \<and> unchangedAt (lyricsKey p) w w')"
proof -
  let ?w0 = "w\<lparr>lyricsErrors := []\<rparr>"
  obtain result w' where loop: "getLyrics_loop e [lyricsOvh, musixmatch, lyricsApi] ?w0 = (result, w')"
    by (cases "getLyrics_loop e [lyricsOvh, musixmatch, lyricsApi] ?w0")
  then have run: "getLyrics e a t w = (Inr result, w')"
    by (simp add: getLyrics_def del: getLyrics_loop.simps)
  from getLyrics_loop_run[OF loop] obtain pre post new errs where
    a: "trace w' = trace ?w0 @ new" "lyricsErrors w' = lyricsErrors ?w0 @ errs"
       "fallbackRun lyricsKey lyricsName (lyricsAdapter e) populatedLyrics
          [lyricsOvh, musixmatch, lyricsApi] (calls ?w0) pre post result new errs"
       "\<forall>k. k \<notin> set (consulted new) \<longrightarrow> unchangedAt k ?w0 w'"
    by blast
  have errs: "errs = lyricsErrors w'" using a(2) by simp
  have run': "fallbackRun lyricsKey lyricsName (lyricsAdapter e) populatedLyrics
          [lyricsOvh, musixmatch, lyricsApi] (calls w) pre post result new (lyricsErrors w')"
    using a(3) errs by simp
  from fallbackRun_tried[OF run'] obtain tried where
    t: "[lyricsOvh, musixmatch, lyricsApi] = tried @ post" "consulted new = map lyricsKey tried"
       "set (invoked new) \<subseteq> lyricsName ` set tried"
       "service ` set (lyricsErrors w') \<subseteq> lyricsName ` set tried"
    by blast
  have later: "\<forall>p\<in>set post. lyricsKey p \<notin> set (consulted new)
                       \<and> lyricsName p \<notin> set (invoked new)
                       \<and> lyricsName p \<notin> service ` set (lyricsErrors w')
                       \<and> unchangedAt (lyricsKey p) w w'"
  proof
    fix p assume p: "p \<in> set post"
    note l = lyrics_later[OF t(1) p]
    have c: "lyricsKey p \<notin> set (consulted new)" using l(1) t(2) by simp
    then have "unchangedAt (lyricsKey p) ?w0 w'" using a(4) by blast
    then have "unchangedAt (lyricsKey p) w w'" by (simp add: unchangedAt_def)
    moreover have "lyricsName p \<notin> set (invoked new)" using l(2) t(3) by blast
    moreover have "lyricsName p \<notin> service ` set (lyricsErrors w')" using l(2) t(4) by blast
    ultimately show "lyricsKey p \<notin> set (consulted new)
                       \<and> lyricsName p \<notin> set (invoked new)
                       \<and> lyricsName p \<notin> service ` set (lyricsErrors w')
                       \<and> unchangedAt (lyricsKey p) w w'" using c by simp
  qed
  have "trace w' = trace w @ new" using a(1) by simp
  with run run' later show ?thesis by blast
qed

lemma recognizeAudio_run:
  "\<exists>result w' pre post new.
       recognizeAudio e audioBuffer w = (Inr result, w')
     \<and> trace w' = trace w @ new
     \<and> fallbackRun audioKey audioName (recognitionAdapter e) present
          [acrCloud, auddIo] (calls w) pre post result new (audioErrors w')
     \<and> (\<forall>p\<in>set post. audioKey p \<notin> set (consulted new)
                       \<and> audioName p \<notin> set (invoked new)
                       \<and> audioName p \<notin> service ` set (audioErrors w')
                       \<and> unchangedAt (audioKey p) w w')"
proof -
  let ?w0 = "w\<lparr>audioErrors := []\<rparr>"
  obtain result w' where loop: "recognizeAudio_loop e [acrCloud, auddIo] ?w0 = (result, w')"
    by (cases "recognizeAudio_loop e [acrCloud, auddIo] ?w0")
  then have run: "recognizeAudio e audioBuffer w = (Inr result, w')"
    by (simp add: recognizeAudio_def del: recognizeAudio_loop.simps)
  from recognizeAudio_loop_run[OF loop] obtain pre post new errs where
    a: "trace w' = trace ?w0 @ new" "audioErrors w' = audioErrors ?w0 @ errs"
       "fallbackRun audioKey audioName (recognitionAdapter e) present
          [acrCloud, auddIo] (calls ?w0) pre post result new errs"
       "\<forall>k. k \<notin> set (consulted new) \<longrightarrow> unchangedAt k ?w0 w'"
    by blast
  have errs: "errs = audioErrors w'" using a(2) by simp
  have run': "fallbackRun audioKey audioName (recognitionAdapter e) present
          [acrCloud, auddIo] (calls w) pre post result new (audioErrors w')"
    using a(3) errs by simp
  from fallbackRun_tried[OF run'] obtain tried where
    t: "[acrCloud, auddIo] = tried @ post" "consulted new = map audioKey tried"
       "set (invoked new) \<subseteq> audioName ` set tried"
       "service ` set (audioErrors w') \<subseteq> audioName ` set tried"
    by blast
  have later: "\<forall>p\<in>set post. audioKey p \<notin> set (consulted new)
                       \<and> audioName p \<notin> set (invoked new)
                       \<and> audioName p \<notin> service ` set (audioErrors w')
                       \<and> unchangedAt (audioKey p) w w'"
  proof
    fix p assume p: "p \<in> set post"
    note l = audio_later[OF t(1) p]
    have c: "audioKey p \<notin> set (consulted new)" using l(1) t(2) by simp
    then have "unchangedAt (audioKey p) ?w0 w'" using a(4) by blast
    then have "unchangedAt (audioKey p) w w'" by (simp add: unchangedAt_def)
    moreover have "audioName p \<notin> set (invoked new)" using l(2) t(3) by blast
    moreover have "audioName p \<notin> service ` set (audioErrors w')" using l(2) t(4) by blast
    ultimately show "audioKey p \<notin> set (consulted new)
                       \<and> audioName p \<notin> set (invoked new)
                       \<and> audioName p \<notin> service ` set (audioErrors w')
                       \<and> unchangedAt (audioKey p) w w'" using c by simp
  qed
  have "trace w' = trace w @ new" using a(1) by simp
  with run run' later show ?thesis by blast
qed

subsection \<open>Worked runs\<close>

lemma Math_min_replicate: "0 < n \<Longrightarrow> Math_min (replicate n x) = Fin x"
proof (cases n)
  case 0
  then show "0 < n \<Longrightarrow> ?thesis" by simp
next
  case (Suc m)
  have "fold min (replicate m x) x = x" by (induction m) simp_all
  then show ?thesis using Suc by simp
qed

lemma ovhExhausted_run:
  "getLyrics demoEnv ''Beatles'' ''Yesterday'' ovhExhaustedWorld =
    (Inr (Some yesterdayLyrics),
     \<lparr>rateLimiter =
        \<lparr>limits = [''lyrics_lyricsOvh'' \<mapsto> \<lparr>remaining = 0, resetTime = Fin 86400000, lastRequest = 0\<rparr>,
                   ''lyrics_musixmatch'' \<mapsto> \<lparr>remaining = 1998, resetTime = Fin 86401002, lastRequest = 1003\<rparr>],
         requestCounts = [''lyrics_lyricsOvh'' \<mapsto> replicate 1000 0,
                          ''lyrics_musixmatch'' \<mapsto> [1002]]\<rparr>,
      audioErrors = [],
      lyricsErrors = [\<lparr>service = ''lyricsOvh'', error = ''Rate limit exceeded'',
                       retryAfter = Some (Fin 86398999)\<rparr>],
      translationErrors = [], reads = 1004, calls = 1,
      trace = [Admission ''lyrics_lyricsOvh'' False, Admission ''lyrics_musixmatch'' True,
               Invoked ''musixmatch'', Recorded ''lyrics_musixmatch'']\<rparr>)"
  by (simp add: getLyrics_def ovhExhaustedWorld_def demoEnv_def yesterdayLyrics_def trim_def
        isWhiteSpace_def filter_replicate Math_min_replicate limiter_eval)

lemma flaky_recognition_run:
  "fst (recognizeAudio flakyEnv [] newWorld) = Inr (Some yesterdayRecognised)"
  "trace (snd (recognizeAudio flakyEnv [] newWorld)) =
     [Admission ''audioRecognition_acrCloud'' True, Invoked ''acrCloud'',
      Admission ''audioRecognition_auddIo'' True, Invoked ''auddIo'',
      Recorded ''audioRecognition_auddIo'']"
  "audioErrors (snd (recognizeAudio flakyEnv [] newWorld)) =
     [\<lparr>service = ''acrCloud'', error = ''HTTP 503'', retryAfter = None\<rparr>]"
  by (simp_all add: recognizeAudio_def flakyEnv_def limiter_eval)

lemma flaky_lyrics_run:
  "fst (getLyrics flakyEnv ''Beatles'' ''Yesterday'' newWorld) = Inr (Some yesterdayFromLyricsApi)"
  "trace (snd (getLyrics flakyEnv ''Beatles'' ''Yesterday'' newWorld)) =
     [Admission ''lyrics_lyricsOvh'' True, Invoked ''lyricsOvh'',
      Admission ''lyrics_musixmatch'' True, Invoked ''musixmatch'',
      Admission ''lyrics_lyricsApi'' True, Invoked ''lyricsApi'',
      Recorded ''lyrics_lyricsApi'']"
  "lyricsErrors (snd (getLyrics flakyEnv ''Beatles'' ''Yesterday'' newWorld)) =
     [\<lparr>service = ''lyricsOvh'', error = ''HTTP 503'', retryAfter = None\<rparr>]"
  by (simp_all add: getLyrics_def flakyEnv_def blankLyrics_def yesterdayFromLyricsApi_def
        trim_def isWhiteSpace_def limiter_eval)

lemma unknownSong_lyrics_run:
  "fst (getLyrics unknownSongEnv ''Beatles'' ''Yesterday'' newWorld) = Inr None"
  "trace (snd (getLyrics unknownSongEnv ''Beatles'' ''Yesterday'' newWorld)) =
     [Admission ''lyrics_lyricsOvh'' True, Invoked ''lyricsOvh'',
      Admission ''lyrics_musixmatch'' True, Invoked ''musixmatch'',
      Admission ''lyrics_lyricsApi'' True, Invoked ''lyricsApi'']"
  "lyricsErrors (snd (getLyrics unknownSongEnv ''Beatles'' ''Yesterday'' newWorld)) = []"
  by (simp_all add: getLyrics_def unknownSongEnv_def limiter_eval)


subsection \<open>The claim\<close>

text \<open>
  C2. For the lyrics dispatcher and the recognition dispatcher alike, in every
  environment and every world. The dispatcher returns normally, and its run is a fallback
  run over the configured priority list in the sense of \<open>fallbackRun\<close>: the list splits
  into the providers \<open>pre\<close> that failed, then (unless all failed) the winner, then the
  providers \<open>post\<close> never reached.
  \<^item> \<open>isAllowed\<close> was asked for the providers in the configured order, one after the
    other, up to the winner and no further (the log).
  \<^item> Each provider of \<open>pre\<close> failed for a reason: it was denied, and then it was not
    called and the errors list holds \<open>Rate limit exceeded\<close> with a \<open>retryAfter\<close> for it; or
    its adapter threw, and the errors list holds the message; or its adapter returned a
    result that is not populated. The errors list holds nothing else.
  \<^item> When a provider is admitted and its adapter returns a populated result, the run
    stops there: \<open>recordRequest\<close> is called for it, once, and the dispatcher returns that
    very result. So the dispatcher returns \<open>null\<close> only when every provider of the list
    failed.
  \<^item> For every provider of \<open>post\<close>: \<open>isAllowed\<close> was not asked, the provider was not
    called, no error names it, and the rate limiter holds for its key what it held before.
\<close>

theorem fallback_first_success:
  "(\<exists>result w' pre post new.
       getLyrics e a t w = (Inr result, w')
     \<and> trace w' = trace w @ new
     \<and> fallbackRun lyricsKey lyricsName (lyricsAdapter e) populatedLyrics
          [lyricsOvh, musixmatch, lyricsApi] (calls w) pre post result new (lyricsErrors w')
     \<and> (\<forall>p\<in>set post. lyricsKey p \<notin> set (consulted new)
                       \<and> lyricsName p \<notin> set (invoked new)
                       \<and> lyricsName p \<notin> service ` set (lyricsErrors w')
                       \<and> unchangedAt (lyricsKey p) w w'))
   \<and> (\<exists>result w' pre post new.
       recognizeAudio e audioBuffer w = (Inr result, w')
     \<and> trace w' = trace w @ new
     \<and> fallbackRun audioKey audioName (recognitionAdapter e) present
          [acrCloud, auddIo] (calls w) pre post result new (audioErrors w')
     \<and> (\<forall>p\<in>set post. audioKey p \<notin> set (consulted new)
                       \<and> audioName p \<notin> set (invoked new)
                       \<and> audioName p \<notin> service ` set (audioErrors w')
                       \<and> unchangedAt (audioKey p) w w'))"
  using getLyrics_run[of e a t w] recognizeAudio_run[of e audioBuffer w] by (rule conjI)

theorem fallback_first_success_witness:
  "(\<exists>w' pre post new.
       getLyrics demoEnv ''Beatles'' ''Yesterday'' ovhExhaustedWorld = (Inr (Some yesterdayLyrics), w')
     \<and> trace w' = trace ovhExhaustedWorld @ new
     \<and> fallbackRun lyricsKey lyricsName (lyricsAdapter demoEnv) populatedLyrics
          [lyricsOvh, musixmatch, lyricsApi] (calls ovhExhaustedWorld) pre post
          (Some yesterdayLyrics) new (lyricsErrors w')
     \<and> post = [lyricsApi]
     \<and> new = [Admission ''lyrics_lyricsOvh'' False, Admission ''lyrics_musixmatch'' True,
              Invoked ''musixmatch'', Recorded ''lyrics_musixmatch'']
     \<and> lyricsErrors w' = [\<lparr>service = ''lyricsOvh'', error = ''Rate limit exceeded'',
                            retryAfter = Some (Fin 86398999)\<rparr>]
     \<and> lyricsKey lyricsApi \<notin> set (consulted new)
     \<and> lyricsName lyricsApi \<notin> set (invoked new)
     \<and> lyricsName lyricsApi \<notin> service ` set (lyricsErrors w')
     \<and> unchangedAt (lyricsKey lyricsApi) ovhExhaustedWorld w')
   \<and> LyricsResult.source yesterdayLyrics = ''Musixmatch''
   \<and> (\<exists>w' pre post new.
       recognizeAudio flakyEnv [] newWorld = (Inr (Some yesterdayRecognised), w')
     \<and> trace w' = trace newWorld @ new
     \<and> fallbackRun audioKey audioName (recognitionAdapter flakyEnv) present
          [acrCloud, auddIo] (calls newWorld) pre post (Some yesterdayRecognised) new (audioErrors w')
     \<and> new = [Admission ''audioRecognition_acrCloud'' True, Invoked ''acrCloud'',
              Admission ''audioRecognition_auddIo'' True, Invoked ''auddIo'',
              Recorded ''audioRecognition_auddIo'']
     \<and> audioErrors w' = [\<lparr>service = ''acrCloud'', error = ''HTTP 503'', retryAfter = None\<rparr>])
   \<and> (\<exists>w' pre post new.
       getLyrics flakyEnv ''Beatles'' ''Yesterday'' newWorld = (Inr (Some yesterdayFromLyricsApi), w')
     \<and> trace w' = trace newWorld @ new
     \<and> fallbackRun lyricsKey lyricsName (lyricsAdapter flakyEnv) populatedLyrics
          [lyricsOvh, musixmatch, lyricsApi] (calls newWorld) pre post
          (Some yesterdayFromLyricsApi) new (lyricsErrors w')
     \<and> new = [Admission ''lyrics_lyricsOvh'' True, Invoked ''lyricsOvh'',
              Admission ''lyrics_musixmatch'' True, Invoked ''musixmatch'',
              Admission ''lyrics_lyricsApi'' True, Invoked ''lyricsApi'',
              Recorded ''lyrics_lyricsApi'']
     \<and> lyricsErrors w' = [\<lparr>service = ''lyricsOvh'', error = ''HTTP 503'', retryAfter = None\<rparr>])
   \<and> (\<exists>w' pre post new.
       getLyrics unknownSongEnv ''Beatles'' ''Yesterday'' newWorld = (Inr None, w')
     \<and> trace w' = trace newWorld @ new
     \<and> fallbackRun lyricsKey lyricsName (lyricsAdapter unknownSongEnv) populatedLyrics
          [lyricsOvh, musixmatch, lyricsApi] (calls newWorld) pre post None new (lyricsErrors w')
     \<and> new = [Admission ''lyrics_lyricsOvh'' True, Invoked ''lyricsOvh'',
              Admission ''lyrics_musixmatch'' True, Invoked ''musixmatch'',
              Admission ''lyrics_lyricsApi'' True, Invoked ''lyricsApi'']
     \<and> lyricsErrors w' = [])"
proof (intro conjI)
  let ?run = "getLyrics demoEnv ''Beatles'' ''Yesterday'' ovhExhaustedWorld"
  from fallback_first_success[of demoEnv "''Beatles''" "''Yesterday''" ovhExhaustedWorld, THEN conjunct1]
  obtain result w' pre post new where
    run: "?run = (Inr result, w')" and
    a: "trace w' = trace ovhExhaustedWorld @ new"
       "fallbackRun lyricsKey lyricsName (lyricsAdapter demoEnv) populatedLyrics
          [lyricsOvh, musixmatch, lyricsApi] (calls ovhExhaustedWorld) pre post result new (lyricsErrors w')"
       "\<forall>p\<in>set post. lyricsKey p \<notin> set (consulted new)
                       \<and> lyricsName p \<notin> set (invoked new)
                       \<and> lyricsName p \<notin> service ` set (lyricsErrors w')
                       \<and> unchangedAt (lyricsKey p) ovhExhaustedWorld w'"
    by (elim exE conjE)
  have res: "result = Some yesterdayLyrics" using run ovhExhausted_run by simp
  have new: "new = [Admission ''lyrics_lyricsOvh'' False, Admission ''lyrics_musixmatch'' True,
              Invoked ''musixmatch'', Recorded ''lyrics_musixmatch'']"
    using run a(1) ovhExhausted_run by (auto simp: ovhExhaustedWorld_def newWorld_def)
  have errs: "lyricsErrors w' = [\<lparr>service = ''lyricsOvh'', error = ''Rate limit exceeded'',
                            retryAfter = Some (Fin 86398999)\<rparr>]"
    using run ovhExhausted_run by auto
  from a(2) res obtain s where
    sp: "[lyricsOvh, musixmatch, lyricsApi] = map fst pre @ s # post" and
    nw: "new = concat (map (failureLog lyricsKey lyricsName) pre)
               @ [Admission (lyricsKey s) True, Invoked (lyricsName s), Recorded (lyricsKey s)]"
    unfolding fallbackRun_def by auto
  have "concat (map (failureLog lyricsKey lyricsName) pre)
               @ [Admission (lyricsKey s) True, Invoked (lyricsName s), Recorded (lyricsKey s)]
        = [Admission ''lyrics_lyricsOvh'' False] @ [Admission ''lyrics_musixmatch'' True,
              Invoked ''musixmatch'', Recorded ''lyrics_musixmatch'']"
    unfolding nw[symmetric] new by simp
  then have "lyricsName s = ''musixmatch''"
    by (auto simp: append_eq_append_conv)
  then have s: "s = musixmatch" by (cases s) simp_all
  have post: "post = [lyricsApi]" using sp s by (auto simp: Cons_eq_append_conv)
  then have "lyricsKey lyricsApi \<notin> set (consulted new)
                       \<and> lyricsName lyricsApi \<notin> set (invoked new)
                       \<and> lyricsName lyricsApi \<notin> service ` set (lyricsErrors w')
                       \<and> unchangedAt (lyricsKey lyricsApi) ovhExhaustedWorld w'"
    using a(3) by simp
  with run res a(1,2) post new errs
  show "\<exists>w' pre post new.
       getLyrics demoEnv ''Beatles'' ''Yesterday'' ovhExhaustedWorld = (Inr (Some yesterdayLyrics), w')
     \<and> trace w' = trace ovhExhaustedWorld @ new
     \<and> fallbackRun lyricsKey lyricsName (lyricsAdapter demoEnv) populatedLyrics
          [lyricsOvh, musixmatch, lyricsApi] (calls ovhExhaustedWorld) pre post
          (Some yesterdayLyrics) new (lyricsErrors w')
     \<and> post = [lyricsApi]
     \<and> new = [Admission ''lyrics_lyricsOvh'' False, Admission ''lyrics_musixmatch'' True,
              Invoked ''musixmatch'', Recorded ''lyrics_musixmatch'']
     \<and> lyricsErrors w' = [\<lparr>service = ''lyricsOvh'', error = ''Rate limit exceeded'',
                            retryAfter = Some (Fin 86398999)\<rparr>]
     \<and> lyricsKey lyricsApi \<notin> set (consulted new)
     \<and> lyricsName lyricsApi \<notin> set (invoked new)
     \<and> lyricsName lyricsApi \<notin> service ` set (lyricsErrors w')
     \<and> unchangedAt (lyricsKey lyricsApi) ovhExhaustedWorld w'"
    by blast
next
  show "LyricsResult.source yesterdayLyrics = ''Musixmatch''" by (simp add: yesterdayLyrics_def)
next
  let ?run = "recognizeAudio flakyEnv [] newWorld"
  from fallback_first_success[where e=flakyEnv and w=newWorld and audioBuffer="[]", THEN conjunct2]
  obtain result w' pre post new where
    run: "?run = (Inr result, w')" and
    a: "trace w' = trace newWorld @ new"
       "fallbackRun audioKey audioName (recognitionAdapter flakyEnv) present
          [acrCloud, auddIo] (calls newWorld) pre post result new (audioErrors w')"
    by (elim exE conjE)
  have res: "result = Some yesterdayRecognised" using run flaky_recognition_run(1) by simp
  have w': "w' = snd ?run" using run by simp
  have new: "new = [Admission ''audioRecognition_acrCloud'' True, Invoked ''acrCloud'',
              Admission ''audioRecognition_auddIo'' True, Invoked ''auddIo'',
              Recorded ''audioRecognition_auddIo'']"
    using a(1) flaky_recognition_run(2) unfolding w' by (simp add: newWorld_def)
  have errs: "audioErrors w' = [\<lparr>service = ''acrCloud'', error = ''HTTP 503'', retryAfter = None\<rparr>]"
    using flaky_recognition_run(3) unfolding w' by simp
  from run res a new errs
  show "\<exists>w' pre post new.
       recognizeAudio flakyEnv [] newWorld = (Inr (Some yesterdayRecognised), w')
     \<and> trace w' = trace newWorld @ new
     \<and> fallbackRun audioKey audioName (recognitionAdapter flakyEnv) present
          [acrCloud, auddIo] (calls newWorld) pre post (Some yesterdayRecognised) new (audioErrors w')
     \<and> new = [Admission ''audioRecognition_acrCloud'' True, Invoked ''acrCloud'',
              Admission ''audioRecognition_auddIo'' True, Invoked ''auddIo'',
              Recorded ''audioRecognition_auddIo'']
     \<and> audioErrors w' = [\<lparr>service = ''acrCloud'', error = ''HTTP 503'', retryAfter = None\<rparr>]"
    by blast
next
  let ?run = "getLyrics flakyEnv ''Beatles'' ''Yesterday'' newWorld"
  from fallback_first_success[of flakyEnv "''Beatles''" "''Yesterday''" newWorld, THEN conjunct1]
  obtain result w' pre post new where
    run: "?run = (Inr result, w')" and
    a: "trace w' = trace newWorld @ new"
       "fallbackRun lyricsKey lyricsName (lyricsAdapter flakyEnv) populatedLyrics
          [lyricsOvh, musixmatch, lyricsApi] (calls newWorld) pre post result new (lyricsErrors w')"
    by (elim exE conjE)
  have res: "result = Some yesterdayFromLyricsApi" using run flaky_lyrics_run(1) by simp
  have w': "w' = snd ?run" using run by simp
  have new: "new = [Admission ''lyrics_lyricsOvh'' True, Invoked ''lyricsOvh'',
              Admission ''lyrics_musixmatch'' True, Invoked ''musixmatch'',
              Admission ''lyrics_lyricsApi'' True, Invoked ''lyricsApi'',
              Recorded ''lyrics_lyricsApi'']"
    using a(1) flaky_lyrics_run(2) unfolding w' by (simp add: newWorld_def)
  have errs: "lyricsErrors w' = [\<lparr>service = ''lyricsOvh'', error = ''HTTP 503'', retryAfter = None\<rparr>]"
    using flaky_lyrics_run(3) unfolding w' by simp
  from run res a new errs
  show "\<exists>w' pre post new.
       getLyrics flakyEnv ''Beatles'' ''Yesterday'' newWorld = (Inr (Some yesterdayFromLyricsApi), w')
     \<and> trace w' = trace newWorld @ new
     \<and> fallbackRun lyricsKey lyricsName (lyricsAdapter flakyEnv) populatedLyrics
          [lyricsOvh, musixmatch, lyricsApi] (calls newWorld) pre post
          (Some yesterdayFromLyricsApi) new (lyricsErrors w')
     \<and> new = [Admission ''lyrics_lyricsOvh'' True, Invoked ''lyricsOvh'',
              Admission ''lyrics_musixmatch'' True, Invoked ''musixmatch'',
              Admission ''lyrics_lyricsApi'' True, Invoked ''lyricsApi'',
              Recorded ''lyrics_lyricsApi'']
     \<and> lyricsErrors w' = [\<lparr>service = ''lyricsOvh'', error = ''HTTP 503'', retryAfter = None\<rparr>]"
    by blast
next
  let ?run = "getLyrics unknownSongEnv ''Beatles'' ''Yesterday'' newWorld"
  from fallback_first_success[of unknownSongEnv "''Beatles''" "''Yesterday''" newWorld, THEN conjunct1]
  obtain result w' pre post new where
    run: "?run = (Inr result, w')" and
    a: "trace w' = trace newWorld @ new"
       "fallbackRun lyricsKey lyricsName (lyricsAdapter unknownSongEnv) populatedLyrics
          [lyricsOvh, musixmatch, lyricsApi] (calls newWorld) pre post result new (lyricsErrors w')"
    by (elim exE conjE)
  have res: "result = None" using run unknownSong_lyrics_run(1) by simp
  have w': "w' = snd ?run" using run by simp
  have new: "new = [Admission ''lyrics_lyricsOvh'' True, Invoked ''lyricsOvh'',
              Admission ''lyrics_musixmatch'' True, Invoked ''musixmatch'',
              Admission ''lyrics_lyricsApi'' True, Invoked ''lyricsApi'']"
    using a(1) unknownSong_lyrics_run(2) unfolding w' by (simp add: newWorld_def)
  have errs: "lyricsErrors w' = []"
    using unknownSong_lyrics_run(3) unfolding w' by simp
  from run res a new errs
  show "\<exists>w' pre post new.
       getLyrics unknownSongEnv ''Beatles'' ''Yesterday'' newWorld = (Inr None, w')
     \<and> trace w' = trace newWorld @ new
     \<and> fallbackRun lyricsKey lyricsName (lyricsAdapter unknownSongEnv) populatedLyrics
          [lyricsOvh, musixmatch, lyricsApi] (calls newWorld) pre post None new (lyricsErrors w')
     \<and> new = [Admission ''lyrics_lyricsOvh'' True, Invoked ''lyricsOvh'',
              Admission ''lyrics_musixmatch'' True, Invoked ''musixmatch'',
              Admission ''lyrics_lyricsApi'' True, Invoked ''lyricsApi'']
     \<and> lyricsErrors w' = []"
    by blast
qed

section \<open>C3: no exception escapes the entry points\<close>

subsection \<open>The stages, one after the other\<close>

lemma step3_described:
  assumes "errors result = []"
  shows "\<exists>p w1. translateFromAudio_step3 e options startTime result l w = (Inr p, w1)
     \<and> LyricsTranslationPipeline.audioRecognition p = LyricsTranslationPipeline.audioRecognition result
     \<and> LyricsTranslationPipeline.lyrics p = LyricsTranslationPipeline.lyrics result
     \<and> LyricsTranslationPipeline.translation p =
          valueOf (fst (translateWithRetry e (LyricsResult.lyrics l)
                     (TranslationOptions.targetLanguage options)
                     (TranslationOptions.sourceLanguage options) w))
     \<and> errors p = (if LyricsTranslationPipeline.translation p = None then [translationFailed] else [])
     \<and> w1 = snd (Date_now e (snd (translateWithRetry e (LyricsResult.lyrics l)
                     (TranslationOptions.targetLanguage options)
                     (TranslationOptions.sourceLanguage options) w)))"
proof -
  obtain tr wt where t: "translateWithRetry e (LyricsResult.lyrics l)
            (TranslationOptions.targetLanguage options)
            (TranslationOptions.sourceLanguage options) w = (Inr tr, wt)"
    using translateWithRetry_returns by blast
  show ?thesis
    unfolding translateFromAudio_step3_def t using assms
    by (cases tr) (simp_all add: finish_eq pushError_def valueOf_def translationFailed_def
          Date_now_def Let_def)
qed

lemma step2_described:
  assumes "errors result = []"
  shows "\<exists>p w1. translateFromAudio_step2 e options startTime result w = (Inr p, w1)
     \<and> LyricsTranslationPipeline.audioRecognition p = LyricsTranslationPipeline.audioRecognition result
     \<and> (let songInfo = songInfoOf options (LyricsTranslationPipeline.audioRecognition result);
             fetch = getLyricsWithRetry e (SongInfo.artist songInfo) (SongInfo.title songInfo) w;
             lr = valueOf (fst fetch);
             translating = translateWithRetry e
                             (case lr of None \<Rightarrow> [] | Some l \<Rightarrow> LyricsResult.lyrics l)
                             (TranslationOptions.targetLanguage options)
                             (TranslationOptions.sourceLanguage options) (snd fetch);
             tr = valueOf (fst translating)
         in if SongInfo.artist songInfo = [] \<or> SongInfo.title songInfo = []
            then LyricsTranslationPipeline.lyrics p = LyricsTranslationPipeline.lyrics result
               \<and> LyricsTranslationPipeline.translation p = LyricsTranslationPipeline.translation result
               \<and> errors p = [missingSongInfo]
               \<and> w1 = snd (Date_now e w)
            else if lr = None
            then LyricsTranslationPipeline.lyrics p = None
               \<and> LyricsTranslationPipeline.translation p = LyricsTranslationPipeline.translation result
               \<and> errors p = [lyricsFailed]
               \<and> w1 = snd (Date_now e (snd fetch))
            else LyricsTranslationPipeline.lyrics p = lr
               \<and> LyricsTranslationPipeline.translation p = tr
               \<and> errors p = (if tr = None then [translationFailed] else [])
               \<and> w1 = snd (Date_now e (snd translating)))"
proof -
  define songInfo where "songInfo = songInfoOf options (LyricsTranslationPipeline.audioRecognition result)"
  obtain lr wl where f:
    "getLyricsWithRetry e (SongInfo.artist songInfo) (SongInfo.title songInfo) w = (Inr lr, wl)"
    using getLyricsWithRetry_returns by blast
  have unfold2: "translateFromAudio_step2 e options startTime result w =
    (if SongInfo.artist songInfo = [] \<or> SongInfo.title songInfo = []
        then finish e startTime
               (pushError ''lyrics'' ''Missing artist or title information'' result) w
        else (case lr of
                None \<Rightarrow>
                  finish e startTime
                    (pushError ''lyrics''
                       ''Failed to fetch lyrics from all available services''
                       (result\<lparr>LyricsTranslationPipeline.lyrics := None\<rparr>)) wl
              | Some lyricsResult \<Rightarrow>
                  translateFromAudio_step3 e options startTime
                    (result\<lparr>LyricsTranslationPipeline.lyrics := Some lyricsResult\<rparr>) lyricsResult wl))"
    unfolding translateFromAudio_step2_def songInfoOf_def[symmetric] songInfo_def[symmetric] Let_def f
    by (cases lr) simp_all
  show ?thesis
  proof (cases "SongInfo.artist songInfo = [] \<or> SongInfo.title songInfo = []")
    case True
    then show ?thesis
      unfolding unfold2 songInfo_def[symmetric] Let_def using assms
      by (simp add: finish_eq pushError_def missingSongInfo_def Date_now_def)
  next
    case False
    show ?thesis
    proof (cases lr)
      case None
      then show ?thesis
        unfolding unfold2 songInfo_def[symmetric] Let_def using assms False f
        by (simp add: finish_eq pushError_def lyricsFailed_def Date_now_def valueOf_def)
    next
      case (Some l)
      have e3: "errors (result\<lparr>LyricsTranslationPipeline.lyrics := Some l\<rparr>) = []" using assms by simp
      from step3_described[OF e3, of e options startTime l wl]
      show ?thesis
        unfolding unfold2 songInfo_def[symmetric] Let_def using False f Some
        by (auto simp: valueOf_def)
    qed
  qed
qed

lemma translateFromAudio_described:
  "\<exists>p w1. translateFromAudio e audioBuffer options w = (Inr p, w1)
     \<and> described e audioBuffer options w p w1"
proof -
  let ?fresh = "\<lparr>LyricsTranslationPipeline.audioRecognition = None,
                 LyricsTranslationPipeline.lyrics = None,
                 LyricsTranslationPipeline.translation = None, errors = [],
                 processingTime = 0, LyricsTranslationPipeline.confidence = 0\<rparr>"
  let ?w0 = "w\<lparr>reads := Suc (reads w)\<rparr>"
  let ?start = "clock e (reads w)"
  show ?thesis
  proof (cases "wantsRecognition options")
    case False
    then have run: "translateFromAudio e audioBuffer options w =
        translateFromAudio_step2 e options ?start ?fresh ?w0"
      by (auto simp: translateFromAudio_def wantsRecognition_def Date_now_def Let_def)
    have e2: "errors ?fresh = []" by simp
    from step2_described[OF e2, of e options ?start ?w0]
    obtain p w1 where s2: "translateFromAudio_step2 e options ?start ?fresh ?w0 = (Inr p, w1)"
      and rest: "LyricsTranslationPipeline.audioRecognition p
                   = LyricsTranslationPipeline.audioRecognition ?fresh"
        "(let songInfo = songInfoOf options (LyricsTranslationPipeline.audioRecognition ?fresh);
             fetch = getLyricsWithRetry e (SongInfo.artist songInfo) (SongInfo.title songInfo) ?w0;
             lr = valueOf (fst fetch);
             translating = translateWithRetry e
                             (case lr of None \<Rightarrow> [] | Some l \<Rightarrow> LyricsResult.lyrics l)
                             (TranslationOptions.targetLanguage options)
                             (TranslationOptions.sourceLanguage options) (snd fetch);
             tr = valueOf (fst translating)
         in if SongInfo.artist songInfo = [] \<or> SongInfo.title songInfo = []
            then LyricsTranslationPipeline.lyrics p = LyricsTranslationPipeline.lyrics ?fresh
               \<and> LyricsTranslationPipeline.translation p = LyricsTranslationPipeline.translation ?fresh
               \<and> errors p = [missingSongInfo]
               \<and> w1 = snd (Date_now e ?w0)
            else if lr = None
            then LyricsTranslationPipeline.lyrics p = None
               \<and> LyricsTranslationPipeline.translation p = LyricsTranslationPipeline.translation ?fresh
               \<and> errors p = [lyricsFailed]
               \<and> w1 = snd (Date_now e (snd fetch))
            else LyricsTranslationPipeline.lyrics p = lr
               \<and> LyricsTranslationPipeline.translation p = tr
               \<and> errors p = (if tr = None then [translationFailed] else [])
               \<and> w1 = snd (Date_now e (snd translating)))"
      by (elim exE conjE)
    have "described e audioBuffer options w p w1"
      unfolding described_def using False rest
      by (simp add: Let_def Date_now_def valueOf_def)
    with run s2 show ?thesis by simp
  next
    case True
    obtain ar wa where r: "recognizeAudioWithRetry e audioBuffer ?w0 = (Inr ar, wa)"
      using recognizeAudioWithRetry_returns by blast
    show ?thesis
    proof (cases ar)
      case None
      then show ?thesis
        unfolding translateFromAudio_def described_def using True r
        by (simp add: wantsRecognition_def finish_eq pushError_def recognitionFailed_def
              Date_now_def valueOf_def Let_def)
    next
      case (Some a)
      have run: "translateFromAudio e audioBuffer options w =
        translateFromAudio_step2 e options ?start
          (?fresh\<lparr>LyricsTranslationPipeline.audioRecognition := Some a\<rparr>) wa"
        using True r Some
        by (simp add: translateFromAudio_def wantsRecognition_def Date_now_def Let_def)
      have e2: "errors (?fresh\<lparr>LyricsTranslationPipeline.audioRecognition := Some a\<rparr>) = []" by simp
      let ?res = "?fresh\<lparr>LyricsTranslationPipeline.audioRecognition := Some a\<rparr>"
      from step2_described[OF e2, of e options ?start wa]
      obtain p w1 where s2: "translateFromAudio_step2 e options ?start ?res wa = (Inr p, w1)"
        and rest: "LyricsTranslationPipeline.audioRecognition p
                     = LyricsTranslationPipeline.audioRecognition ?res"
          "(let songInfo = songInfoOf options (LyricsTranslationPipeline.audioRecognition ?res);
               fetch = getLyricsWithRetry e (SongInfo.artist songInfo) (SongInfo.title songInfo) wa;
               lr = valueOf (fst fetch);
               translating = translateWithRetry e
                               (case lr of None \<Rightarrow> [] | Some l \<Rightarrow> LyricsResult.lyrics l)
                               (TranslationOptions.targetLanguage options)
                               (TranslationOptions.sourceLanguage options) (snd fetch);
               tr = valueOf (fst translating)
           in if SongInfo.artist songInfo = [] \<or> SongInfo.title songInfo = []
              then LyricsTranslationPipeline.lyrics p = LyricsTranslationPipeline.lyrics ?res
                 \<and> LyricsTranslationPipeline.translation p = LyricsTranslationPipeline.translation ?res
                 \<and> errors p = [missingSongInfo]
                 \<and> w1 = snd (Date_now e wa)
              else if lr = None
              then LyricsTranslationPipeline.lyrics p = None
                 \<and> LyricsTranslationPipeline.translation p = LyricsTranslationPipeline.translation ?res
                 \<and> errors p = [lyricsFailed]
                 \<and> w1 = snd (Date_now e (snd fetch))
              else LyricsTranslationPipeline.lyrics p = lr
                 \<and> LyricsTranslationPipeline.translation p = tr
                 \<and> errors p = (if tr = None then [translationFailed] else [])
                 \<and> w1 = snd (Date_now e (snd translating)))"
        by (elim exE conjE)
      have "described e audioBuffer options w p w1"
        unfolding described_def using True r Some rest
        by (simp add: Let_def Date_now_def valueOf_def)
      with run s2 show ?thesis by simp
    qed
  qed
qed

lemma translateFromSongInfo_options:
  "translateFromSongInfo e a t tgt src w = translateFromAudio e [] (songInfoOptions a t tgt src) w"
  by (simp add: translateFromSongInfo_def songInfoOptions_def)

lemma translateLyricsOnly_described:
  "\<exists>p w1. translateLyricsOnly e lyr tgt src info w = (Inr p, w1)
     \<and> describedLyricsOnly e lyr tgt src info w p w1"
proof -
  obtain tr wt where t: "translateWithRetry e lyr tgt src (w\<lparr>reads := Suc (reads w)\<rparr>) = (Inr tr, wt)"
    using translateWithRetry_returns by blast
  show ?thesis
    unfolding translateLyricsOnly_def describedLyricsOnly_def Let_def using t
    by (cases tr) (simp_all add: finish_eq pushError_def translationFailed_def Date_now_def valueOf_def)
qed

subsection \<open>Worked runs\<close>

lemma demo_recognizeAudio_newWorld:
  "fst (translateFromAudio demoEnv [] demoOptions newWorld) =
     Inr \<lparr>LyricsTranslationPipeline.audioRecognition = None, lyrics = None, translation = None,
          errors = [\<lparr>service = ''audioRecognition'',
                     error = ''Failed to recognize audio from all available services'',
                     retryAfter = None\<rparr>],
          processingTime = 5, confidence = 0\<rparr>"
  by (simp add: translateFromAudio_def recognizeAudioWithRetry_unrolled recognizeAudio_def
        finish_eq pushError_def demoOptions_def demoEnv_def limiter_eval)

lemma flaky_pipeline_run:
  "map_sum id errors (fst (translateFromAudio flakyEnv [] demoOptions newWorld)) = Inr []"
  "map_sum id LyricsTranslationPipeline.translation
     (fst (translateFromAudio flakyEnv [] demoOptions newWorld))
   = Inr (Some (ayerFromLibre\<lparr>TranslationResult.source := ''Combined''\<rparr>))"
  "getAllErrors (snd (translateFromAudio flakyEnv [] demoOptions newWorld)) =
     [\<lparr>service = ''acrCloud'', error = ''HTTP 503'', retryAfter = None\<rparr>,
      \<lparr>service = ''lyricsOvh'', error = ''HTTP 503'', retryAfter = None\<rparr>,
      \<lparr>service = ''myMemory'', error = ''HTTP 503'', retryAfter = None\<rparr>]"
  "invoked (trace (snd (translateFromAudio flakyEnv [] demoOptions newWorld))) =
     [''acrCloud'', ''auddIo'', ''lyricsOvh'', ''musixmatch'', ''lyricsApi'',
      ''myMemory'', ''libreTranslate'']"
  by (simp_all add: getAllErrors_def translateFromAudio_def
        translateFromAudio_step2_def translateFromAudio_step3_def
        recognizeAudioWithRetry_unrolled recognizeAudio_def
        getLyricsWithRetry_unrolled getLyrics_def translateWithRetry_unrolled translateText_def
        isSupported_es splitTextIntoChunks_def yesterdayRecognised_def blankLyrics_def
        yesterdayFromLyricsApi_def ayerFromLibre_def trim_def
        isWhiteSpace_def finish_eq pushError_def demoOptions_def flakyEnv_def limiter_eval)

subsection \<open>The claim\<close>

text \<open>
  C3, as stated, fails in its last part: the \<open>errors\<close> array of the outcome does not
  describe every failure. The full pipeline in a fresh process, with ACRCloud, Lyrics.ovh
  and MyMemory each throwing when called: the fallback absorbs the three exceptions, the
  run returns a translation, and the outcome's \<open>errors\<close> array is empty. The three
  failures are in the services' own lists, which \<open>getAllErrors\<close> reads.
\<close>

theorem absorbed_failures_not_in_outcome:
  "recognitionAdapter flakyEnv 0 acrCloud = Throws (Error ''HTTP 503'')
   \<and> lyricsAdapter flakyEnv 2 lyricsOvh = Throws (Error ''HTTP 503'')
   \<and> translationAdapter flakyEnv 5 myMemory = Throws (Error ''HTTP 503'')
   \<and> invoked (trace (snd (translateFromAudio flakyEnv [] demoOptions newWorld))) =
       [''acrCloud'', ''auddIo'', ''lyricsOvh'', ''musixmatch'', ''lyricsApi'',
        ''myMemory'', ''libreTranslate'']
   \<and> map_sum id LyricsTranslationPipeline.translation
        (fst (translateFromAudio flakyEnv [] demoOptions newWorld))
      = Inr (Some (ayerFromLibre\<lparr>TranslationResult.source := ''Combined''\<rparr>))
   \<and> map_sum id errors (fst (translateFromAudio flakyEnv [] demoOptions newWorld)) = Inr []
   \<and> getAllErrors (snd (translateFromAudio flakyEnv [] demoOptions newWorld)) =
       [\<lparr>service = ''acrCloud'', error = ''HTTP 503'', retryAfter = None\<rparr>,
        \<lparr>service = ''lyricsOvh'', error = ''HTTP 503'', retryAfter = None\<rparr>,
        \<lparr>service = ''myMemory'', error = ''HTTP 503'', retryAfter = None\<rparr>]"
  unfolding flaky_pipeline_run by (simp add: flakyEnv_def steadyEnv_def)

text \<open>
  C3, amended. Whatever the providers do (throw, answer \<open>null\<close>, answer), whatever the
  rate limiter holds and whatever the arguments are, \<open>translateFromAudio\<close>,
  \<open>translateFromSongInfo\<close>, \<open>translateLyricsOnly\<close> and \<open>batchTranslate\<close> return normally
  (\<open>Inr\<close>, never a thrown value). The \<open>errors\<close> array of the pipeline returned names the
  stage that ended the run, in the sense of \<open>described\<close>: the stages run in order, the
  pipeline holds what they returned, and the array holds the one error of the first
  stage that came back empty (recognition, missing song info, lyrics, translation), after
  which no later stage is run; it is empty exactly when the pipeline holds a
  translation. \<open>batchTranslate\<close> returns one such pipeline per request, each described
  in the world the requests before it left.
\<close>

theorem no_exception_escapes:
  "(\<exists>p w1. translateFromAudio e audioBuffer options w = (Inr p, w1)
       \<and> described e audioBuffer options w p w1
       \<and> ((LyricsTranslationPipeline.translation p \<noteq> None \<and> errors p = [])
          \<or> (LyricsTranslationPipeline.translation p = None
              \<and> (\<exists>err\<in>set fatalErrors. errors p = [err]))))
   \<and> (\<exists>p w1. translateFromSongInfo e a t tgt src w = (Inr p, w1)
       \<and> described e [] (songInfoOptions a t tgt src) w p w1
       \<and> ((LyricsTranslationPipeline.translation p \<noteq> None \<and> errors p = [])
          \<or> (LyricsTranslationPipeline.translation p = None
              \<and> (\<exists>err\<in>set fatalErrors. errors p = [err]))))
   \<and> (\<exists>p w1. translateLyricsOnly e lyr tgt src info w = (Inr p, w1)
       \<and> describedLyricsOnly e lyr tgt src info w p w1
       \<and> ((LyricsTranslationPipeline.translation p \<noteq> None \<and> errors p = [])
          \<or> (LyricsTranslationPipeline.translation p = None
              \<and> (\<exists>err\<in>set fatalErrors. errors p = [err]))))
   \<and> (\<exists>ps w1. batchTranslate e reqs w = (Inr ps, w1) \<and> length ps = length reqs
       \<and> (\<forall>i<length reqs.
             described e []
               (songInfoOptions (BatchRequest.artist (reqs ! i)) (BatchRequest.title (reqs ! i))
                  (BatchRequest.targetLanguage (reqs ! i)) (BatchRequest.sourceLanguage (reqs ! i)))
               (worldBefore e reqs i w) (ps ! i)
               (snd (translateRequest e (reqs ! i) (worldBefore e reqs i w))))
       \<and> (\<forall>p\<in>set ps. (LyricsTranslationPipeline.translation p \<noteq> None \<and> errors p = [])
               \<or> (LyricsTranslationPipeline.translation p = None
                   \<and> (\<exists>err\<in>set fatalErrors. errors p = [err]))))"
proof (intro conjI)
  show "\<exists>p w1. translateFromAudio e audioBuffer options w = (Inr p, w1)
       \<and> described e audioBuffer options w p w1
       \<and> ((LyricsTranslationPipeline.translation p \<noteq> None \<and> errors p = [])
          \<or> (LyricsTranslationPipeline.translation p = None
              \<and> (\<exists>err\<in>set fatalErrors. errors p = [err])))"
    using translateFromAudio_described[of e audioBuffer options w]
      translateFromAudio_reported[of e audioBuffer options w]
    by (auto simp: reported_def)
  show "\<exists>p w1. translateFromSongInfo e a t tgt src w = (Inr p, w1)
       \<and> described e [] (songInfoOptions a t tgt src) w p w1
       \<and> ((LyricsTranslationPipeline.translation p \<noteq> None \<and> errors p = [])
          \<or> (LyricsTranslationPipeline.translation p = None
              \<and> (\<exists>err\<in>set fatalErrors. errors p = [err])))"
    unfolding translateFromSongInfo_options
    using translateFromAudio_described[of e "[]" "songInfoOptions a t tgt src" w]
      translateFromAudio_reported[of e "[]" "songInfoOptions a t tgt src" w]
    by (auto simp: reported_def)
  show "\<exists>p w1. translateLyricsOnly e lyr tgt src info w = (Inr p, w1)
       \<and> describedLyricsOnly e lyr tgt src info w p w1
       \<and> ((LyricsTranslationPipeline.translation p \<noteq> None \<and> errors p = [])
          \<or> (LyricsTranslationPipeline.translation p = None
              \<and> (\<exists>err\<in>set fatalErrors. errors p = [err])))"
    using translateLyricsOnly_described[of e lyr tgt src info w]
      translateLyricsOnly_reported[of e lyr tgt src info w]
    by (auto simp: reported_def)
  from batchTranslate_loop_items[of e reqs "[]" w]
  obtain ps w1 where run: "batchTranslate_loop e reqs [] w = (ps, w1)"
    and len: "length ps = length reqs"
    and items: "\<forall>i<length reqs.
           fst (translateRequest e (reqs ! i) (worldBefore e reqs i w)) = Inr (ps ! i)"
    by auto
  have "list_all reported []" by simp
  from batchTranslate_loop_reported[OF this, of e reqs w] run
  have rep: "\<forall>p\<in>set ps. (LyricsTranslationPipeline.translation p \<noteq> None \<and> errors p = [])
               \<or> (LyricsTranslationPipeline.translation p = None
                   \<and> (\<exists>err\<in>set fatalErrors. errors p = [err]))"
    by (auto simp: list_all_iff reported_def)
  have desc: "\<forall>i<length reqs.
             described e []
               (songInfoOptions (BatchRequest.artist (reqs ! i)) (BatchRequest.title (reqs ! i))
                  (BatchRequest.targetLanguage (reqs ! i)) (BatchRequest.sourceLanguage (reqs ! i)))
               (worldBefore e reqs i w) (ps ! i)
               (snd (translateRequest e (reqs ! i) (worldBefore e reqs i w)))"
  proof (intro allI impI)
    fix i assume i: "i < length reqs"
    let ?o = "songInfoOptions (BatchRequest.artist (reqs ! i)) (BatchRequest.title (reqs ! i))
                  (BatchRequest.targetLanguage (reqs ! i)) (BatchRequest.sourceLanguage (reqs ! i))"
    let ?w = "worldBefore e reqs i w"
    have tr: "translateRequest e (reqs ! i) ?w = translateFromAudio e [] ?o ?w"
      by (simp add: translateRequest_def translateFromSongInfo_options)
    from translateFromAudio_described[of e "[]" ?o ?w]
    obtain p w2 where r: "translateFromAudio e [] ?o ?w = (Inr p, w2)"
      and d: "described e [] ?o ?w p w2" by blast
    from items i have "fst (translateRequest e (reqs ! i) ?w) = Inr (ps ! i)" by blast
    then have "ps ! i = p" unfolding tr r by simp
    moreover have "snd (translateRequest e (reqs ! i) ?w) = w2" using tr r by simp
    ultimately show "described e [] ?o ?w (ps ! i) (snd (translateRequest e (reqs ! i) ?w))"
      using d by simp
  qed
  show "\<exists>ps w1. batchTranslate e reqs w = (Inr ps, w1) \<and> length ps = length reqs
       \<and> (\<forall>i<length reqs.
             described e []
               (songInfoOptions (BatchRequest.artist (reqs ! i)) (BatchRequest.title (reqs ! i))
                  (BatchRequest.targetLanguage (reqs ! i)) (BatchRequest.sourceLanguage (reqs ! i)))
               (worldBefore e reqs i w) (ps ! i)
               (snd (translateRequest e (reqs ! i) (worldBefore e reqs i w))))
       \<and> (\<forall>p\<in>set ps. (LyricsTranslationPipeline.translation p \<noteq> None \<and> errors p = [])
               \<or> (LyricsTranslationPipeline.translation p = None
                   \<and> (\<exists>err\<in>set fatalErrors. errors p = [err])))"
    using run len desc rep by (simp add: batchTranslate_def)
qed

theorem no_exception_escapes_witness:
  "(\<exists>p w1. translateFromAudio flakyEnv [] demoOptions newWorld = (Inr p, w1)
       \<and> described flakyEnv [] demoOptions newWorld p w1
       \<and> LyricsTranslationPipeline.translation p \<noteq> None \<and> errors p = [])
   \<and> (\<exists>p w1. translateFromAudio demoEnv [] demoOptions newWorld = (Inr p, w1)
       \<and> described demoEnv [] demoOptions newWorld p w1
       \<and> LyricsTranslationPipeline.translation p = None \<and> errors p = [recognitionFailed])
   \<and> (\<exists>ps w1. batchTranslate demoEnv demoBatch newWorld = (Inr ps, w1) \<and> length ps = 3
       \<and> LyricsTranslationPipeline.translation (ps ! 1) = None
       \<and> errors (ps ! 1) = [missingSongInfo]
       \<and> missingSongInfo \<in> set fatalErrors)"
proof (intro conjI)
  from no_exception_escapes[where e=flakyEnv and audioBuffer="[]" and options=demoOptions
      and w=newWorld, THEN conjunct1]
  obtain p w1 where run: "translateFromAudio flakyEnv [] demoOptions newWorld = (Inr p, w1)"
    and d: "described flakyEnv [] demoOptions newWorld p w1"
    and rep: "(LyricsTranslationPipeline.translation p \<noteq> None \<and> errors p = [])
          \<or> (LyricsTranslationPipeline.translation p = None
              \<and> (\<exists>err\<in>set fatalErrors. errors p = [err]))"
    by (elim exE conjE)
  have "errors p = []" using flaky_pipeline_run(1) run by simp
  with rep have "LyricsTranslationPipeline.translation p \<noteq> None \<and> errors p = []" by auto
  with run d show "\<exists>p w1. translateFromAudio flakyEnv [] demoOptions newWorld = (Inr p, w1)
       \<and> described flakyEnv [] demoOptions newWorld p w1
       \<and> LyricsTranslationPipeline.translation p \<noteq> None \<and> errors p = []" by blast
next
  from no_exception_escapes[where e=demoEnv and audioBuffer="[]" and options=demoOptions
      and w=newWorld, THEN conjunct1]
  obtain p w1 where run: "translateFromAudio demoEnv [] demoOptions newWorld = (Inr p, w1)"
    and d: "described demoEnv [] demoOptions newWorld p w1"
    and rep: "(LyricsTranslationPipeline.translation p \<noteq> None \<and> errors p = [])
          \<or> (LyricsTranslationPipeline.translation p = None
              \<and> (\<exists>err\<in>set fatalErrors. errors p = [err]))"
    by (elim exE conjE)
  have "errors p = [recognitionFailed]"
    using demo_recognizeAudio_newWorld run by (simp add: recognitionFailed_def)
  with rep have "LyricsTranslationPipeline.translation p = None \<and> errors p = [recognitionFailed]"
    by auto
  with run d show "\<exists>p w1. translateFromAudio demoEnv [] demoOptions newWorld = (Inr p, w1)
       \<and> described demoEnv [] demoOptions newWorld p w1
       \<and> LyricsTranslationPipeline.translation p = None \<and> errors p = [recognitionFailed]" by blast
next
  from no_exception_escapes[where e=demoEnv and reqs=demoBatch and w=newWorld,
      THEN conjunct2, THEN conjunct2, THEN conjunct2]
  obtain ps w1 where run: "batchTranslate demoEnv demoBatch newWorld = (Inr ps, w1)"
    and len: "length ps = length demoBatch"
    and desc: "\<forall>i<length demoBatch.
             described demoEnv []
               (songInfoOptions (BatchRequest.artist (demoBatch ! i)) (BatchRequest.title (demoBatch ! i))
                  (BatchRequest.targetLanguage (demoBatch ! i)) (BatchRequest.sourceLanguage (demoBatch ! i)))
               (worldBefore demoEnv demoBatch i newWorld) (ps ! i)
               (snd (translateRequest demoEnv (demoBatch ! i) (worldBefore demoEnv demoBatch i newWorld)))"
    and rep: "\<forall>p\<in>set ps.
             (LyricsTranslationPipeline.translation p \<noteq> None \<and> errors p = [])
               \<or> (LyricsTranslationPipeline.translation p = None
                   \<and> (\<exists>err\<in>set fatalErrors. errors p = [err]))"
    by (elim exE conjE)
  have l3: "length ps = 3" using len by (simp add: demoBatch_def)
  have "1 < length demoBatch" by (simp add: demoBatch_def)
  with desc have "described demoEnv []
               (songInfoOptions (BatchRequest.artist (demoBatch ! 1)) (BatchRequest.title (demoBatch ! 1))
                  (BatchRequest.targetLanguage (demoBatch ! 1)) (BatchRequest.sourceLanguage (demoBatch ! 1)))
               (worldBefore demoEnv demoBatch 1 newWorld) (ps ! 1)
               (snd (translateRequest demoEnv (demoBatch ! 1) (worldBefore demoEnv demoBatch 1 newWorld)))"
    by blast
  then have e1: "errors (ps ! 1) = [missingSongInfo]"
    by (simp add: described_def Let_def wantsRecognition_def songInfoOptions_def songInfoOf_def
          demoBatch_def)
  have "ps ! 1 \<in> set ps" using l3 by simp
  with rep have "(LyricsTranslationPipeline.translation (ps ! 1) \<noteq> None \<and> errors (ps ! 1) = [])
               \<or> (LyricsTranslationPipeline.translation (ps ! 1) = None
                   \<and> (\<exists>err\<in>set fatalErrors. errors (ps ! 1) = [err]))" by blast
  with e1 have t1: "LyricsTranslationPipeline.translation (ps ! 1) = None" by auto
  have "missingSongInfo \<in> set fatalErrors" by (simp add: missingSongInfo_def fatalErrors_def)
  with run l3 e1 t1
  show "\<exists>ps w1. batchTranslate demoEnv demoBatch newWorld = (Inr ps, w1) \<and> length ps = 3
       \<and> LyricsTranslationPipeline.translation (ps ! 1) = None
       \<and> errors (ps ! 1) = [missingSongInfo]
       \<and> missingSongInfo \<in> set fatalErrors" by blast
qed

section \<open>C4: recordRequest after an admitted call\<close>

text \<open>
  C4. \<open>recordRequest\<close> after an admitted \<open>isAllowed\<close> is claimed to leave
  \<open>getRemainingRequests\<close> at the quota minus the timestamps booked in the window. On a
  fresh limiter with the Lyrics.ovh configuration (1000 requests a day) one admitted call
  books one timestamp and leaves 999 remaining; the \<open>recordRequest\<close> that the dispatcher
  then makes for the same call lowers it to 998, while one timestamp is booked.
\<close>

theorem recordRequest_double_booking:
  "fst (isAllowed 0 (lyricsKey lyricsOvh) (FREE_API_CONFIGS_lyrics lyricsOvh) newRateLimiter)
   \<and> requestsOf (recordRequest 1 (lyricsKey lyricsOvh)
         (snd (isAllowed 0 (lyricsKey lyricsOvh) (FREE_API_CONFIGS_lyrics lyricsOvh) newRateLimiter)))
       (lyricsKey lyricsOvh) = [0]
   \<and> getRemainingRequests (lyricsKey lyricsOvh)
         (snd (isAllowed 0 (lyricsKey lyricsOvh) (FREE_API_CONFIGS_lyrics lyricsOvh) newRateLimiter))
       = 999
   \<and> getRemainingRequests (lyricsKey lyricsOvh)
         (recordRequest 1 (lyricsKey lyricsOvh)
           (snd (isAllowed 0 (lyricsKey lyricsOvh) (FREE_API_CONFIGS_lyrics lyricsOvh) newRateLimiter)))
       = 998"
  by (simp add: isAllowed_def recordRequest_def getRemainingRequests_def requestsOf_def
        newRateLimiter_def lyricsKey_def Let_def)

text \<open>
  In general: whenever the admitted call left room (fewer timestamps than the quota),
  \<open>recordRequest\<close> takes \<open>remaining\<close> one below the quota minus the booked timestamps.
\<close>

lemma recordRequest_decrements_again:
  assumes "isAllowed now key config rl = (True, rl1)"
      and "int (length (requestsOf rl1 key)) < requests (rateLimit config)"
  shows "getRemainingRequests key (recordRequest now' key rl1)
         = requests (rateLimit config) - int (length (requestsOf rl1 key)) - 1"
  using assms
  by (auto simp: isAllowed_def recordRequest_def getRemainingRequests_def requestsOf_def
        Let_def split: option.splits if_splits)

section \<open>C5: what survives a pipeline run\<close>

subsection \<open>Blind to the errors lists\<close>

lemma eb_return: "errorsBlind (\<lambda>w. (x, w))"
  by (simp add: errorsBlind_def)

lemma eb_D:
  "errorsBlind f \<Longrightarrow> sameButErrors w w' \<Longrightarrow>
     fst (f w) = fst (f w') \<and> sameButErrors (snd (f w)) (snd (f w'))"
  by (simp add: errorsBlind_def)

lemma eb_bind:
  assumes "errorsBlind f" and "\<And>x. errorsBlind (g x)"
  shows "errorsBlind (\<lambda>w. case f w of (x, w1) \<Rightarrow> g x w1)"
  unfolding errorsBlind_def
proof (intro allI impI)
  fix w w' assume r: "sameButErrors w w'"
  obtain x w1 where a: "f w = (x, w1)" by (cases "f w")
  obtain x' w1' where a': "f w' = (x', w1')" by (cases "f w'")
  from eb_D[OF assms(1) r] a a' have "x = x'" "sameButErrors w1 w1'"
    by simp_all
  with eb_D[OF assms(2)[of x], of w1 w1'] show "fst (case f w of (x, w1) \<Rightarrow> g x w1) = fst (case f w' of (x, w1) \<Rightarrow> g x w1)
     \<and> sameButErrors (snd (case f w of (x, w1) \<Rightarrow> g x w1)) (snd (case f w' of (x, w1) \<Rightarrow> g x w1))"
    by (simp add: a a')
qed

lemma eb_if:
  assumes "c \<Longrightarrow> errorsBlind f" and "\<not> c \<Longrightarrow> errorsBlind g"
  shows "errorsBlind (\<lambda>w. if c then f w else g w)"
  using assms by (cases c) simp_all

lemma eb_after:
  assumes "errorsBlind f" and "errorsBlindStep h"
  shows "errorsBlind (\<lambda>w. f (h w))"
  using assms by (simp add: errorsBlind_def errorsBlindStep_def)

lemma eb_then:
  assumes "errorsBlindStep h"
  shows "errorsBlind (\<lambda>w. (x, h w))"
  using assms by (simp add: errorsBlind_def errorsBlindStep_def)

lemma eb_case_option:
  assumes "r = None \<Longrightarrow> errorsBlind f" and "\<And>x. r = Some x \<Longrightarrow> errorsBlind (g x)"
  shows "errorsBlind (\<lambda>w. case r of None \<Rightarrow> f w | Some x \<Rightarrow> g x w)"
  using assms by (cases r) simp_all

lemma eb_case_sum:
  assumes "\<And>x. r = Inl x \<Longrightarrow> errorsBlind (f x)" and "\<And>x. r = Inr x \<Longrightarrow> errorsBlind (g x)"
  shows "errorsBlind (\<lambda>w. case r of Inl x \<Rightarrow> f x w | Inr x \<Rightarrow> g x w)"
  using assms by (cases r) simp_all

lemma eb_case_outcome:
  assumes "\<And>x. r = Throws x \<Longrightarrow> errorsBlind (f x)" and "\<And>x. r = Returns x \<Longrightarrow> errorsBlind (g x)"
  shows "errorsBlind (\<lambda>w. case r of Throws x \<Rightarrow> f x w | Returns x \<Rightarrow> g x w)"
  using assms by (cases r) simp_all

lemma eb_case_prod:
  assumes "\<And>a b. p = (a, b) \<Longrightarrow> errorsBlind (g a b)"
  shows "errorsBlind (\<lambda>w. case p of (a, b) \<Rightarrow> g a b w)"
  using assms by (cases p) simp_all

lemma ebs_id: "errorsBlindStep (\<lambda>w. w)"
  by (simp add: errorsBlindStep_def)

lemma ebs_if:
  assumes "c \<Longrightarrow> errorsBlindStep f" and "\<not> c \<Longrightarrow> errorsBlindStep g"
  shows "errorsBlindStep (\<lambda>w. if c then f w else g w)"
  using assms by (cases c) simp_all

lemmas eb_rules = eb_return eb_bind eb_if eb_case_option eb_case_sum eb_case_outcome eb_case_prod

text \<open>The primitives.\<close>

lemma ebs_set_errors:
  "errorsBlindStep (\<lambda>w. w\<lparr>audioErrors := a w\<rparr>)"
  "errorsBlindStep (\<lambda>w. w\<lparr>lyricsErrors := a w\<rparr>)"
  "errorsBlindStep (\<lambda>w. w\<lparr>translationErrors := a w\<rparr>)"
  by (simp_all add: errorsBlindStep_def sameButErrors_def)

lemma ebs_delay: "errorsBlindStep (delay ms)"
  by (simp add: errorsBlindStep_def sameButErrors_def delay_def)

lemma ebs_recordRequest: "errorsBlindStep (rateLimiter_recordRequest e key)"
  by (auto simp: errorsBlindStep_def sameButErrors_def rateLimiter_recordRequest_def Date_now_def Let_def)

lemma eb_Date_now: "errorsBlind (Date_now e)"
  by (simp add: errorsBlind_def sameButErrors_def Date_now_def)

lemma eb_isAllowed: "errorsBlind (rateLimiter_isAllowed e key config)"
  by (auto simp: errorsBlind_def sameButErrors_def rateLimiter_isAllowed_def Date_now_def Let_def
      split: prod.splits)

lemma eb_getRetryAfter: "errorsBlind (rateLimiter_getRetryAfter e key config)"
  by (auto simp: errorsBlind_def sameButErrors_def rateLimiter_getRetryAfter_def Date_now_def Let_def
      split: prod.splits)

lemma eb_calls:
  "errorsBlind (callRecognitionProvider e a)"
  "errorsBlind (callLyricsProvider e l)"
  "errorsBlind (callTranslationProvider e t)"
  by (simp_all add: errorsBlind_def sameButErrors_def callRecognitionProvider_def
      callLyricsProvider_def callTranslationProvider_def)

lemma eb_getLyrics_loop: "errorsBlind (getLyrics_loop e svcs)"
proof (induction svcs)
  case Nil
  show ?case unfolding getLyrics_loop.simps(1)[abs_def] by (rule eb_return)
next
  case (Cons s rest)
  show ?case
    unfolding getLyrics_loop.simps(2)[abs_def] Let_def
    by (intro eb_rules eb_isAllowed eb_getRetryAfter eb_calls eb_after[OF Cons] ebs_set_errors
          eb_then ebs_recordRequest Cons)
qed


lemma eb_recognizeAudio_loop: "errorsBlind (recognizeAudio_loop e svcs)"
proof (induction svcs)
  case Nil
  show ?case unfolding recognizeAudio_loop.simps(1)[abs_def] by (rule eb_return)
next
  case (Cons s rest)
  show ?case
    unfolding recognizeAudio_loop.simps(2)[abs_def] Let_def
    by (intro eb_rules eb_isAllowed eb_getRetryAfter eb_calls eb_after[OF Cons] ebs_set_errors
          eb_then ebs_recordRequest Cons)
qed

lemma eb_translateChunk_loop: "errorsBlind (translateChunk_loop e svcs)"
proof (induction svcs)
  case Nil
  show ?case unfolding translateChunk_loop.simps(1)[abs_def] by (rule eb_return)
next
  case (Cons s rest)
  show ?case
    unfolding translateChunk_loop.simps(2)[abs_def] Let_def
    by (intro eb_rules eb_isAllowed eb_getRetryAfter eb_calls eb_after[OF Cons] ebs_set_errors
          eb_then ebs_recordRequest Cons)
qed

lemma eb_translateChunks: "errorsBlind (translateChunks e chunks many acc detected)"
proof (induction chunks arbitrary: acc detected)
  case Nil
  show ?case unfolding translateChunks.simps(1)[abs_def] by (rule eb_return)
next
  case (Cons chunk rest)
  show ?case
    unfolding translateChunks.simps(2)[abs_def] Let_def
    by (intro eb_rules eb_translateChunk_loop eb_after[OF Cons] ebs_if ebs_delay ebs_id)
qed

lemma eb_recognizeAudio: "errorsBlind (recognizeAudio e audioBuffer)"
  unfolding recognizeAudio_def[abs_def] Let_def
  by (intro eb_rules eb_after[OF eb_recognizeAudio_loop] ebs_set_errors)

lemma eb_getLyrics: "errorsBlind (getLyrics e a t)"
  unfolding getLyrics_def[abs_def] Let_def
  by (intro eb_rules eb_after[OF eb_getLyrics_loop] ebs_set_errors)

lemma eb_translateText: "errorsBlind (translateText e txt tgt src)"
  unfolding translateText_def[abs_def] Let_def
  by (intro eb_rules eb_after[OF eb_translateChunks] ebs_set_errors eb_then)

lemma eb_recognizeAudioWithRetry: "errorsBlind (recognizeAudioWithRetry e audioBuffer)"
  unfolding recognizeAudioWithRetry_unrolled[abs_def]
  by (intro eb_rules eb_recognizeAudio eb_after[OF eb_recognizeAudio] ebs_delay)

lemma eb_getLyricsWithRetry: "errorsBlind (getLyricsWithRetry e a t)"
  unfolding getLyricsWithRetry_unrolled[abs_def]
  by (intro eb_rules eb_getLyrics eb_after[OF eb_getLyrics] ebs_delay)

lemma eb_translateWithRetry: "errorsBlind (translateWithRetry e txt tgt src)"
  unfolding translateWithRetry_unrolled[abs_def]
  by (intro eb_rules eb_translateText eb_after[OF eb_translateText] ebs_delay)

lemma eb_finish: "errorsBlind (finish e startTime result)"
  unfolding finish_def[abs_def] Let_def
  by (intro eb_rules eb_Date_now)

lemma eb_catch: "errorsBlind (translateFromAudio_catch e startTime result err)"
  unfolding translateFromAudio_catch_def[abs_def] by (rule eb_finish)

lemma eb_step3: "errorsBlind (translateFromAudio_step3 e options startTime result lyricsResult)"
  unfolding translateFromAudio_step3_def[abs_def] Let_def
  by (intro eb_rules eb_translateWithRetry eb_catch eb_finish)

lemma eb_step2: "errorsBlind (translateFromAudio_step2 e options startTime result)"
  unfolding translateFromAudio_step2_def[abs_def] Let_def
  by (intro eb_rules eb_getLyricsWithRetry eb_catch eb_finish eb_step3)

lemma eb_translateFromAudio: "errorsBlind (translateFromAudio e audioBuffer options)"
  unfolding translateFromAudio_def[abs_def] Let_def
  by (intro eb_rules eb_Date_now eb_recognizeAudioWithRetry eb_catch eb_finish eb_step2)

lemma eb_translateFromSongInfo: "errorsBlind (translateFromSongInfo e a t tgt src)"
  unfolding translateFromSongInfo_def[abs_def] by (rule eb_translateFromAudio)

lemma eb_translateLyricsOnly: "errorsBlind (translateLyricsOnly e lyr tgt src info)"
  unfolding translateLyricsOnly_def[abs_def] Let_def
  by (intro eb_rules eb_Date_now eb_translateWithRetry eb_finish)

lemma eb_batchTranslate_loop: "errorsBlind (batchTranslate_loop e reqs results)"
proof (induction reqs arbitrary: results)
  case Nil
  show ?case unfolding batchTranslate_loop.simps(1)[abs_def] by (rule eb_return)
next
  case (Cons request rest)
  show ?case
    unfolding batchTranslate_loop.simps(2)[abs_def] Let_def
    by (intro eb_rules eb_translateFromSongInfo eb_after[OF Cons] ebs_if ebs_delay ebs_id)
qed

lemma eb_batchTranslate: "errorsBlind (batchTranslate e reqs)"
  unfolding batchTranslate_def[abs_def] Let_def
  by (intro eb_rules eb_batchTranslate_loop)


subsection \<open>What a run leaves untouched\<close>

lemma keeps_return: "keeps field (\<lambda>w. (x, w))"
  by (simp add: keeps_def)

lemma keeps_bind:
  assumes "keeps field f" and "\<And>x. keeps field (g x)"
  shows "keeps field (\<lambda>w. case f w of (x, w1) \<Rightarrow> g x w1)"
  using assms by (auto simp: keeps_def split: prod.splits) (metis snd_conv)

lemma keeps_if:
  assumes "c \<Longrightarrow> keeps field f" and "\<not> c \<Longrightarrow> keeps field g"
  shows "keeps field (\<lambda>w. if c then f w else g w)"
  using assms by (cases c) simp_all

lemma keeps_after:
  assumes "keeps field f" and "keepsStep field h"
  shows "keeps field (\<lambda>w. f (h w))"
  using assms by (simp add: keeps_def keepsStep_def)

lemma keeps_then:
  assumes "keepsStep field h"
  shows "keeps field (\<lambda>w. (x, h w))"
  using assms by (simp add: keeps_def keepsStep_def)

lemma keeps_case_option:
  assumes "r = None \<Longrightarrow> keeps field f" and "\<And>x. r = Some x \<Longrightarrow> keeps field (g x)"
  shows "keeps field (\<lambda>w. case r of None \<Rightarrow> f w | Some x \<Rightarrow> g x w)"
  using assms by (cases r) simp_all

lemma keeps_case_sum:
  assumes "\<And>x. r = Inl x \<Longrightarrow> keeps field (f x)" and "\<And>x. r = Inr x \<Longrightarrow> keeps field (g x)"
  shows "keeps field (\<lambda>w. case r of Inl x \<Rightarrow> f x w | Inr x \<Rightarrow> g x w)"
  using assms by (cases r) simp_all

lemma keeps_case_outcome:
  assumes "\<And>x. r = Throws x \<Longrightarrow> keeps field (f x)" and "\<And>x. r = Returns x \<Longrightarrow> keeps field (g x)"
  shows "keeps field (\<lambda>w. case r of Throws x \<Rightarrow> f x w | Returns x \<Rightarrow> g x w)"
  using assms by (cases r) simp_all

lemma keeps_case_prod:
  assumes "\<And>a b. p = (a, b) \<Longrightarrow> keeps field (g a b)"
  shows "keeps field (\<lambda>w. case p of (a, b) \<Rightarrow> g a b w)"
  using assms by (cases p) simp_all

lemma keepsStep_id: "keepsStep field (\<lambda>w. w)"
  by (simp add: keepsStep_def)

lemma keepsStep_if:
  assumes "c \<Longrightarrow> keepsStep field f" and "\<not> c \<Longrightarrow> keepsStep field g"
  shows "keepsStep field (\<lambda>w. if c then f w else g w)"
  using assms by (cases c) simp_all

lemmas keeps_rules = keeps_return keeps_bind keeps_if keeps_case_option keeps_case_sum
  keeps_case_outcome keeps_case_prod

lemma keepsStep_errors:
  "keepsStep audioErrors (\<lambda>w. w\<lparr>lyricsErrors := a w\<rparr>)"
  "keepsStep audioErrors (\<lambda>w. w\<lparr>translationErrors := a w\<rparr>)"
  "keepsStep lyricsErrors (\<lambda>w. w\<lparr>translationErrors := a w\<rparr>)"
  "keepsStep audioErrors (delay ms)" "keepsStep lyricsErrors (delay ms)"
  "keepsStep audioErrors (rateLimiter_recordRequest e key)"
  "keepsStep lyricsErrors (rateLimiter_recordRequest e key)"
  by (auto simp: keepsStep_def delay_def rateLimiter_recordRequest_def Date_now_def Let_def)

lemma keeps_primitives:
  "keeps audioErrors (Date_now e)" "keeps lyricsErrors (Date_now e)"
  "keeps audioErrors (rateLimiter_isAllowed e key config)"
  "keeps lyricsErrors (rateLimiter_isAllowed e key config)"
  "keeps audioErrors (rateLimiter_getRetryAfter e key config)"
  "keeps lyricsErrors (rateLimiter_getRetryAfter e key config)"
  "keeps audioErrors (callLyricsProvider e l)"
  "keeps audioErrors (callTranslationProvider e t)"
  "keeps lyricsErrors (callTranslationProvider e t)"
  by (auto simp: keeps_def Date_now_def rateLimiter_isAllowed_def rateLimiter_getRetryAfter_def
      callLyricsProvider_def callTranslationProvider_def Let_def split: prod.splits)

lemma keeps_getLyrics_loop: "keeps audioErrors (getLyrics_loop e svcs)"
proof (induction svcs)
  case Nil
  show ?case unfolding getLyrics_loop.simps(1)[abs_def] by (rule keeps_return)
next
  case (Cons s rest)
  show ?case
    unfolding getLyrics_loop.simps(2)[abs_def] Let_def
    by (intro keeps_rules keeps_primitives keeps_after[OF Cons] keepsStep_errors keeps_then Cons)
qed

lemma keeps_translateChunk_loop:
  "keeps audioErrors (translateChunk_loop e svcs) \<and> keeps lyricsErrors (translateChunk_loop e svcs)"
proof (induction svcs)
  case Nil
  show ?case unfolding translateChunk_loop.simps(1)[abs_def] by (simp add: keeps_return)
next
  case (Cons s rest)
  show ?case
    unfolding translateChunk_loop.simps(2)[abs_def] Let_def
    by (intro conjI keeps_rules keeps_primitives keeps_after[OF Cons[THEN conjunct1]]
          keeps_after[OF Cons[THEN conjunct2]] keepsStep_errors keeps_then
          Cons[THEN conjunct1] Cons[THEN conjunct2])
qed

lemma keeps_translateChunks:
  "keeps audioErrors (translateChunks e chunks many acc detected)
   \<and> keeps lyricsErrors (translateChunks e chunks many acc detected)"
proof (induction chunks arbitrary: acc detected)
  case Nil
  show ?case unfolding translateChunks.simps(1)[abs_def] by (simp add: keeps_return)
next
  case (Cons chunk rest)
  show ?case
    unfolding translateChunks.simps(2)[abs_def] Let_def
    by (intro conjI keeps_rules keeps_translateChunk_loop[THEN conjunct1]
          keeps_translateChunk_loop[THEN conjunct2]
          keeps_after[OF Cons[THEN conjunct1]] keeps_after[OF Cons[THEN conjunct2]]
          keepsStep_if keepsStep_errors keepsStep_id)
qed

lemma keeps_getLyrics: "keeps audioErrors (getLyrics e a t)"
  unfolding getLyrics_def[abs_def] Let_def
  by (intro keeps_rules keeps_after[OF keeps_getLyrics_loop] keepsStep_errors)

lemma keeps_translateText:
  "keeps audioErrors (translateText e txt tgt src)" "keeps lyricsErrors (translateText e txt tgt src)"
  unfolding translateText_def[abs_def] Let_def
  by (intro keeps_rules keeps_after[OF keeps_translateChunks[THEN conjunct1]]
        keeps_after[OF keeps_translateChunks[THEN conjunct2]] keepsStep_errors keeps_then)+

lemma keeps_getLyricsWithRetry: "keeps audioErrors (getLyricsWithRetry e a t)"
  unfolding getLyricsWithRetry_unrolled[abs_def]
  by (intro keeps_rules keeps_getLyrics keeps_after[OF keeps_getLyrics] keepsStep_errors)

lemma keeps_translateWithRetry:
  "keeps audioErrors (translateWithRetry e txt tgt src)"
  "keeps lyricsErrors (translateWithRetry e txt tgt src)"
  unfolding translateWithRetry_unrolled[abs_def]
  by (intro keeps_rules keeps_translateText keeps_after[OF keeps_translateText(1)]
        keeps_after[OF keeps_translateText(2)] keepsStep_errors)+

lemma keeps_finish:
  "keeps audioErrors (finish e startTime result)" "keeps lyricsErrors (finish e startTime result)"
  unfolding finish_def[abs_def] Let_def
  by (intro keeps_rules keeps_primitives)+

lemma keeps_step3:
  "keeps audioErrors (translateFromAudio_step3 e options startTime result lyricsResult)"
  unfolding translateFromAudio_step3_def[abs_def] translateFromAudio_catch_def[abs_def] Let_def
  by (intro keeps_rules keeps_translateWithRetry keeps_finish)

lemma keeps_step2:
  "manualSongInfo options \<noteq> None \<Longrightarrow>
   keeps audioErrors (translateFromAudio_step2 e options startTime result)"
  unfolding translateFromAudio_step2_def[abs_def] translateFromAudio_catch_def[abs_def] Let_def
  by (intro keeps_rules keeps_getLyricsWithRetry keeps_finish keeps_step3)

lemma translateFromSongInfo_skips_recognition:
  "translateFromSongInfo e a t tgt src =
    (\<lambda>w. case Date_now e w of
            (startTime, w0) \<Rightarrow>
              translateFromAudio_step2 e
                \<lparr>TranslationOptions.targetLanguage = tgt, TranslationOptions.sourceLanguage = src,
                 skipAudioRecognition = Some True,
                 manualSongInfo = Some \<lparr>SongInfo.artist = a, SongInfo.title = t\<rparr>,
                 qualityThreshold = None\<rparr>
                startTime
                \<lparr>LyricsTranslationPipeline.audioRecognition = None,
                 LyricsTranslationPipeline.lyrics = None,
                 LyricsTranslationPipeline.translation = None, errors = [],
                 processingTime = 0, LyricsTranslationPipeline.confidence = 0\<rparr> w0)"
  by (rule ext) (simp add: translateFromSongInfo_def translateFromAudio_def Let_def)

lemma keeps_translateFromSongInfo: "keeps audioErrors (translateFromSongInfo e a t tgt src)"
  unfolding translateFromSongInfo_skips_recognition
  by (intro keeps_rules keeps_primitives keeps_step2) simp

lemma keeps_translateLyricsOnly:
  "keeps audioErrors (translateLyricsOnly e lyr tgt src info)"
  "keeps lyricsErrors (translateLyricsOnly e lyr tgt src info)"
  unfolding translateLyricsOnly_def[abs_def] Let_def
  by (intro keeps_rules keeps_primitives keeps_translateWithRetry keeps_finish)+


subsection \<open>The errors lists across runs\<close>

lemma first_run_world:
  "snd (translateFromAudio demoEnv [] demoOptions newWorld) =
     \<lparr>rateLimiter =
        \<lparr>limits = [''audioRecognition_acrCloud'' \<mapsto>
                     \<lparr>remaining = 498, resetTime = Fin 2592000001, lastRequest = 3\<rparr>,
                   ''audioRecognition_auddIo'' \<mapsto>
                     \<lparr>remaining = 998, resetTime = Fin 2592000002, lastRequest = 4\<rparr>],
         requestCounts = [''audioRecognition_acrCloud'' \<mapsto> [1, 3],
                          ''audioRecognition_auddIo'' \<mapsto> [2, 4]]\<rparr>,
      audioErrors = noCredentialsErrors, lyricsErrors = [], translationErrors = [],
      reads = 6, calls = 4,
      trace = [Admission ''audioRecognition_acrCloud'' True, Invoked ''acrCloud'',
               Admission ''audioRecognition_auddIo'' True, Invoked ''auddIo'',
               Admission ''audioRecognition_acrCloud'' True, Invoked ''acrCloud'',
               Admission ''audioRecognition_auddIo'' True, Invoked ''auddIo'']\<rparr>"
  by (simp add: translateFromAudio_def recognizeAudioWithRetry_unrolled recognizeAudio_def
        finish_eq pushError_def demoOptions_def demoEnv_def noCredentialsErrors_def limiter_eval)

text \<open>
  In general, a run that does not call a stage's dispatcher leaves that service's errors
  list as it found it.
\<close>

lemma skipped_stage_errors_persist:
  "audioErrors (snd (translateFromSongInfo e a t tgt src w)) = audioErrors w"
  "audioErrors (snd (translateLyricsOnly e lyr tgt src info w)) = audioErrors w"
  "lyricsErrors (snd (translateLyricsOnly e lyr tgt src info w)) = lyricsErrors w"
  using keeps_translateFromSongInfo[of e a t tgt src] keeps_translateLyricsOnly[of e lyr tgt src info]
  by (simp_all add: keeps_def)

text \<open>
  No decision of the pipeline reads the errors lists: started in two worlds that differ
  only in what the three lists hold, each entry point returns the same pipeline and
  leaves the same rate limiter (and worlds that again differ only in the errors lists).
  Each dispatcher clears its own list when it starts, so what a dispatcher call leaves in
  its list does not depend on what the list held before.
\<close>

lemma outcome_blind_to_errors_lists:
  "(sameButErrors w w' \<longrightarrow>
       fst (translateFromAudio e audioBuffer options w) = fst (translateFromAudio e audioBuffer options w')
     \<and> sameButErrors (snd (translateFromAudio e audioBuffer options w))
                      (snd (translateFromAudio e audioBuffer options w'))
     \<and> fst (translateFromSongInfo e a t tgt src w) = fst (translateFromSongInfo e a t tgt src w')
     \<and> sameButErrors (snd (translateFromSongInfo e a t tgt src w))
                      (snd (translateFromSongInfo e a t tgt src w'))
     \<and> fst (translateLyricsOnly e lyr tgt src info w) = fst (translateLyricsOnly e lyr tgt src info w')
     \<and> sameButErrors (snd (translateLyricsOnly e lyr tgt src info w))
                      (snd (translateLyricsOnly e lyr tgt src info w'))
     \<and> fst (batchTranslate e reqs w) = fst (batchTranslate e reqs w')
     \<and> sameButErrors (snd (batchTranslate e reqs w)) (snd (batchTranslate e reqs w')))
   \<and> recognizeAudio e audioBuffer (w\<lparr>audioErrors := x\<rparr>) = recognizeAudio e audioBuffer w
   \<and> getLyrics e a t (w\<lparr>lyricsErrors := x\<rparr>) = getLyrics e a t w
   \<and> translateText e lyr tgt src (w\<lparr>translationErrors := x\<rparr>) = translateText e lyr tgt src w"
proof (intro conjI impI)
  assume r: "sameButErrors w w'"
  show "fst (translateFromAudio e audioBuffer options w) = fst (translateFromAudio e audioBuffer options w')"
    and "sameButErrors (snd (translateFromAudio e audioBuffer options w))
                      (snd (translateFromAudio e audioBuffer options w'))"
    using eb_D[OF eb_translateFromAudio r] by simp_all
  show "fst (translateFromSongInfo e a t tgt src w) = fst (translateFromSongInfo e a t tgt src w')"
    and "sameButErrors (snd (translateFromSongInfo e a t tgt src w))
                      (snd (translateFromSongInfo e a t tgt src w'))"
    using eb_D[OF eb_translateFromSongInfo r] by simp_all
  show "fst (translateLyricsOnly e lyr tgt src info w) = fst (translateLyricsOnly e lyr tgt src info w')"
    and "sameButErrors (snd (translateLyricsOnly e lyr tgt src info w))
                      (snd (translateLyricsOnly e lyr tgt src info w'))"
    using eb_D[OF eb_translateLyricsOnly r] by simp_all
  show "fst (batchTranslate e reqs w) = fst (batchTranslate e reqs w')"
    and "sameButErrors (snd (batchTranslate e reqs w)) (snd (batchTranslate e reqs w'))"
    using eb_D[OF eb_batchTranslate r] by simp_all
next
  show "recognizeAudio e audioBuffer (w\<lparr>audioErrors := x\<rparr>) = recognizeAudio e audioBuffer w"
    by (simp add: recognizeAudio_def del: recognizeAudio_loop.simps)
  show "getLyrics e a t (w\<lparr>lyricsErrors := x\<rparr>) = getLyrics e a t w"
    by (simp add: getLyrics_def del: getLyrics_loop.simps)
  show "translateText e lyr tgt src (w\<lparr>translationErrors := x\<rparr>) = translateText e lyr tgt src w"
    by (simp add: translateText_def)
qed

lemma outcome_blind_to_errors_lists_example:
  "sameButErrors (newWorld\<lparr>audioErrors := noCredentialsErrors\<rparr>) newWorld
   \<and> audioErrors (newWorld\<lparr>audioErrors := noCredentialsErrors\<rparr>) \<noteq> audioErrors newWorld
   \<and> fst (translateFromSongInfo demoEnv ''Beatles'' ''Yesterday'' ''es'' None
            (newWorld\<lparr>audioErrors := noCredentialsErrors\<rparr>))
     = fst (translateFromSongInfo demoEnv ''Beatles'' ''Yesterday'' ''es'' None newWorld)
   \<and> rateLimiter (snd (translateFromSongInfo demoEnv ''Beatles'' ''Yesterday'' ''es'' None
            (newWorld\<lparr>audioErrors := noCredentialsErrors\<rparr>)))
     = rateLimiter (snd (translateFromSongInfo demoEnv ''Beatles'' ''Yesterday'' ''es'' None newWorld))"
proof -
  have h: "sameButErrors (newWorld\<lparr>audioErrors := noCredentialsErrors\<rparr>) newWorld"
    by (simp add: sameButErrors_def)
  have d: "audioErrors (newWorld\<lparr>audioErrors := noCredentialsErrors\<rparr>) \<noteq> audioErrors newWorld"
    by (simp add: newWorld_def noCredentialsErrors_def)
  from outcome_blind_to_errors_lists[of "newWorld\<lparr>audioErrors := noCredentialsErrors\<rparr>" newWorld
      demoEnv _ _ "''Beatles''" "''Yesterday''" "''es''" None, THEN conjunct1, rule_format, OF h]
  show ?thesis using h d by (simp add: sameButErrors_def)
qed

text \<open>
  C5. The errors lists are not scoped to one pipeline run. First run: the full pipeline
  with no recogniser configured, which leaves the two recognition errors in the
  recognition service's list. Second run: the song-info pipeline, which never calls the
  recognition dispatcher, so nothing clears that list; the run succeeds with no error of
  its own. \<open>getAllErrors\<close>, documented as returning the errors of the last operation,
  then returns the two errors of the first run.
\<close>

theorem stale_errors_survive_the_next_run:
  "audioErrors (snd (translateFromAudio demoEnv [] demoOptions newWorld)) = noCredentialsErrors
   \<and> map_sum id errors
        (fst (translateFromSongInfo demoEnv ''Beatles'' ''Yesterday'' ''es'' None
               (snd (translateFromAudio demoEnv [] demoOptions newWorld)))) = Inr []
   \<and> getAllErrors
        (snd (translateFromSongInfo demoEnv ''Beatles'' ''Yesterday'' ''es'' None
               (snd (translateFromAudio demoEnv [] demoOptions newWorld)))) = noCredentialsErrors
   \<and> noCredentialsErrors \<noteq> []"
  unfolding first_run_world
  by (simp add: getAllErrors_def translateFromSongInfo_def translateFromAudio_def
        translateFromAudio_step2_def translateFromAudio_step3_def
        getLyricsWithRetry_unrolled getLyrics_def translateWithRetry_unrolled translateText_def
        isSupported_es splitTextIntoChunks_def yesterdayLyrics_def ayerTranslation_def trim_def
        isWhiteSpace_def finish_eq pushError_def noCredentialsErrors_def demoEnv_def limiter_eval)

section \<open>C6: the source tag of a translation\<close>

text \<open>Whatever the providers answer, a translation that is returned is tagged \<open>Combined\<close>.\<close>

lemma translateText_source:
  "translateText e text tgt src w = (Inr (Some r), w1) \<Longrightarrow> TranslationResult.source r = ''Combined''"
  by (auto simp: translateText_def Let_def split: if_splits prod.splits option.splits)

text \<open>
  C6. A populated result is claimed to name the provider that produced it. For the
  translation stage: MyMemory answers the one chunk of the text with a result tagged
  \<open>MyMemory\<close>, no other provider is called, and \<open>translateText\<close> returns the
  translation tagged \<open>Combined\<close>.
\<close>

theorem translation_source_is_Combined:
  "translationAdapter demoEnv 0 myMemory = Returns (Some ayerTranslation)
   \<and> TranslationResult.source ayerTranslation = ''MyMemory''
   \<and> fst (translateText demoEnv ''Yesterday'' ''es'' None newWorld) =
       Inr (Some \<lparr>translatedText = translatedText ayerTranslation,
                  TranslationResult.sourceLanguage = ''en'',
                  TranslationResult.targetLanguage = ''es'',
                  TranslationResult.source = ''Combined''\<rparr>)
   \<and> invoked (trace (snd (translateText demoEnv ''Yesterday'' ''es'' None newWorld))) = [''myMemory'']"
  by (simp add: translateText_def isSupported_es splitTextIntoChunks_def
        rateLimiter_isAllowed_def isAllowed_def requestsOf_def newWorld_def newRateLimiter_def
        callTranslationProvider_def rateLimiter_recordRequest_def Date_now_def recordRequest_def
        translationKey_def demoEnv_def steadyEnv_def ayerTranslation_def Let_def)

section \<open>C7: the health check and the rate limiter\<close>

text \<open>
  C7. \<open>healthCheck\<close> is claimed to leave the rate limiter as it found it. Each
  \<open>hasAvailableService\<close> asks \<open>isAllowed\<close>, which books a slot when it answers true: on a
  fresh process one health check reports \<open>healthy\<close> and has booked a timestamp for
  ACRCloud, for Lyrics.ovh and for MyMemory.
\<close>

theorem healthCheck_books_slots:
  "requestsOf (rateLimiter newWorld) (audioKey acrCloud) = []
   \<and> status (fst (healthCheck e newWorld)) = healthy
   \<and> requestsOf (rateLimiter (snd (healthCheck e newWorld))) (audioKey acrCloud) = [clock e 0]
   \<and> requestsOf (rateLimiter (snd (healthCheck e newWorld))) (lyricsKey lyricsOvh) = [clock e 1]
   \<and> requestsOf (rateLimiter (snd (healthCheck e newWorld))) (translationKey myMemory) = [clock e 2]
   \<and> trace (snd (healthCheck e newWorld)) =
       [Admission (audioKey acrCloud) True, Admission (lyricsKey lyricsOvh) True,
        Admission (translationKey myMemory) True]"
  by (simp add: healthCheck_def audio_hasAvailableService_def lyrics_hasAvailableService_def
        translation_hasAvailableService_def rateLimiter_isAllowed_def Date_now_def
        isAllowed_def requestsOf_def newWorld_def newRateLimiter_def
        audioKey_def lyricsKey_def translationKey_def Let_def numeral_2_eq_2)

section \<open>C8: when a stage is tried again\<close>

text \<open>
  C8, as stated, fails: no lyrics provider knows the song, each answers \<open>null\<close>, so the
  first \<open>getLyrics\<close> returns \<open>null\<close> without any exception and without recording an
  error; the wrapper still runs the whole fallback list a second time (six provider calls
  in all), and with no delay between the two attempts.
\<close>

theorem clean_null_is_retried:
  "fst (getLyrics unknownSongEnv ''Beatles'' ''Yesterday'' newWorld) = Inr None
   \<and> fst (getLyricsWithRetry unknownSongEnv ''Beatles'' ''Yesterday'' newWorld) = Inr None
   \<and> lyricsErrors (snd (getLyricsWithRetry unknownSongEnv ''Beatles'' ''Yesterday'' newWorld)) = []
   \<and> invoked (trace (snd (getLyricsWithRetry unknownSongEnv ''Beatles'' ''Yesterday'' newWorld)))
       = [''lyricsOvh'', ''musixmatch'', ''lyricsApi'', ''lyricsOvh'', ''musixmatch'', ''lyricsApi'']
   \<and> delays (trace (snd (getLyricsWithRetry unknownSongEnv ''Beatles'' ''Yesterday'' newWorld))) = []"
  by (simp add: getLyricsWithRetry_unrolled getLyrics_def unknownSongEnv_def limiter_eval)

text \<open>
  C8, amended. Each stage wrapper makes at most two attempts. The second attempt is made
  exactly when the first did not return a populated result, whether it threw or returned
  cleanly with \<open>null\<close> (or, for lyrics and translation, with blank text); the fixed delay of
  1000 ms comes before the second attempt only when the first one threw. The wrapper
  itself never throws.
\<close>

theorem retry_unless_populated:
  "recognizeAudioWithRetry e audioBuffer w =
    (case recognizeAudio e audioBuffer w of
       (Inr result, w1) \<Rightarrow>
         if result \<noteq> None then (Inr result, w1)
         else (case recognizeAudio e audioBuffer w1 of
                 (Inr result2, w2) \<Rightarrow> (Inr result2, w2)
               | (Inl err2, w2) \<Rightarrow> (Inr None, w2))
     | (Inl err, w1) \<Rightarrow>
         (case recognizeAudio e audioBuffer (delay retryDelay w1) of
            (Inr result2, w2) \<Rightarrow> (Inr result2, w2)
          | (Inl err2, w2) \<Rightarrow> (Inr None, w2)))
   \<and> getLyricsWithRetry e a t w =
    (case getLyrics e a t w of
       (Inr result, w1) \<Rightarrow>
         if populatedLyrics result then (Inr result, w1)
         else (case getLyrics e a t w1 of
                 (Inr result2, w2) \<Rightarrow> (Inr (if populatedLyrics result2 then result2 else None), w2)
               | (Inl err2, w2) \<Rightarrow> (Inr None, w2))
     | (Inl err, w1) \<Rightarrow>
         (case getLyrics e a t (delay retryDelay w1) of
            (Inr result2, w2) \<Rightarrow> (Inr (if populatedLyrics result2 then result2 else None), w2)
          | (Inl err2, w2) \<Rightarrow> (Inr None, w2)))
   \<and> translateWithRetry e text tgt src w =
    (case translateText e text tgt src w of
       (Inr result, w1) \<Rightarrow>
         if populatedTranslation result then (Inr result, w1)
         else (case translateText e text tgt src w1 of
                 (Inr result2, w2) \<Rightarrow>
                   (Inr (if populatedTranslation result2 then result2 else None), w2)
               | (Inl err2, w2) \<Rightarrow> (Inr None, w2))
     | (Inl err, w1) \<Rightarrow>
         (case translateText e text tgt src (delay retryDelay w1) of
            (Inr result2, w2) \<Rightarrow>
              (Inr (if populatedTranslation result2 then result2 else None), w2)
          | (Inl err2, w2) \<Rightarrow> (Inr None, w2)))
   \<and> retryDelay = 1000"
  using recognizeAudioWithRetry_unrolled[of e audioBuffer w] getLyricsWithRetry_unrolled[of e a t w]
    translateWithRetry_unrolled[of e "text" tgt src w]
  by (simp only: retryDelay_def simp_thms)

section \<open>C9: a batch is processed item by item\<close>

lemma translateFromSongInfo_missing:
  "a = [] \<or> t = [] \<Longrightarrow>
   translateFromSongInfo e a t tgt src w =
     (Inr \<lparr>LyricsTranslationPipeline.audioRecognition = None, lyrics = None, translation = None,
           errors = [missingSongInfo],
           processingTime = clock e (Suc (reads w)) - clock e (reads w), confidence = 0\<rparr>,
      w\<lparr>reads := Suc (Suc (reads w))\<rparr>)"
  by (simp add: translateFromSongInfo_def translateFromAudio_def translateFromAudio_step2_def
        finish_eq pushError_def missingSongInfo_def Date_now_def Let_def)

lemma translateRequest_missing:
  "BatchRequest.artist request = [] \<or> BatchRequest.title request = [] \<Longrightarrow>
   translateRequest e request w =
     (Inr \<lparr>LyricsTranslationPipeline.audioRecognition = None, lyrics = None, translation = None,
           errors = [missingSongInfo],
           processingTime = clock e (Suc (reads w)) - clock e (reads w), confidence = 0\<rparr>,
      w\<lparr>reads := Suc (Suc (reads w))\<rparr>)"
  unfolding translateRequest_def by (rule translateFromSongInfo_missing)

text \<open>
  C9. \<open>batchTranslate\<close> returns normally with exactly one pipeline per request, in the
  order of the requests: pipeline \<open>i\<close> is what \<open>translateFromSongInfo\<close> returns for request
  \<open>i\<close> in the world left by the requests before it. A request whose artist or title is
  empty gets the pipeline holding just the missing-song-info error, and its processing
  changes nothing but the clock (the rate limiter, the errors lists and the providers are
  not touched), so the requests after it are processed as usual.
\<close>

theorem batch_isolation:
  "\<exists>ps w1. batchTranslate e reqs w = (Inr ps, w1)
     \<and> length ps = length reqs
     \<and> (\<forall>i<length reqs.
           fst (translateRequest e (reqs ! i) (worldBefore e reqs i w)) = Inr (ps ! i))
     \<and> (\<forall>i<length reqs.
           BatchRequest.artist (reqs ! i) = [] \<or> BatchRequest.title (reqs ! i) = [] \<longrightarrow>
             errors (ps ! i) = [missingSongInfo]
           \<and> LyricsTranslationPipeline.lyrics (ps ! i) = None
           \<and> LyricsTranslationPipeline.translation (ps ! i) = None
           \<and> snd (translateRequest e (reqs ! i) (worldBefore e reqs i w))
               = (worldBefore e reqs i w)\<lparr>reads := Suc (Suc (reads (worldBefore e reqs i w)))\<rparr>)"
proof -
  from batchTranslate_loop_items[of e reqs "[]" w]
  obtain ps w1 where run: "batchTranslate_loop e reqs [] w = (ps, w1)"
    and len: "length ps = length reqs"
    and items: "\<forall>i<length reqs.
           fst (translateRequest e (reqs ! i) (worldBefore e reqs i w)) = Inr (ps ! i)"
    by auto
  have bad: "\<forall>i<length reqs.
           BatchRequest.artist (reqs ! i) = [] \<or> BatchRequest.title (reqs ! i) = [] \<longrightarrow>
             errors (ps ! i) = [missingSongInfo]
           \<and> LyricsTranslationPipeline.lyrics (ps ! i) = None
           \<and> LyricsTranslationPipeline.translation (ps ! i) = None
           \<and> snd (translateRequest e (reqs ! i) (worldBefore e reqs i w))
               = (worldBefore e reqs i w)\<lparr>reads := Suc (Suc (reads (worldBefore e reqs i w)))\<rparr>"
  proof (intro allI impI)
    fix i assume i: "i < length reqs"
      and empty: "BatchRequest.artist (reqs ! i) = [] \<or> BatchRequest.title (reqs ! i) = []"
    from items i have "Inr (ps ! i) = fst (translateRequest e (reqs ! i) (worldBefore e reqs i w))"
      by simp
    then have "ps ! i =
        \<lparr>LyricsTranslationPipeline.audioRecognition = None, lyrics = None, translation = None,
           errors = [missingSongInfo],
           processingTime = clock e (Suc (reads (worldBefore e reqs i w)))
                            - clock e (reads (worldBefore e reqs i w)),
           confidence = 0\<rparr>"
      unfolding translateRequest_missing[OF empty] by simp
    then show "errors (ps ! i) = [missingSongInfo]
           \<and> LyricsTranslationPipeline.lyrics (ps ! i) = None
           \<and> LyricsTranslationPipeline.translation (ps ! i) = None
           \<and> snd (translateRequest e (reqs ! i) (worldBefore e reqs i w))
               = (worldBefore e reqs i w)\<lparr>reads := Suc (Suc (reads (worldBefore e reqs i w)))\<rparr>"
      by (simp add: translateRequest_missing[OF empty])
  qed
  show ?thesis using run len items bad by (simp add: batchTranslate_def)
qed


lemma demoBatch_run:
  "(case fst (batchTranslate demoEnv demoBatch newWorld) of
      Inl err \<Rightarrow> False
    | Inr ps \<Rightarrow>
        map errors ps = [[], [missingSongInfo], []]
      \<and> map LyricsTranslationPipeline.lyrics ps = [Some yesterdayLyrics, None, Some yesterdayLyrics]
      \<and> map (\<lambda>p. map_option translatedText (LyricsTranslationPipeline.translation p)) ps
          = [Some (translatedText ayerTranslation), None, Some (translatedText ayerTranslation)])"
  by (simp add: batchTranslate_def demoBatch_def translateFromSongInfo_def translateFromAudio_def
        translateFromAudio_step2_def translateFromAudio_step3_def
        getLyricsWithRetry_unrolled getLyrics_def translateWithRetry_unrolled translateText_def
        isSupported_es splitTextIntoChunks_def yesterdayLyrics_def ayerTranslation_def trim_def
        isWhiteSpace_def finish_eq pushError_def missingSongInfo_def demoEnv_def limiter_eval)


theorem batch_isolation_witness:
  "length demoBatch = 3
   \<and> BatchRequest.artist (demoBatch ! 1) = []
   \<and> (\<exists>ps w1. batchTranslate demoEnv demoBatch newWorld = (Inr ps, w1)
         \<and> length ps = 3
         \<and> errors (ps ! 1) = [missingSongInfo]
         \<and> LyricsTranslationPipeline.translation (ps ! 1) = None
         \<and> errors (ps ! 0) = []
         \<and> map_option translatedText (LyricsTranslationPipeline.translation (ps ! 0))
             = Some (translatedText ayerTranslation)
         \<and> errors (ps ! 2) = []
         \<and> map_option translatedText (LyricsTranslationPipeline.translation (ps ! 2))
             = Some (translatedText ayerTranslation))"
proof -
  have len: "length demoBatch = 3" by (simp add: demoBatch_def)
  have empty: "BatchRequest.artist (demoBatch ! 1) = []" by (simp add: demoBatch_def)
  from batch_isolation[of demoEnv demoBatch newWorld]
  obtain ps w1 where run: "batchTranslate demoEnv demoBatch newWorld = (Inr ps, w1)"
    and n: "length ps = length demoBatch"
    and bad: "\<forall>i<length demoBatch.
           BatchRequest.artist (demoBatch ! i) = [] \<or> BatchRequest.title (demoBatch ! i) = [] \<longrightarrow>
             errors (ps ! i) = [missingSongInfo]
           \<and> LyricsTranslationPipeline.lyrics (ps ! i) = None
           \<and> LyricsTranslationPipeline.translation (ps ! i) = None
           \<and> snd (translateRequest demoEnv (demoBatch ! i) (worldBefore demoEnv demoBatch i newWorld))
               = (worldBefore demoEnv demoBatch i newWorld)
                   \<lparr>reads := Suc (Suc (reads (worldBefore demoEnv demoBatch i newWorld)))\<rparr>"
    by (elim exE conjE)
  have second: "errors (ps ! 1) = [missingSongInfo]
      \<and> LyricsTranslationPipeline.translation (ps ! 1) = None"
    using bad len empty by auto
  have others: "map errors ps = [[], [missingSongInfo], []]
      \<and> map (\<lambda>p. map_option translatedText (LyricsTranslationPipeline.translation p)) ps
          = [Some (translatedText ayerTranslation), None, Some (translatedText ayerTranslation)]"
    using demoBatch_run run by simp
  obtain p0 p1 p2 where ps: "ps = [p0, p1, p2]"
    using n len by (cases ps; cases "tl ps"; cases "tl (tl ps)") auto
  show ?thesis using len empty run n second others unfolding ps by simp
qed

section \<open>C10: an unsupported target language\<close>

lemma translateText_unsupported:
  "\<not> isSupportedLanguage tgt \<Longrightarrow>
   translateText e text tgt src w =
     (Inl (Error (''Unsupported target language: '' @ tgt)), w\<lparr>translationErrors := []\<rparr>)"
  by (simp add: translateText_def)

lemma translateWithRetry_unsupported:
  "\<not> isSupportedLanguage tgt \<Longrightarrow>
   translateWithRetry e text tgt src w =
     (Inr None, w\<lparr>translationErrors := [], trace := trace w @ [Delay 1000]\<rparr>)"
  by (simp add: translateWithRetry_unrolled translateText_unsupported delay_def retryDelay_def)

text \<open>
  C10. For a target language code that is not in the supported list, \<open>translateLyricsOnly\<close>
  returns normally; the pipeline has no translation, a non-empty \<open>errors\<close> array and the
  caller's lyrics with source \<open>Manual\<close>; the rate limiter is left as it was, \<open>isAllowed\<close>
  is never asked and no provider is called (the log only gains the delay between the two
  attempts, each of which \<open>translateText\<close> rejects at once).
\<close>

theorem unsupported_target_language:
  assumes "\<not> isSupportedLanguage tgt"
  shows "\<exists>p w1. translateLyricsOnly e lyr tgt src info w = (Inr p, w1)
           \<and> LyricsTranslationPipeline.translation p = None
           \<and> errors p = [\<lparr>service = ''translation'',
                            error = ''Failed to translate lyrics from all available services'',
                            retryAfter = None\<rparr>]
           \<and> errors p \<noteq> []
           \<and> LyricsTranslationPipeline.lyrics p = Some (manualLyrics lyr info)
           \<and> LyricsResult.lyrics (manualLyrics lyr info) = lyr
           \<and> LyricsResult.source (manualLyrics lyr info) = ''Manual''
           \<and> rateLimiter w1 = rateLimiter w
           \<and> calls w1 = calls w
           \<and> trace w1 = trace w @ [Delay 1000]
           \<and> consulted (trace w1) = consulted (trace w)
           \<and> invoked (trace w1) = invoked (trace w)"
  using assms
  by (simp add: translateLyricsOnly_def translateWithRetry_unsupported Date_now_def finish_eq
        pushError_def manualLyrics_def Let_def)

theorem unsupported_target_language_witness:
  "\<not> isSupportedLanguage ''tlh''
   \<and> (\<exists>p w1. translateLyricsOnly demoEnv ''Yesterday'' ''tlh'' None None newWorld = (Inr p, w1)
         \<and> LyricsTranslationPipeline.translation p = None
         \<and> errors p \<noteq> []
         \<and> LyricsTranslationPipeline.lyrics p =
             Some \<lparr>LyricsResult.lyrics = ''Yesterday'', LyricsResult.title = ''Unknown Title'',
                   LyricsResult.artist = ''Unknown Artist'', LyricsResult.source = ''Manual''\<rparr>
         \<and> rateLimiter w1 = newRateLimiter
         \<and> calls w1 = 0
         \<and> trace w1 = [Delay 1000])"
proof -
  have h: "\<not> isSupportedLanguage ''tlh''"
    by (simp add: isSupportedLanguage_def SUPPORTED_LANGUAGES_translation_def)
  from unsupported_target_language[OF h, of demoEnv "''Yesterday''" None None newWorld]
  show ?thesis using h by (auto simp: manualLyrics_def newWorld_def)
qed

end
